theory Spec2Isabelle
  imports Complex_Main
begin

unbundle bit_operations_syntax

section \<open>Machine arithmetic of the C core\<close>

text \<open>
  Unsigned C values (\<^verbatim>\<open>UINT8\<close>, \<^verbatim>\<open>UINT16\<close>, \<^verbatim>\<open>UINT32\<close>, \<^verbatim>\<open>UINT64\<close>) are
  natural numbers, reduced modulo the width where the C code can leave the range.
  Signed values (\<^verbatim>\<open>INT16\<close>, \<^verbatim>\<open>INT32\<close>, \<^verbatim>\<open>INT64\<close>) are integers; a conversion
  to a narrower signed type wraps in two's complement, as every compiler the core is
  built with does. An arithmetic right shift of a signed value is \<open>drop_bit\<close> on
  \<open>int\<close> (division rounding towards minus infinity).
\<close>

definition s16 :: "int \<Rightarrow> int" where
  "s16 x = (x + 32768) mod 65536 - 32768"

definition s32 :: "int \<Rightarrow> int" where
  "s32 x = (x + 2147483648) mod 4294967296 - 2147483648"

definition u32 :: "nat \<Rightarrow> nat" where
  "u32 x = x mod 4294967296"

definition u64 :: "int \<Rightarrow> nat" where
  "u64 x = nat (x mod 18446744073709551616)"

definition s64 :: "int \<Rightarrow> int" where
  "s64 x = (x + 9223372036854775808) mod 18446744073709551616 - 9223372036854775808"

text \<open>C integer division truncates towards zero.\<close>

definition c_div :: "int \<Rightarrow> int \<Rightarrow> int" where
  "c_div a b = sgn a * sgn b * (\<bar>a\<bar> div \<bar>b\<bar>)"

text \<open>
  \<^verbatim>\<open>double\<close> values are idealised as real numbers. The conversion \<^verbatim>\<open>(int)x\<close>
  truncates towards zero; the result is reduced to 32 bits.
\<close>

definition trunc_real :: "real \<Rightarrow> int" where
  "trunc_real x = (if 0 \<le> x then \<lfloor>x\<rfloor> else \<lceil>x\<rceil>)"

definition double_to_int :: "real \<Rightarrow> int" where
  "double_to_int x = s32 (trunc_real x)"

definition double_to_uint32 :: "real \<Rightarrow> nat" where
  "double_to_uint32 x = nat (trunc_real x mod 4294967296)"

section \<open>Constants\<close>

definition STD_CLOCK :: nat where "STD_CLOCK = 16934400"

definition MAXOUT :: int where "MAXOUT = 32768"
definition MINOUT :: int where "MINOUT = - 32768"

definition ACC_18BIT_MAX :: int where "ACC_18BIT_MAX = 131071"
definition ACC_18BIT_MIN :: int where "ACC_18BIT_MIN = - 131072"

definition SIN_BITS :: nat where "SIN_BITS = 10"
definition SIN_LEN :: nat where "SIN_LEN = 1024"
definition SIN_MASK :: nat where "SIN_MASK = 1023"

definition LFO_LENGTH :: nat where "LFO_LENGTH = 256"
definition LFO_SHIFT :: nat where "LFO_SHIFT = 8"

definition ENV_ATTACK :: int where "ENV_ATTACK = 0"
definition ENV_DECAY1 :: int where "ENV_DECAY1 = 1"
definition ENV_DECAY2 :: int where "ENV_DECAY2 = 2"
definition ENV_RELEASE :: int where "ENV_RELEASE = 3"

definition OP_INPUT_FEEDBACK :: int where "OP_INPUT_FEEDBACK = - 1"
definition OP_INPUT_NONE :: int where "OP_INPUT_NONE = - 2"

definition ENV_VOLUME_SHIFT :: nat where "ENV_VOLUME_SHIFT = 16"

definition ACC_TL_SCALE :: int where "ACC_TL_SCALE = 2"

text \<open>Slot mapping tables; the entry \<open>- 1\<close> marks an invalid address.\<close>

definition fm_tab :: "int list" where
  "fm_tab = [0, 1, 2, - 1, 3, 4, 5, - 1, 6, 7, 8, - 1, 9, 10, 11, - 1]"

definition pcm_tab :: "int list" where
  "pcm_tab = [0, 4, 8, - 1, 12, 16, 20, - 1, 24, 28, 32, - 1, 36, 40, 44, - 1]"

definition feedback_level :: "int list" where
  "feedback_level = [0, 1, 2, 4, 8, 16, 32, 64]"

definition modulation_level :: "int list" where
  "modulation_level = [16, 8, 4, 2, 1, 32, 64, 128]"

section \<open>Data model\<close>

record YMF271Slot =
  ext_en :: nat
  ext_out :: nat
  lfoFreq :: nat
  lfowave :: nat
  pms :: nat
  ams :: nat
  detune :: nat
  multiple :: nat
  tl_reg :: nat
  keyscale :: nat
  ar :: nat
  decay1rate :: nat
  decay2rate :: nat
  decay1lvl :: nat
  relrate :: nat
  block :: nat
  fns_hi :: nat
  fns :: nat
  feedback :: nat
  waveform :: nat
  accon :: nat
  algorithm :: nat
  ch0_level :: nat
  ch1_level :: nat
  ch2_level :: nat
  ch3_level :: nat
  startaddr :: nat
  loopaddr :: nat
  endaddr :: nat
  altloop :: nat
  fs :: nat
  srcnote :: nat
  srcb :: nat
  step :: nat
  stepptr :: nat
  active :: nat
  bits :: nat
  volume :: int
  env_state :: int
  env_attack_step :: int
  env_decay1_step :: int
  env_decay2_step :: int
  env_release_step :: int
  feedback_modulation0 :: int
  feedback_modulation1 :: int
  lfo_phase :: int
  lfo_step :: int
  lfo_amplitude :: int
  lfo_phasemod :: real
  loop_direction :: int

record YMF271Group =
  sync :: nat
  pfm :: nat
  Muted :: nat

text \<open>
  The chip. Arrays are functions from the index. \<open>irq_handler\<close> and
  \<open>ext_write_handler\<close> say whether the callback pointer is non-null; the calls made
  through them are recorded, oldest first, in \<open>irq_calls\<close> (the state argument) and
  \<open>ext_writes\<close> (address and data). \<open>mem_null\<close> says that \<open>mem_base\<close> is the null
  pointer.
\<close>

record YMF271Chip =
  lut_waves :: "nat \<Rightarrow> nat \<Rightarrow> int"
  lut_plfo :: "nat \<Rightarrow> nat \<Rightarrow> nat \<Rightarrow> real"
  lut_alfo :: "nat \<Rightarrow> nat \<Rightarrow> int"
  lut_ar :: "nat \<Rightarrow> real"
  lut_dc :: "nat \<Rightarrow> real"
  lut_lfo :: "nat \<Rightarrow> real"
  lut_attenuation :: "nat \<Rightarrow> int"
  lut_total_level :: "nat \<Rightarrow> int"
  lut_env_volume :: "nat \<Rightarrow> int"
  lut_detune :: "nat \<Rightarrow> nat \<Rightarrow> int"
  slots :: "nat \<Rightarrow> YMF271Slot"
  groups :: "nat \<Rightarrow> YMF271Group"
  regs_main :: "nat \<Rightarrow> nat"
  timerA :: nat
  timerB :: nat
  timerAVal :: nat
  timerBVal :: nat
  irqstate :: nat
  status :: nat
  end_status :: nat
  enable :: nat
  ext_address :: nat
  ext_rw :: nat
  ext_readlatch :: nat
  busy_flag :: nat
  mem_null :: bool
  mem_base :: "nat \<Rightarrow> nat"
  mem_size :: nat
  clock :: nat
  mixbuf_smpls :: nat
  mix_buffer :: "nat \<Rightarrow> int"
  acc_buffer :: "nat \<Rightarrow> int"
  irq_handler :: bool
  irq_calls :: "nat list"
  ext_write_handler :: bool
  ext_writes :: "(nat \<times> nat) list"
  debug_envelope :: nat

section \<open>Timers, status and external memory\<close>

definition irq_call :: "nat \<Rightarrow> YMF271Chip \<Rightarrow> YMF271Chip" where
  "irq_call v chip = chip\<lparr>irq_calls := irq_calls chip @ [v]\<rparr>"

definition ymf271_timer_a_tick :: "YMF271Chip \<Rightarrow> YMF271Chip" where
  "ymf271_timer_a_tick chip =
     (let c1 = chip\<lparr>status := status chip OR 1\<rparr> in
      if enable c1 AND 4 \<noteq> 0 then
        (let c2 = c1\<lparr>irqstate := irqstate c1 OR 1\<rparr> in
         if irq_handler c2 then irq_call 1 c2 else c2)
      else c1)"

definition ymf271_timer_b_tick :: "YMF271Chip \<Rightarrow> YMF271Chip" where
  "ymf271_timer_b_tick chip =
     (let c1 = chip\<lparr>status := status chip OR 2\<rparr> in
      if enable c1 AND 8 \<noteq> 0 then
        (let c2 = c1\<lparr>irqstate := irqstate c1 OR 2\<rparr> in
         if irq_handler c2 then irq_call 1 c2 else c2)
      else c1)"

definition ymf271_read_memory_access :: "YMF271Chip \<Rightarrow> nat \<Rightarrow> nat option" where
  "ymf271_read_memory_access chip offset =
     (let off = offset AND 0x7fffff in
      if off < mem_size chip then Some off else None)"

definition ymf271_read_memory :: "YMF271Chip \<Rightarrow> nat \<Rightarrow> nat" where
  "ymf271_read_memory chip offset =
     (case ymf271_read_memory_access chip offset of
        Some off \<Rightarrow> mem_base chip off
      | None \<Rightarrow> 0)"

definition timer_a_reset :: "YMF271Chip \<Rightarrow> YMF271Chip" where
  "timer_a_reset chip =
     (let c1 = chip\<lparr>irqstate := irqstate chip AND 254\<rparr>;
          c2 = c1\<lparr>status := status c1 AND 254\<rparr> in
      if irq_handler c2 \<and> irqstate c2 AND 2 = 0 then irq_call 0 c2 else c2)"

definition timer_b_reset :: "YMF271Chip \<Rightarrow> YMF271Chip" where
  "timer_b_reset chip =
     (let c1 = chip\<lparr>irqstate := irqstate chip AND 253\<rparr>;
          c2 = c1\<lparr>status := status c1 AND 253\<rparr> in
      if irq_handler c2 \<and> irqstate c2 AND 1 = 0 then irq_call 0 c2 else c2)"

definition ymf271_write_timer :: "YMF271Chip \<Rightarrow> nat \<Rightarrow> nat \<Rightarrow> YMF271Chip" where
  "ymf271_write_timer chip address data =
     (if address AND 0xf0 = 0 then
        (let groupnum = fm_tab ! (address AND 0xf) in
         if groupnum = - 1 then chip
         else
           (let g = nat groupnum;
                grp = (groups chip g)\<lparr>sync := data AND 3, pfm := drop_bit 7 data\<rparr>
            in chip\<lparr>groups := (groups chip)(g := grp)\<rparr>))
      else if address = 0x10 then
        chip\<lparr>timerA := (timerA chip AND 0x003) OR push_bit 2 data\<rparr>
      else if address = 0x11 then
        chip\<lparr>timerA := (timerA chip AND 0x3fc) OR (data AND 0x03)\<rparr>
      else if address = 0x12 then
        chip\<lparr>timerB := data\<rparr>
      else if address = 0x13 then
        (let c1 = (if data AND 0x10 \<noteq> 0 then timer_a_reset chip else chip);
             c2 = (if data AND 0x20 \<noteq> 0 then timer_b_reset c1 else c1)
         in c2\<lparr>enable := data\<rparr>)
      else if address = 0x14 then
        chip\<lparr>ext_address := (ext_address chip AND 0xffffff00) OR data\<rparr>
      else if address = 0x15 then
        chip\<lparr>ext_address := (ext_address chip AND 0xffff00ff) OR push_bit 8 data\<rparr>
      else if address = 0x16 then
        chip\<lparr>ext_address := (ext_address chip AND 0xff00ffff) OR push_bit 16 (data AND 0x7f),
             ext_rw := (if data AND 0x80 \<noteq> 0 then 1 else 0)\<rparr>
      else if address = 0x17 then
        (let c1 = chip\<lparr>ext_address := u32 (ext_address chip + 1) AND 0x7fffff\<rparr> in
         if ext_rw c1 = 0 \<and> ext_write_handler c1
         then c1\<lparr>ext_writes := ext_writes c1 @ [(ext_address c1, data)]\<rparr>
         else c1)
      else chip)"

text \<open>
  \<^verbatim>\<open>ymf271_r\<close> returns the byte read and the chip, whose external-memory pointer and
  latch a read of port 2 advances.
\<close>

definition ymf271_r :: "YMF271Chip \<Rightarrow> nat \<Rightarrow> nat \<times> YMF271Chip" where
  "ymf271_r chip offset =
     (if offset AND 0xf = 0x0 then
        ((push_bit 7 (busy_flag chip) OR status chip
            OR push_bit 3 (end_status chip AND 0xf)) mod 256, chip)
      else if offset AND 0xf = 0x1 then
        (drop_bit 4 (end_status chip) mod 256, chip)
      else if offset AND 0xf = 0x2 then
        (if ext_rw chip = 0 then (0xff, chip)
         else
           (let ret = ext_readlatch chip;
                c1 = chip\<lparr>ext_address := u32 (ext_address chip + 1) AND 0x7fffff\<rparr>;
                c2 = c1\<lparr>ext_readlatch := ymf271_read_memory c1 (ext_address c1)\<rparr>
            in (ret, c2)))
      else (0xff, chip))"

section \<open>Reset\<close>

definition reset_slot :: "nat \<Rightarrow> YMF271Chip \<Rightarrow> YMF271Chip" where
  "reset_slot i chip =
     chip\<lparr>slots := (slots chip)(i := (slots chip i)\<lparr>active := 0, volume := 0\<rparr>)\<rparr>"

definition device_reset_ymf271 :: "YMF271Chip \<Rightarrow> YMF271Chip" where
  "device_reset_ymf271 chip =
     (let c1 = fold reset_slot [0..<48] chip;
          c2 = c1\<lparr>irqstate := 0, status := 0, end_status := 0, enable := 0,
                  busy_flag := 0, debug_envelope := 0\<rparr>
      in if irq_handler c2 then irq_call 0 c2 else c2)"

section \<open>Constant tables\<close>

text \<open>\<^verbatim>\<open>INF\<close> marks the rates 0 to 3, whose envelope time is infinite.\<close>

definition INF_c :: real where "INF_c = - 1"

definition ARTime :: "real list" where
  "ARTime = [
    INF_c, INF_c, INF_c, INF_c, 6188.12, 4980.68, 4144.76, 3541.04,
    3094.06, 2490.34, 2072.38, 1770.52, 1547.03, 1245.17, 1036.19, 885.26,
    773.51, 622.59, 518.10, 441.63, 386.76, 311.29, 259.05, 221.32,
    193.38, 155.65, 129.52, 110.66, 96.69, 77.82, 64.76, 55.33,
    48.34, 38.91, 32.38, 27.66, 24.17, 19.46, 16.19, 13.83,
    12.09, 9.73, 8.10, 6.92, 6.04, 4.86, 4.05, 3.46,
    3.02, 2.47, 2.14, 1.88, 1.70, 1.38, 1.16, 1.02,
    0.88, 0.70, 0.57, 0.48, 0.43, 0.43, 0.43, 0.07]"

definition DCTime :: "real list" where
  "DCTime = [
    INF_c, INF_c, INF_c, INF_c, 93599.64, 74837.91, 62392.02, 53475.56,
    46799.82, 37418.96, 31196.01, 26737.78, 23399.91, 18709.48, 15598.00, 13368.89,
    11699.95, 9354.74, 7799.00, 6684.44, 5849.98, 4677.37, 3899.50, 3342.22,
    2924.99, 2338.68, 1949.75, 1671.11, 1462.49, 1169.34, 974.88, 835.56,
    731.25, 584.67, 487.44, 417.78, 365.62, 292.34, 243.72, 208.89,
    182.81, 146.17, 121.86, 104.44, 91.41, 73.08, 60.93, 52.22,
    45.69, 36.55, 33.85, 26.09, 22.83, 18.28, 15.22, 13.03,
    11.41, 9.12, 7.60, 6.51, 5.69, 5.69, 5.69, 5.69]"

definition LFO_frequency_table :: "real list" where
  "LFO_frequency_table = [
    0.00066, 0.00068, 0.00070, 0.00073, 0.00075, 0.00078, 0.00081, 0.00084,
    0.00088, 0.00091, 0.00096, 0.00100, 0.00105, 0.00111, 0.00117, 0.00124,
    0.00131, 0.00136, 0.00140, 0.00145, 0.00150, 0.00156, 0.00162, 0.00168,
    0.00175, 0.00183, 0.00191, 0.00200, 0.00210, 0.00221, 0.00234, 0.00247,
    0.00263, 0.00271, 0.00280, 0.00290, 0.00300, 0.00312, 0.00324, 0.00336,
    0.00350, 0.00366, 0.00382, 0.00401, 0.00421, 0.00443, 0.00467, 0.00495,
    0.00526, 0.00543, 0.00561, 0.00580, 0.00601, 0.00623, 0.00647, 0.00673,
    0.00701, 0.00731, 0.00765, 0.00801, 0.00841, 0.00885, 0.00935, 0.00990,
    0.01051, 0.01085, 0.01122, 0.01160, 0.01202, 0.01246, 0.01294, 0.01346,
    0.01402, 0.01463, 0.01529, 0.01602, 0.01682, 0.01771, 0.01869, 0.01979,
    0.02103, 0.02171, 0.02243, 0.02320, 0.02403, 0.02492, 0.02588, 0.02692,
    0.02804, 0.02926, 0.03059, 0.03204, 0.03365, 0.03542, 0.03738, 0.03958,
    0.04206, 0.04341, 0.04486, 0.04641, 0.04807, 0.04985, 0.05176, 0.05383,
    0.05608, 0.05851, 0.06117, 0.06409, 0.06729, 0.07083, 0.07477, 0.07917,
    0.08411, 0.08683, 0.08972, 0.09282, 0.09613, 0.09969, 0.10353, 0.10767,
    0.11215, 0.11703, 0.12235, 0.12817, 0.13458, 0.14167, 0.14954, 0.15833,
    0.16823, 0.17365, 0.17944, 0.18563, 0.19226, 0.19938, 0.20705, 0.21533,
    0.22430, 0.23406, 0.24470, 0.25635, 0.26917, 0.28333, 0.29907, 0.31666,
    0.33646, 0.34731, 0.35889, 0.37126, 0.38452, 0.39876, 0.41410, 0.43066,
    0.44861, 0.46811, 0.48939, 0.51270, 0.53833, 0.56666, 0.59814, 0.63333,
    0.67291, 0.69462, 0.71777, 0.74252, 0.76904, 0.79753, 0.82820, 0.86133,
    0.89722, 0.93623, 0.97878, 1.02539, 1.07666, 1.13333, 1.19629, 1.26666,
    1.34583, 1.38924, 1.43555, 1.48505, 1.53809, 1.59509, 1.65640, 1.72266,
    1.79443, 1.87245, 1.95756, 2.05078, 2.15332, 2.26665, 2.39258, 2.53332,
    2.69165, 2.77848, 2.87109, 2.97010, 3.07617, 3.19010, 3.31280, 3.44531,
    3.58887, 3.74490, 3.91513, 4.10156, 4.30664, 4.53331, 4.78516, 5.06664,
    5.38330, 5.55696, 5.74219, 5.94019, 6.15234, 6.38021, 6.62560, 6.89062,
    7.17773, 7.48981, 7.83026, 8.20312, 8.61328, 9.06661, 9.57031, 10.13327,
    10.76660, 11.11391, 11.48438, 11.88039, 12.30469, 12.76042, 13.25120, 13.78125,
    14.35547, 14.97962, 15.66051, 16.40625, 17.22656, 18.13322, 19.14062, 20.26654,
    21.53320, 22.96875, 24.60938, 26.50240, 28.71094, 31.32102, 34.45312, 38.28125,
    43.06641, 49.21875, 57.42188, 68.90625, 86.13281, 114.84375, 172.26562, 344.53125]"

definition RKS_Table :: "int list list" where
  "RKS_Table = [
    [0, 0, 0, 0], [0, 0, 0, 0], [0, 0, 0, 1], [0, 0, 0, 1],
    [0, 0, 1, 2], [0, 0, 1, 2], [0, 0, 1, 3], [0, 0, 1, 3],
    [0, 0, 1, 4], [0, 0, 1, 4], [0, 0, 2, 5], [0, 0, 2, 5],
    [0, 0, 1, 6], [0, 0, 1, 6], [0, 0, 1, 7], [0, 0, 1, 7],
    [0, 0, 2, 8], [0, 0, 2, 8], [0, 0, 2, 9], [0, 0, 2, 9],
    [0, 0, 2, 10], [0, 0, 2, 10], [0, 0, 2, 11], [0, 0, 2, 11],
    [0, 0, 3, 12], [0, 0, 3, 12], [0, 0, 3, 13], [0, 0, 3, 13],
    [0, 0, 3, 14], [0, 0, 3, 14], [0, 0, 3, 15], [0, 0, 3, 15]]"

definition dt_cents :: "real list list" where
  "dt_cents = [
   [0, 0, 0, 0, 0, 0, 0, 0,
    0, 0, 0, 0, 0, 0, 0, 0,
    0, 0, 0, 0, 0, 0, 0, 0,
    0, 0, 0, 0, 0, 0, 0, 0],
   [0.0000, 0.0000, 0.0000, 0.0000, 0.9918, 0.8341, 0.7013, 0.5898,
    0.4960, 0.4171, 0.3507, 0.2949, 0.4960, 0.4171, 0.3507, 0.2949,
    0.2480, 0.3128, 0.2630, 0.2212, 0.2480, 0.2086, 0.1754, 0.1843,
    0.1550, 0.1564, 0.1315, 0.1290, 0.1240, 0.1043, 0.0877, 0.0737],
   [1.9831, 1.6679, 1.4024, 1.1793, 1.9831, 1.6679, 1.4024, 1.1793,
    0.9918, 1.2510, 1.0519, 0.8846, 0.9918, 0.8341, 0.7013, 0.7372,
    0.6200, 0.6256, 0.5260, 0.5160, 0.4960, 0.4171, 0.3945, 0.3686,
    0.3410, 0.3128, 0.2849, 0.2580, 0.2480, 0.2086, 0.1754, 0.1475],
   [3.9639, 3.3341, 2.8036, 2.3578, 1.9831, 2.5012, 2.1031, 1.7687,
    1.9831, 1.6679, 1.4024, 1.4740, 1.2397, 1.2510, 1.0519, 1.0319,
    0.9918, 0.8341, 0.7890, 0.7372, 0.6819, 0.6256, 0.5699, 0.5160,
    0.4960, 0.4432, 0.4164, 0.3686, 0.3410, 0.2868, 0.2411, 0.2028]]"

definition multiple_table :: "real list" where
  "multiple_table = [0.5, 1, 2, 3, 4, 5, 6, 7, 8, 9, 10, 11, 12, 13, 14, 15]"

definition pow_table :: "real list" where
  "pow_table = [128, 256, 512, 1024, 2048, 4096, 8192, 16384, 0.5, 1, 2, 4, 8, 16, 32, 64]"

definition fs_frequency :: "real list" where
  "fs_frequency = [1 / 1, 1 / 2, 1 / 4, 1 / 8]"

definition channel_attenuation_table :: "real list" where
  "channel_attenuation_table =
     [0.0, 2.5, 6.0, 8.5, 12.0, 14.5, 18.1, 20.6, 24.1, 26.6, 30.1, 32.6, 36.1, 96.1, 96.1, 96.1]"

definition representative_fns :: "int list" where
  "representative_fns = [0x400, 0x840, 0x9C0, 0xD40]"

section \<open>Slot kernel: phase step, envelope, LFO, volume\<close>

definition get_internal_keycode :: "nat \<Rightarrow> nat \<Rightarrow> nat" where
  "get_internal_keycode blk f =
     (let n43 = (if f < 0x780 then 0 else if f < 0x900 then 1 else if f < 0xa80 then 2 else 3)
      in ((blk AND 7) * 4) + n43)"

definition get_external_keycode :: "nat \<Rightarrow> nat \<Rightarrow> nat \<Rightarrow> nat \<Rightarrow> nat" where
  "get_external_keycode blk f sb sn =
     (let n43 = (if f < 0x100 then 0 else if f < 0x300 then 1 else if f < 0x500 then 2 else 3);
          src_keycode = (sb * 4) + sn;
          block_keycode = ((blk AND 7) * 4) + n43;
          keycode = src_keycode + block_keycode
      in if keycode > 31 then 31 else keycode)"

definition get_keyscaled_rate :: "int \<Rightarrow> nat \<Rightarrow> nat \<Rightarrow> int" where
  "get_keyscaled_rate rate keycode ks =
     (let newrate = rate + RKS_Table ! keycode ! ks;
          newrate = (if newrate > 63 then 63 else newrate);
          newrate = (if newrate < 0 then 0 else newrate)
      in newrate)"

definition calculate_step :: "YMF271Chip \<Rightarrow> YMF271Slot \<Rightarrow> YMF271Slot" where
  "calculate_step chip slot =
     (if waveform slot = 7 then
        (let st = real (u32 (2 * (fns slot OR 2048))) * pow_table ! block slot
                    * fs_frequency ! fs slot;
             st = st * multiple_table ! multiple slot;
             st = st * lfo_phasemod slot;
             st = st / (524288 / 65536)
         in slot\<lparr>step := double_to_uint32 st\<rparr>)
      else
        (let keycode = get_internal_keycode (block slot) (fns slot);
             detune_offset = lut_detune chip (detune slot) keycode;
             fns_detuned = s32 (int (fns slot) + detune_offset);
             fns_detuned = (if fns_detuned < 0 then 0 else fns_detuned);
             st = real_of_int (s32 (2 * fns_detuned)) * pow_table ! block slot;
             st = st * multiple_table ! multiple slot * real SIN_LEN;
             st = st * lfo_phasemod slot;
             st = st / (536870912 / 65536)
         in slot\<lparr>step := double_to_uint32 st\<rparr>))"

definition check_envelope_end :: "YMF271Slot \<Rightarrow> nat \<times> YMF271Slot" where
  "check_envelope_end slot =
     (if volume slot \<le> 0 then (1, slot\<lparr>active := 0, volume := 0\<rparr>) else (0, slot))"

definition calculate_status_end :: "YMF271Chip \<Rightarrow> nat \<Rightarrow> nat \<Rightarrow> YMF271Chip" where
  "calculate_status_end chip slotnum state =
     (if slotnum AND 3 \<noteq> 0 then chip
      else
        (let subbit = slotnum div 12;
             bankbit = drop_bit 2 (slotnum mod 12)
         in if state = 0
            then chip\<lparr>end_status := unset_bit (subbit + bankbit * 4) (end_status chip)\<rparr>
            else chip\<lparr>end_status :=
                      (end_status chip OR push_bit (subbit + bankbit * 4) 1) mod 65536\<rparr>))"

definition update_envelope :: "YMF271Slot \<Rightarrow> YMF271Slot" where
  "update_envelope slot =
     (if env_state slot = ENV_ATTACK then
        (let s1 = slot\<lparr>volume := s32 (volume slot + env_attack_step slot)\<rparr>
         in if volume s1 \<ge> push_bit ENV_VOLUME_SHIFT 255
            then s1\<lparr>volume := push_bit ENV_VOLUME_SHIFT 255, env_state := ENV_DECAY1\<rparr>
            else s1)
      else if env_state slot = ENV_DECAY1 then
        (let decay_level = 255 - int (push_bit 4 (decay1lvl slot));
             s1 = slot\<lparr>volume := s32 (volume slot - env_decay1_step slot)\<rparr>;
             (ended, s2) = check_envelope_end s1
         in if ended = 0 \<and> drop_bit ENV_VOLUME_SHIFT (volume s2) \<le> decay_level
            then s2\<lparr>env_state := ENV_DECAY2\<rparr>
            else s2)
      else if env_state slot = ENV_DECAY2 then
        snd (check_envelope_end (slot\<lparr>volume := s32 (volume slot - env_decay2_step slot)\<rparr>))
      else if env_state slot = ENV_RELEASE then
        snd (check_envelope_end (slot\<lparr>volume := s32 (volume slot - env_release_step slot)\<rparr>))
      else slot)"

definition env_step :: "int \<Rightarrow> real \<Rightarrow> real \<Rightarrow> int" where
  "env_step rate num tab = (if rate < 4 then 0 else double_to_int ((num / tab) * 65536))"

definition init_envelope :: "YMF271Chip \<Rightarrow> YMF271Slot \<Rightarrow> YMF271Slot" where
  "init_envelope chip slot =
     (let decay_level = 255 - int (push_bit 4 (decay1lvl slot));
          keycode = (if waveform slot \<noteq> 7
                     then get_internal_keycode (block slot) (fns slot)
                     else get_external_keycode (block slot) (fns slot AND 0x7ff)
                            (srcb slot) (srcnote slot));
          rate = get_keyscaled_rate (int (ar slot) * 2) keycode (keyscale slot);
          s1 = slot\<lparr>env_attack_step := env_step rate (255 - 0) (lut_ar chip (nat rate))\<rparr>;
          rate = get_keyscaled_rate (int (decay1rate slot) * 2) keycode (keyscale slot);
          s2 = s1\<lparr>env_decay1_step :=
                    env_step rate (real_of_int (255 - decay_level)) (lut_dc chip (nat rate))\<rparr>;
          rate = get_keyscaled_rate (int (decay2rate slot) * 2) keycode (keyscale slot);
          s3 = s2\<lparr>env_decay2_step := env_step rate (255 - 0) (lut_dc chip (nat rate))\<rparr>;
          rate = get_keyscaled_rate (int (relrate slot) * 4) keycode (keyscale slot);
          s4 = s3\<lparr>env_release_step := env_step rate (255 - 0) (lut_dc chip (nat rate))\<rparr>
      in s4\<lparr>volume := push_bit ENV_VOLUME_SHIFT (255 - 160), env_state := ENV_ATTACK\<rparr>)"

definition init_lfo :: "YMF271Chip \<Rightarrow> YMF271Slot \<Rightarrow> YMF271Slot" where
  "init_lfo chip slot =
     slot\<lparr>lfo_phase := 0,
          lfo_amplitude := lut_alfo chip (lfowave slot) 0,
          lfo_phasemod := lut_plfo chip (lfowave slot) (pms slot) 0,
          lfo_step := double_to_int
            (((real LFO_LENGTH * lut_lfo chip (lfoFreq slot)) / 44100) * 256)\<rparr>"

definition lfo_index :: "int \<Rightarrow> nat" where
  "lfo_index phase = nat (drop_bit LFO_SHIFT phase AND (int LFO_LENGTH - 1))"

definition update_lfo :: "YMF271Chip \<Rightarrow> YMF271Slot \<Rightarrow> YMF271Slot" where
  "update_lfo chip slot =
     (let s1 = slot\<lparr>lfo_phase := s32 (lfo_phase slot + lfo_step slot)\<rparr>;
          s2 = s1\<lparr>lfo_amplitude := lut_alfo chip (lfowave s1) (lfo_index (lfo_phase s1))\<rparr>;
          s3 = s2\<lparr>lfo_phasemod :=
                    lut_plfo chip (lfowave s2) (pms s2) (lfo_index (lfo_phase s2))\<rparr>
      in calculate_step chip s3)"

definition calculate_slot_volume :: "YMF271Chip \<Rightarrow> YMF271Slot \<Rightarrow> int" where
  "calculate_slot_volume chip slot =
     (let lfo_volume =
            (if ams slot = 0 then 65536
             else if ams slot = 1
               then 65536 - drop_bit 16 (s32 (lfo_amplitude slot * 33124))
             else if ams slot = 2
               then 65536 - drop_bit 16 (s32 (lfo_amplitude slot * 16742))
             else if ams slot = 3
               then 65536 - drop_bit 16 (s32 (lfo_amplitude slot * 4277))
             else 65536);
          env_volume =
            drop_bit 16
              (lut_env_volume chip (nat (255 - drop_bit ENV_VOLUME_SHIFT (volume slot)))
                 * lfo_volume)
      in s32 (drop_bit 16 (env_volume * lut_total_level chip (tl_reg slot))))"

section \<open>PCM playback\<close>

text \<open>
  Loop handling at the top of each sample of \<^verbatim>\<open>update_pcm\<close>. The 64-bit pointer
  arithmetic wraps modulo \<open>2 ^ 64\<close>.
\<close>

definition pcm_loop :: "nat \<Rightarrow> YMF271Chip \<Rightarrow> YMF271Chip" where
  "pcm_loop slotnum chip =
     (let slot = slots chip slotnum in
      if loop_direction slot > 0 then
        (if drop_bit 16 (stepptr slot) > endaddr slot then
           (let s1 =
                  (if altloop slot \<noteq> 0 then
                     slot\<lparr>loop_direction := - 1,
                          stepptr := push_bit 16 (endaddr slot) OR (stepptr slot AND 0xffff)\<rparr>
                   else
                     (let a = slot\<lparr>stepptr :=
                                 u64 (int (stepptr slot) - int (push_bit 16 (endaddr slot))
                                        + int (push_bit 16 (loopaddr slot)))\<rparr>
                      in if drop_bit 16 (stepptr a) > endaddr a then
                           (let b = a\<lparr>stepptr := stepptr a AND 0xffff\<rparr>;
                                b = b\<lparr>stepptr := stepptr b OR push_bit 16 (loopaddr b)\<rparr>
                            in if drop_bit 16 (stepptr b) > endaddr b then
                                 (let c = b\<lparr>stepptr := stepptr b AND 0xffff\<rparr>
                                  in c\<lparr>stepptr := stepptr c OR push_bit 16 (endaddr c)\<rparr>)
                               else b)
                         else a));
                c1 = chip\<lparr>slots := (slots chip)(slotnum := s1)\<rparr>
            in calculate_status_end c1 slotnum 1)
         else chip)
      else
        (if drop_bit 16 (stepptr slot) < loopaddr slot then
           chip\<lparr>slots := (slots chip)(slotnum :=
             slot\<lparr>loop_direction := 1,
                  stepptr := push_bit 16 (loopaddr slot) OR (stepptr slot AND 0xffff)\<rparr>)\<rparr>
         else chip))"

text \<open>
  The offsets that one sample fetch passes to \<^verbatim>\<open>ymf271_read_memory\<close>, in the order
  of the calls.
\<close>

definition pcm_fetch_offsets :: "YMF271Slot \<Rightarrow> nat list" where
  "pcm_fetch_offsets slot =
     (if bits slot = 8 then [u32 (startaddr slot + drop_bit 16 (stepptr slot))]
      else
        (let sample_index = u32 (drop_bit 16 (stepptr slot));
             byte_offset = u32 (drop_bit 1 sample_index * 3)
         in if sample_index AND 1 \<noteq> 0
            then [u32 (startaddr slot + byte_offset + 2), u32 (startaddr slot + byte_offset + 1)]
            else [u32 (startaddr slot + byte_offset), u32 (startaddr slot + byte_offset + 1)]))"

definition pcm_fetch :: "YMF271Chip \<Rightarrow> YMF271Slot \<Rightarrow> int" where
  "pcm_fetch chip slot =
     (let offs = pcm_fetch_offsets slot in
      if bits slot = 8 then
        s16 (int (push_bit 8 (ymf271_read_memory chip (offs ! 0))))
      else if u32 (drop_bit 16 (stepptr slot)) AND 1 \<noteq> 0 then
        s16 (int (push_bit 8 (ymf271_read_memory chip (offs ! 0))
                  OR push_bit 4 (ymf271_read_memory chip (offs ! 1) AND 0x0f)))
      else
        s16 (int (push_bit 8 (ymf271_read_memory chip (offs ! 0))
                  OR (ymf271_read_memory chip (offs ! 1) AND 0xf0))))"

definition sat18 :: "int \<Rightarrow> int" where
  "sat18 x = (if x > ACC_18BIT_MAX then ACC_18BIT_MAX
              else if x < ACC_18BIT_MIN then ACC_18BIT_MIN else x)"

text \<open>The value \<^verbatim>\<open>output\<close> of the \<^verbatim>\<open>accon\<close> branch.\<close>

definition acc_output :: "int \<Rightarrow> nat \<Rightarrow> int" where
  "acc_output sample t =
     (let accumulation_factor = (if t = 0 then ACC_TL_SCALE else int t * ACC_TL_SCALE);
          accumulated = sample * accumulation_factor;
          accumulated = sat18 accumulated
      in s32 (drop_bit 2 accumulated))"

text \<open>One of the four channel updates of the \<^verbatim>\<open>accon\<close> branch.\<close>

definition acc_channel :: "int \<Rightarrow> int \<Rightarrow> int \<Rightarrow> int" where
  "acc_channel a output att = s32 (sat18 (s32 (a + drop_bit 16 (s32 (output * att)))))"

definition pcm_mix_acc :: "YMF271Chip \<Rightarrow> YMF271Slot \<Rightarrow> nat \<Rightarrow> int \<Rightarrow> YMF271Chip" where
  "pcm_mix_acc chip slot i sample =
     (let output = acc_output sample (tl_reg slot);
          accp = acc_buffer chip;
          accp = accp(i * 4 + 0 :=
                   acc_channel (accp (i * 4 + 0)) output (lut_attenuation chip (ch0_level slot)));
          accp = accp(i * 4 + 1 :=
                   acc_channel (accp (i * 4 + 1)) output (lut_attenuation chip (ch1_level slot)));
          accp = accp(i * 4 + 2 :=
                   acc_channel (accp (i * 4 + 2)) output (lut_attenuation chip (ch2_level slot)));
          accp = accp(i * 4 + 3 :=
                   acc_channel (accp (i * 4 + 3)) output (lut_attenuation chip (ch3_level slot)))
      in chip\<lparr>acc_buffer := accp\<rparr>)"

definition ch_vol :: "int \<Rightarrow> int \<Rightarrow> int" where
  "ch_vol final_volume att =
     (let v = drop_bit 16 (final_volume * att) in if v > 65536 then 65536 else v)"

definition pcm_mix_direct :: "YMF271Chip \<Rightarrow> YMF271Slot \<Rightarrow> nat \<Rightarrow> int \<Rightarrow> YMF271Chip" where
  "pcm_mix_direct chip slot i sample =
     (let final_volume = calculate_slot_volume chip slot;
          ch0_vol = ch_vol final_volume (lut_attenuation chip (ch0_level slot));
          ch1_vol = ch_vol final_volume (lut_attenuation chip (ch1_level slot));
          ch2_vol = ch_vol final_volume (lut_attenuation chip (ch2_level slot));
          ch3_vol = ch_vol final_volume (lut_attenuation chip (ch3_level slot));
          mixp = mix_buffer chip;
          mixp = mixp(i * 4 + 0 := s32 (mixp (i * 4 + 0) + drop_bit 16 (sample * ch0_vol)));
          mixp = mixp(i * 4 + 1 := s32 (mixp (i * 4 + 1) + drop_bit 16 (sample * ch1_vol)));
          mixp = mixp(i * 4 + 2 := s32 (mixp (i * 4 + 2) + drop_bit 16 (sample * ch2_vol)));
          mixp = mixp(i * 4 + 3 := s32 (mixp (i * 4 + 3) + drop_bit 16 (sample * ch3_vol)))
      in chip\<lparr>mix_buffer := mixp\<rparr>)"

text \<open>One iteration of the sample loop of \<^verbatim>\<open>update_pcm\<close>.\<close>

definition update_pcm_sample :: "nat \<Rightarrow> nat \<Rightarrow> YMF271Chip \<Rightarrow> YMF271Chip" where
  "update_pcm_sample slotnum i chip =
     (let c1 = pcm_loop slotnum chip;
          sample = pcm_fetch c1 (slots c1 slotnum);
          s1 = update_envelope (slots c1 slotnum);
          s2 = update_lfo c1 s1;
          c2 = c1\<lparr>slots := (slots c1)(slotnum := s2)\<rparr>;
          c3 = (if accon s2 \<noteq> 0 then pcm_mix_acc c2 s2 i sample
                else pcm_mix_direct c2 s2 i sample);
          s3 = slots c3 slotnum;
          s4 = (if loop_direction s3 > 0
                then s3\<lparr>stepptr := u64 (int (stepptr s3) + int (step s3))\<rparr>
                else s3\<lparr>stepptr := u64 (int (stepptr s3) - int (step s3))\<rparr>)
      in c3\<lparr>slots := (slots c3)(slotnum := s4)\<rparr>)"

definition update_pcm :: "YMF271Chip \<Rightarrow> nat \<Rightarrow> nat \<Rightarrow> YMF271Chip" where
  "update_pcm chip slotnum len =
     (if active (slots chip slotnum) = 0 then chip
      else fold (update_pcm_sample slotnum) [0..<len] chip)"

section \<open>FM operators\<close>

definition calculate_op :: "YMF271Chip \<Rightarrow> nat \<Rightarrow> int \<Rightarrow> int \<times> YMF271Chip" where
  "calculate_op chip slotnum inp =
     (let s1 = update_envelope (slots chip slotnum);
          s2 = update_lfo chip s1;
          env = calculate_slot_volume chip s2;
          (slot_input, s3) =
            (if inp = OP_INPUT_FEEDBACK then
               (c_div (feedback_modulation0 s2 + feedback_modulation1 s2) 2,
                s2\<lparr>feedback_modulation0 := feedback_modulation1 s2\<rparr>)
             else if inp \<noteq> OP_INPUT_NONE then
               ((inp * 2 ^ (SIN_BITS - 2)) * modulation_level ! feedback s2, s2)
             else (0, s2));
          slot_output =
            lut_waves chip (waveform s3)
              (drop_bit 16 (u64 (int (stepptr s3) + slot_input)) AND SIN_MASK);
          slot_output = drop_bit 16 (slot_output * env);
          s4 = s3\<lparr>stepptr := u64 (int (stepptr s3) + int (step s3))\<rparr>
      in (slot_output, chip\<lparr>slots := (slots chip)(slotnum := s4)\<rparr>))"

definition set_feedback :: "YMF271Chip \<Rightarrow> nat \<Rightarrow> int \<Rightarrow> YMF271Chip" where
  "set_feedback chip slotnum inp =
     (let slot = slots chip slotnum in
      chip\<lparr>slots := (slots chip)(slotnum :=
        slot\<lparr>feedback_modulation1 :=
               c_div ((inp * 2 ^ (SIN_BITS - 2)) * feedback_level ! feedback slot) 4\<rparr>)\<rparr>)"

text \<open>
  \<^verbatim>\<open>calculate_op_pfm\<close>: the operator of a PFM carrier, which reads its sample from
  the ROM at the modulated position instead of a wave table. \<open>pfm_offset\<close> is the
  sample offset after the loop-point handling, in 32-bit unsigned arithmetic.
\<close>

definition pfm_offset :: "YMF271Slot \<Rightarrow> int \<Rightarrow> nat" where
  "pfm_offset slot slot_input =
     (let modulated_stepptr = s64 (s64 (int (stepptr slot)) + slot_input);
          modulated_stepptr = (if modulated_stepptr < 0 then 0 else modulated_stepptr);
          sample_offset = nat (drop_bit 16 modulated_stepptr mod 4294967296);
          sample_length = nat ((int (endaddr slot) - int (startaddr slot)) mod 4294967296)
      in if sample_offset > sample_length then
           (if loopaddr slot \<le> endaddr slot then
              (let loop_length = nat ((int (endaddr slot) - int (loopaddr slot)) mod 4294967296)
               in if loop_length > 0
                  then nat ((int (loopaddr slot) - int (startaddr slot)
                             + int ((sample_offset - sample_length) mod loop_length))
                            mod 4294967296)
                  else sample_length)
            else sample_length)
         else sample_offset)"

definition pfm_fetch_offsets :: "YMF271Slot \<Rightarrow> nat \<Rightarrow> nat list" where
  "pfm_fetch_offsets slot sample_offset =
     (if bits slot = 8 then [u32 (startaddr slot + sample_offset)]
      else
        (let byte_offset = u32 (drop_bit 1 sample_offset * 3);
             pcm_addr = u32 (startaddr slot + byte_offset)
         in if sample_offset AND 1 \<noteq> 0
            then [u32 (pcm_addr + 2), u32 (pcm_addr + 1)]
            else [pcm_addr, u32 (pcm_addr + 1)]))"

definition pfm_fetch :: "YMF271Chip \<Rightarrow> YMF271Slot \<Rightarrow> nat \<Rightarrow> int" where
  "pfm_fetch chip slot sample_offset =
     (let offs = pfm_fetch_offsets slot sample_offset in
      if bits slot = 8 then
        s16 (int (push_bit 8 (ymf271_read_memory chip (offs ! 0))))
      else if sample_offset AND 1 \<noteq> 0 then
        s16 (int (push_bit 8 (ymf271_read_memory chip (offs ! 0))
                  OR push_bit 4 (ymf271_read_memory chip (offs ! 1) AND 0x0f)))
      else
        s16 (int (push_bit 8 (ymf271_read_memory chip (offs ! 0))
                  OR (ymf271_read_memory chip (offs ! 1) AND 0xf0))))"

definition calculate_op_pfm :: "YMF271Chip \<Rightarrow> nat \<Rightarrow> int \<Rightarrow> int \<times> YMF271Chip" where
  "calculate_op_pfm chip slotnum inp =
     (let s1 = update_envelope (slots chip slotnum);
          s2 = update_lfo chip s1;
          env = calculate_slot_volume chip s2;
          (slot_input, s3) =
            (if inp = OP_INPUT_FEEDBACK then
               (c_div (feedback_modulation0 s2 + feedback_modulation1 s2) 2,
                s2\<lparr>feedback_modulation0 := feedback_modulation1 s2\<rparr>)
             else if inp \<noteq> OP_INPUT_NONE then
               ((inp * 2 ^ (SIN_BITS - 2)) * modulation_level ! feedback s2, s2)
             else (0, s2));
          sample = pfm_fetch chip s3 (pfm_offset s3 slot_input);
          slot_output = drop_bit 16 (sample * env);
          s4 = s3\<lparr>stepptr := u64 (int (stepptr s3) + int (step s3))\<rparr>
      in (slot_output, chip\<lparr>slots := (slots chip)(slotnum := s4)\<rparr>))"

section \<open>Register front-end\<close>

text \<open>
  The block that key-on runs for each further member slot of the configuration.
\<close>

definition keyon_other_slot :: "nat \<Rightarrow> YMF271Chip \<Rightarrow> YMF271Chip" where
  "keyon_other_slot other_slot chip =
     (let os = slots chip other_slot;
          os = os\<lparr>step := 0, stepptr := 0, loop_direction := 1\<rparr>;
          os = init_envelope chip os;
          os = init_lfo chip os;
          os = calculate_step chip os;
          os = os\<lparr>feedback_modulation0 := 0, feedback_modulation1 := 0\<rparr>
      in chip\<lparr>slots := (slots chip)(other_slot := os)\<rparr>)"

definition key_on :: "YMF271Chip \<Rightarrow> nat \<Rightarrow> YMF271Chip" where
  "key_on chip slotnum =
     (let groupnum = slotnum mod 12;
          bank = slotnum div 12;
          slot = slots chip slotnum;
          slot = slot\<lparr>step := 0, stepptr := 0, active := 1, loop_direction := 1\<rparr>;
          slot = init_envelope chip slot;
          slot = init_lfo chip slot;
          slot = calculate_step chip slot;
          c1 = chip\<lparr>slots := (slots chip)(slotnum := slot)\<rparr>;
          c2 = calculate_status_end c1 slotnum 0;
          c3 = c2\<lparr>slots := (slots c2)(slotnum :=
                 (slots c2 slotnum)\<lparr>feedback_modulation0 := 0, feedback_modulation1 := 0\<rparr>)\<rparr>;
          sy = sync (groups c3 groupnum)
      in if sy = 0 \<and> bank = 0 then
           fold (\<lambda>i. keyon_other_slot (groupnum + i * 12)) [1..<4] c3
         else if sy = 1 then
           (if bank = 0 then keyon_other_slot (groupnum + 2 * 12) c3
            else if bank = 1 then keyon_other_slot (groupnum + 3 * 12) c3
            else c3)
         else if sy = 2 \<and> bank = 0 then
           fold (\<lambda>i. keyon_other_slot (groupnum + i * 12)) [1..<3] c3
         else c3)"

definition write_register :: "YMF271Chip \<Rightarrow> nat \<Rightarrow> nat \<Rightarrow> nat \<Rightarrow> YMF271Chip" where
  "write_register chip slotnum reg data =
     (let slot = slots chip slotnum;
          put = (\<lambda>s. chip\<lparr>slots := (slots chip)(slotnum := s)\<rparr>)
      in
      if reg = 0x0 then
        (let s1 = slot\<lparr>ext_en := (if data AND 0x80 \<noteq> 0 then 1 else 0),
                       ext_out := drop_bit 3 data AND 0xf\<rparr>
         in if data AND 1 \<noteq> 0 then key_on (put s1) slotnum
            else if active s1 \<noteq> 0 then put (s1\<lparr>env_state := ENV_RELEASE\<rparr>)
            else put s1)
      else if reg = 0x1 then put (slot\<lparr>lfoFreq := data\<rparr>)
      else if reg = 0x2 then
        put (slot\<lparr>lfowave := data AND 3, pms := drop_bit 3 data AND 0x7,
                  ams := drop_bit 6 data AND 0x3\<rparr>)
      else if reg = 0x3 then
        put (slot\<lparr>multiple := data AND 0xf, detune := drop_bit 4 data AND 0x7\<rparr>)
      else if reg = 0x4 then put (slot\<lparr>tl_reg := data AND 0x7f\<rparr>)
      else if reg = 0x5 then
        put (slot\<lparr>ar := data AND 0x1f, keyscale := drop_bit 5 data AND 0x3\<rparr>)
      else if reg = 0x6 then put (slot\<lparr>decay1rate := data AND 0x1f\<rparr>)
      else if reg = 0x7 then put (slot\<lparr>decay2rate := data AND 0x1f\<rparr>)
      else if reg = 0x8 then
        put (slot\<lparr>relrate := data AND 0xf, decay1lvl := drop_bit 4 data AND 0xf\<rparr>)
      else if reg = 0x9 then
        put (slot\<lparr>fns := (push_bit 8 (fns_hi slot) AND 0x0f00) OR data,
                  block := drop_bit 4 (fns_hi slot) AND 0xf\<rparr>)
      else if reg = 0xa then put (slot\<lparr>fns_hi := data\<rparr>)
      else if reg = 0xb then
        put (slot\<lparr>waveform := data AND 0x7, feedback := drop_bit 4 data AND 0x7,
                  accon := (if data AND 0x80 \<noteq> 0 then 1 else 0)\<rparr>)
      else if reg = 0xc then put (slot\<lparr>algorithm := data AND 0xf\<rparr>)
      else if reg = 0xd then
        put (slot\<lparr>ch0_level := drop_bit 4 data, ch1_level := data AND 0xf\<rparr>)
      else if reg = 0xe then
        put (slot\<lparr>ch2_level := drop_bit 4 data, ch3_level := data AND 0xf\<rparr>)
      else chip)"

definition is_sync_reg :: "nat \<Rightarrow> bool" where
  "is_sync_reg reg = (reg = 0 \<or> reg = 9 \<or> reg = 10 \<or> reg = 12 \<or> reg = 13 \<or> reg = 14)"

definition is_sync_mode :: "nat \<Rightarrow> nat \<Rightarrow> bool" where
  "is_sync_mode sy bank =
     (if sy = 0 then bank = 0
      else if sy = 1 then bank = 0 \<or> bank = 1
      else if sy = 2 then bank = 0
      else False)"

definition ymf271_write_fm :: "YMF271Chip \<Rightarrow> nat \<Rightarrow> nat \<Rightarrow> nat \<Rightarrow> YMF271Chip" where
  "ymf271_write_fm chip bank address data =
     (let gn = fm_tab ! (address AND 0xf);
          reg = drop_bit 4 address AND 0xf
      in if gn = - 1 then chip
         else
           (let groupnum = nat gn;
                sy = sync (groups chip groupnum)
            in if is_sync_mode sy bank \<and> is_sync_reg reg then
                 (if sy = 0 then
                    (let c = write_register chip ((12 * 0) + groupnum) reg data;
                         c = write_register c ((12 * 1) + groupnum) reg data;
                         c = write_register c ((12 * 2) + groupnum) reg data
                     in write_register c ((12 * 3) + groupnum) reg data)
                  else if sy = 1 then
                    (if bank = 0 then
                       (let c = write_register chip ((12 * 0) + groupnum) reg data
                        in write_register c ((12 * 2) + groupnum) reg data)
                     else
                       (let c = write_register chip ((12 * 1) + groupnum) reg data
                        in write_register c ((12 * 3) + groupnum) reg data))
                  else if sy = 2 then
                    (let c = write_register chip ((12 * 0) + groupnum) reg data;
                         c = write_register c ((12 * 1) + groupnum) reg data
                     in write_register c ((12 * 2) + groupnum) reg data)
                  else chip)
               else write_register chip ((12 * bank) + groupnum) reg data))"

definition ymf271_write_pcm :: "YMF271Chip \<Rightarrow> nat \<Rightarrow> nat \<Rightarrow> YMF271Chip" where
  "ymf271_write_pcm chip address data =
     (let sn = pcm_tab ! (address AND 0xf) in
      if sn = - 1 then chip
      else
        (let slotnum = nat sn;
             slot = slots chip slotnum;
             put = (\<lambda>s. chip\<lparr>slots := (slots chip)(slotnum := s)\<rparr>);
             reg = drop_bit 4 address AND 0xf
         in
         if reg = 0x0 then
           put (slot\<lparr>startaddr := (startaddr slot AND 0xffffff00) OR data\<rparr>)
         else if reg = 0x1 then
           put (slot\<lparr>startaddr := (startaddr slot AND 0xffff00ff) OR push_bit 8 data\<rparr>)
         else if reg = 0x2 then
           put (slot\<lparr>startaddr := (startaddr slot AND 0xff00ffff) OR push_bit 16 (data AND 0x7f),
                     altloop := (if data AND 0x80 \<noteq> 0 then 1 else 0)\<rparr>)
         else if reg = 0x3 then
           put (slot\<lparr>endaddr := (endaddr slot AND 0xffffff00) OR data\<rparr>)
         else if reg = 0x4 then
           put (slot\<lparr>endaddr := (endaddr slot AND 0xffff00ff) OR push_bit 8 data\<rparr>)
         else if reg = 0x5 then
           put (slot\<lparr>endaddr := (endaddr slot AND 0xff00ffff) OR push_bit 16 (data AND 0x7f)\<rparr>)
         else if reg = 0x6 then
           put (slot\<lparr>loopaddr := (loopaddr slot AND 0xffffff00) OR data\<rparr>)
         else if reg = 0x7 then
           put (slot\<lparr>loopaddr := (loopaddr slot AND 0xffff00ff) OR push_bit 8 data\<rparr>)
         else if reg = 0x8 then
           put (slot\<lparr>loopaddr := (loopaddr slot AND 0xff00ffff) OR push_bit 16 (data AND 0x7f)\<rparr>)
         else if reg = 0x9 then
           put (slot\<lparr>fs := data AND 0x3,
                     bits := (if data AND 0x4 \<noteq> 0 then 12 else 8),
                     srcnote := drop_bit 3 data AND 0x3,
                     srcb := drop_bit 5 data AND 0x7\<rparr>)
         else chip))"

definition ymf271_w :: "YMF271Chip \<Rightarrow> nat \<Rightarrow> nat \<Rightarrow> YMF271Chip" where
  "ymf271_w chip offset data =
     (let c = chip\<lparr>regs_main := (regs_main chip)(offset AND 0xf := data)\<rparr>;
          port = offset AND 0xf
      in if port = 0x1 then ymf271_write_fm c 0 (regs_main c 0x0) data
         else if port = 0x3 then ymf271_write_fm c 1 (regs_main c 0x2) data
         else if port = 0x5 then ymf271_write_fm c 2 (regs_main c 0x4) data
         else if port = 0x7 then ymf271_write_fm c 3 (regs_main c 0x6) data
         else if port = 0x9 then ymf271_write_pcm c (regs_main c 0x8) data
         else if port = 0xd then ymf271_write_timer c (regs_main c 0xc) data
         else c)"

section \<open>Table initialisation and device start\<close>

text \<open>
  Each loop of \<^verbatim>\<open>init_tables\<close> assigns every index of a table independently of the
  others, so a table is the function from the index to the value assigned. A conversion
  of a \<^verbatim>\<open>double\<close> to \<^verbatim>\<open>INT16\<close> truncates and is reduced to 16 bits; the conversion
  of the \<^verbatim>\<open>int\<close> expression \<^verbatim>\<open>1 * MAXOUT\<close> to \<^verbatim>\<open>INT16\<close> is reduced to 16 bits.
\<close>

definition wave_m :: "nat \<Rightarrow> real" where
  "wave_m i = sin (real ((i * 2) + 1) * pi / real SIN_LEN)"

definition wave_m2 :: "nat \<Rightarrow> real" where
  "wave_m2 i = sin (real ((i * 4) + 1) * pi / real SIN_LEN)"

definition init_lut_waves :: "nat \<Rightarrow> nat \<Rightarrow> int" where
  "init_lut_waves w i =
     (let m = wave_m i; m2 = wave_m2 i in
      if w = 0 then s16 (trunc_real (m * real_of_int MAXOUT))
      else if w = 1 then
        (if i < SIN_LEN div 2 then s16 (trunc_real ((m * m) * real_of_int MAXOUT))
         else s16 (trunc_real ((m * m) * real_of_int MINOUT)))
      else if w = 2 then
        (if i < SIN_LEN div 2 then s16 (trunc_real (m * real_of_int MAXOUT))
         else s16 (trunc_real (- m * real_of_int MAXOUT)))
      else if w = 3 then
        (if i < SIN_LEN div 2 then s16 (trunc_real (m * real_of_int MAXOUT)) else 0)
      else if w = 4 then
        (if i < SIN_LEN div 2 then s16 (trunc_real (m2 * real_of_int MAXOUT)) else 0)
      else if w = 5 then
        (if i < SIN_LEN div 2 then s16 (trunc_real (\<bar>m2\<bar> * real_of_int MAXOUT)) else 0)
      else if w = 6 then s16 (1 * MAXOUT)
      else 0)"

definition plfo_wave :: "nat \<Rightarrow> nat \<Rightarrow> real" where
  "plfo_wave j i =
     (let fsaw_wave = (real (i mod (LFO_LENGTH div 2)) * 1) / ((real LFO_LENGTH / 2) - 1);
          ftri_wave = (real (i mod (LFO_LENGTH div 4)) * 1) / (real LFO_LENGTH / 4);
          q = i div (LFO_LENGTH div 4)
      in if j = 0 then 0
         else if j = 1 then (if i < LFO_LENGTH div 2 then fsaw_wave else fsaw_wave - 1)
         else if j = 2 then (if i < LFO_LENGTH div 2 then 1 else - 1)
         else (if q = 0 then ftri_wave
               else if q = 1 then 1 - ftri_wave
               else if q = 2 then 0 - ftri_wave
               else if q = 3 then 0 - (1 - ftri_wave)
               else 0))"

definition plfo_cents :: "real list" where
  "plfo_cents = [0, 3.378, 5.0646, 6.7495, 10.1143, 20.1699, 40.1076, 79.307]"

definition init_lut_plfo :: "nat \<Rightarrow> nat \<Rightarrow> nat \<Rightarrow> real" where
  "init_lut_plfo j k i =
     (if k = 0 then 2 powr 0 else 2 powr ((plfo_cents ! k * plfo_wave j i) / 1200))"

definition init_lut_alfo :: "nat \<Rightarrow> nat \<Rightarrow> int" where
  "init_lut_alfo j i =
     (let tri_wave = (int (i mod (LFO_LENGTH div 2)) * 65536) div int (LFO_LENGTH div 2)
      in if j = 0 then 0
         else if j = 1 then 65536 - ((int i * 65536) div int LFO_LENGTH)
         else if j = 2 then (if i < LFO_LENGTH div 2 then 65536 else 0)
         else (if i < LFO_LENGTH div 2 then 65536 - tri_wave else tri_wave))"

definition init_lut_env_volume :: "nat \<Rightarrow> int" where
  "init_lut_env_volume i = double_to_int (65536 / (10 powr ((real i / (256 / 96)) / 20)))"

definition init_lut_attenuation :: "nat \<Rightarrow> int" where
  "init_lut_attenuation i =
     double_to_int (65536 / (10 powr (channel_attenuation_table ! i / 20)))"

definition init_lut_total_level :: "nat \<Rightarrow> int" where
  "init_lut_total_level i = double_to_int (65536 / (10 powr ((0.75 * real i) / 20)))"

definition clock_correction :: "nat \<Rightarrow> real" where
  "clock_correction clk = real STD_CLOCK / real clk"

definition init_lut_lfo :: "nat \<Rightarrow> nat \<Rightarrow> real" where
  "init_lut_lfo clk i = LFO_frequency_table ! i * clock_correction clk"

definition init_lut_ar :: "nat \<Rightarrow> nat \<Rightarrow> real" where
  "init_lut_ar clk i = (ARTime ! i * clock_correction clk * 44100) / 1000"

definition init_lut_dc :: "nat \<Rightarrow> nat \<Rightarrow> real" where
  "init_lut_dc clk i = (DCTime ! i * clock_correction clk * 44100) / 1000"

definition init_detune_table :: "nat \<Rightarrow> nat \<Rightarrow> int" where
  "init_detune_table d k =
     (let dt = (if d < 4 then d else d - 4);
          sgn_d = (if d < 4 then 1 else - 1);
          cents = dt_cents ! dt ! k;
          n43 = k AND 3;
          f = representative_fns ! n43;
          ratio = 2 powr (cents / 1200) - 1;
          offset = double_to_int (real_of_int f * ratio + 0.5)
      in offset * sgn_d)"

definition init_tables :: "YMF271Chip \<Rightarrow> YMF271Chip" where
  "init_tables chip =
     chip\<lparr>lut_waves := init_lut_waves,
          lut_plfo := init_lut_plfo,
          lut_alfo := init_lut_alfo,
          lut_env_volume := init_lut_env_volume,
          lut_attenuation := init_lut_attenuation,
          lut_total_level := init_lut_total_level,
          lut_lfo := init_lut_lfo (clock chip),
          lut_ar := init_lut_ar (clock chip),
          lut_dc := init_lut_dc (clock chip),
          lut_detune := init_detune_table\<rparr>"

text \<open>The state that \<^verbatim>\<open>calloc\<close> returns: every field zero, every pointer null.\<close>

definition slot_zero :: YMF271Slot where
  "slot_zero =
     \<lparr>ext_en = 0, ext_out = 0, lfoFreq = 0, lfowave = 0, pms = 0, ams = 0, detune = 0,
      multiple = 0, tl_reg = 0, keyscale = 0, ar = 0, decay1rate = 0, decay2rate = 0,
      decay1lvl = 0, relrate = 0, block = 0, fns_hi = 0, fns = 0, feedback = 0,
      waveform = 0, accon = 0, algorithm = 0, ch0_level = 0, ch1_level = 0, ch2_level = 0,
      ch3_level = 0, startaddr = 0, loopaddr = 0, endaddr = 0, altloop = 0, fs = 0,
      srcnote = 0, srcb = 0, step = 0, stepptr = 0, active = 0, bits = 0, volume = 0,
      env_state = 0, env_attack_step = 0, env_decay1_step = 0, env_decay2_step = 0,
      env_release_step = 0, feedback_modulation0 = 0, feedback_modulation1 = 0,
      lfo_phase = 0, lfo_step = 0, lfo_amplitude = 0, lfo_phasemod = 0,
      loop_direction = 0\<rparr>"

definition chip_calloc :: YMF271Chip where
  "chip_calloc =
     \<lparr>lut_waves = (\<lambda>w i. 0), lut_plfo = (\<lambda>j k i. 0), lut_alfo = (\<lambda>j i. 0),
      lut_ar = (\<lambda>i. 0), lut_dc = (\<lambda>i. 0), lut_lfo = (\<lambda>i. 0),
      lut_attenuation = (\<lambda>i. 0), lut_total_level = (\<lambda>i. 0), lut_env_volume = (\<lambda>i. 0),
      lut_detune = (\<lambda>d k. 0),
      slots = (\<lambda>n. slot_zero),
      groups = (\<lambda>g. \<lparr>sync = 0, pfm = 0, Muted = 0\<rparr>),
      regs_main = (\<lambda>r. 0),
      timerA = 0, timerB = 0, timerAVal = 0, timerBVal = 0,
      irqstate = 0, status = 0, end_status = 0, enable = 0,
      ext_address = 0, ext_rw = 0, ext_readlatch = 0, busy_flag = 0,
      mem_null = True, mem_base = (\<lambda>a. 0), mem_size = 0,
      clock = 0, mixbuf_smpls = 0,
      mix_buffer = (\<lambda>i. 0), acc_buffer = (\<lambda>i. 0),
      irq_handler = False, irq_calls = [],
      ext_write_handler = False, ext_writes = [],
      debug_envelope = 0\<rparr>"

definition mute_group :: "nat \<Rightarrow> nat \<Rightarrow> YMF271Chip \<Rightarrow> YMF271Chip" where
  "mute_group MuteMask CurChn chip =
     chip\<lparr>groups := (groups chip)(CurChn :=
       (groups chip CurChn)\<lparr>Muted := drop_bit CurChn MuteMask AND 0x01\<rparr>)\<rparr>"

definition ymf271_set_mute_mask :: "YMF271Chip \<Rightarrow> nat \<Rightarrow> YMF271Chip" where
  "ymf271_set_mute_mask chip MuteMask = fold (mute_group MuteMask) [0..<12] chip"

text \<open>
  \<^verbatim>\<open>device_start_ymf271\<close>. The two mix buffers come from \<^verbatim>\<open>malloc\<close>;
  \<^verbatim>\<open>ymf271_update\<close> clears them at the top of every chunk, and they are taken as
  cleared here.
\<close>

definition device_start_ymf271 :: "nat \<Rightarrow> YMF271Chip" where
  "device_start_ymf271 clk =
     (let chip = chip_calloc\<lparr>clock := clk\<rparr>;
          rate = clock chip div 384;
          chip = chip\<lparr>mem_size := 0, mem_null := True, irq_handler := False,
                      ext_write_handler := False, debug_envelope := 0\<rparr>;
          chip = init_tables chip;
          chip = chip\<lparr>mixbuf_smpls := rate div 10\<rparr>
      in ymf271_set_mute_mask chip 0)"

text \<open>\<^verbatim>\<open>ymf271_alloc_rom\<close> and \<^verbatim>\<open>ymf271_write_rom\<close>, with the data block as a list.\<close>

definition ymf271_alloc_rom :: "YMF271Chip \<Rightarrow> nat \<Rightarrow> YMF271Chip" where
  "ymf271_alloc_rom chip memsize =
     (if mem_size chip = memsize then chip
      else chip\<lparr>mem_null := (memsize = 0), mem_size := memsize,
                mem_base := (\<lambda>a. if a < memsize then 0xFF else mem_base chip a)\<rparr>)"

definition ymf271_write_rom :: "YMF271Chip \<Rightarrow> nat \<Rightarrow> nat list \<Rightarrow> YMF271Chip" where
  "ymf271_write_rom chip offset data =
     (if offset > mem_size chip then chip
      else
        (let len = (if u32 (offset + length data) > mem_size chip
                    then mem_size chip - offset else length data)
         in chip\<lparr>mem_base := (\<lambda>a. if offset \<le> a \<and> a < offset + len
                                    then data ! (a - offset) else mem_base chip a)\<rparr>))"

section \<open>Concrete states used to exercise the theorems\<close>

definition timer_test_chip :: YMF271Chip where
  "timer_test_chip = chip_calloc\<lparr>enable := 12, irq_handler := True\<rparr>"

definition reset_test_chip :: YMF271Chip where
  "reset_test_chip =
     chip_calloc\<lparr>slots := (\<lambda>n. slot_zero\<lparr>active := 1, volume := 6225920\<rparr>),
                 status := 3, irqstate := 3, end_status := 0x123, enable := 0xf,
                 busy_flag := 1, irq_handler := True\<rparr>"

definition ext_test_chip :: YMF271Chip where
  "ext_test_chip =
     chip_calloc\<lparr>ext_rw := 1, ext_readlatch := 0x5a, ext_address := 0x7fffff,
                 mem_null := False, mem_size := 4, mem_base := (\<lambda>a. 0x10 + a)\<rparr>"

definition keyoff_test_chip :: YMF271Chip where
  "keyoff_test_chip =
     chip_calloc\<lparr>slots := (\<lambda>n. slot_zero\<lparr>active := (if n = 0 then 1 else 0),
                                          env_state := ENV_DECAY1, volume := 6225920,
                                          step := 4096, stepptr := 65536\<rparr>)\<rparr>"

text \<open>A five-byte ROM and an 8-bit slot whose sample index is 3.\<close>

definition pcm_test_chip :: YMF271Chip where
  "pcm_test_chip =
     chip_calloc\<lparr>mem_null := False, mem_size := 5,
                 mem_base := (\<lambda>a. [0x80, 0x90, 0xA0, 0xB0, 0xC0] ! a)\<rparr>"

definition pcm_test_slot :: YMF271Slot where
  "pcm_test_slot = slot_zero\<lparr>bits := 8, stepptr := 0x30000\<rparr>"

text \<open>
  An 8-bit slot whose sample index 7 lies beyond the five-byte ROM, the same slot playing
  in slot 0 of the chip, and a ROM image that agrees with the five bytes and holds
  \<open>0xFF\<close> everywhere else.
\<close>

definition pcm_oob_slot :: YMF271Slot where
  "pcm_oob_slot = slot_zero\<lparr>bits := 8, stepptr := 0x70000\<rparr>"

definition pcm_play_chip :: YMF271Chip where
  "pcm_play_chip =
     pcm_test_chip\<lparr>slots := (\<lambda>n. if n = 0
        then pcm_oob_slot\<lparr>active := 1, endaddr := 0xff, loop_direction := 1, step := 65536\<rparr>
        else slot_zero)\<rparr>"

definition pcm_alt_mem :: "nat \<Rightarrow> nat" where
  "pcm_alt_mem = (\<lambda>a. if a < 5 then [0x80, 0x90, 0xA0, 0xB0, 0xC0] ! a else 0xFF)"

text \<open>The pan level of channel \<open>ch\<close> of a slot.\<close>

definition ch_level :: "nat \<Rightarrow> YMF271Slot \<Rightarrow> nat" where
  "ch_level ch slot =
     (if ch = 0 then ch0_level slot else if ch = 1 then ch1_level slot
      else if ch = 2 then ch2_level slot else ch3_level slot)"

text \<open>
  A started chip at the standard clock with an 8 MiB ROM filled with the byte \<open>0x7F\<close>
  and group 0 in sync mode 3 (four PCM slots). Slot 0 plays 8-bit PCM through the
  accumulator (\<open>accon = 1\<close>, \<open>tl = 8\<close>, all pan levels 0, attack rate 0, release
  rate 15). It is in the state reached 100 samples after key-on, with key-off 93 samples
  ago: the phase pointer is \<open>100 * 32768\<close>, and the volume has fallen from
  \<open>(255 - 160) << 16\<close> by 93 release steps of 66599 to 32213, one step away from the
  end of the envelope.
\<close>

definition acc_test_slot :: YMF271Slot where
  "acc_test_slot =
     slot_zero\<lparr>waveform := 7, accon := 1, tl_reg := 8, bits := 8, active := 1,
               loop_direction := 1, endaddr := 0xff, relrate := 15, step := 32768,
               stepptr := 3276800, env_state := ENV_RELEASE, volume := 32213,
               env_release_step := 66599, lfo_phasemod := 1\<rparr>"

definition acc_test_chip :: YMF271Chip where
  "acc_test_chip =
     (device_start_ymf271 16934400)
       \<lparr>slots := (\<lambda>n. if n = 0 then acc_test_slot else slot_zero),
        groups := (\<lambda>g. \<lparr>sync = (if g = 0 then 3 else 0), pfm = 0, Muted = 0\<rparr>),
        mem_null := False, mem_size := 8388608, mem_base := (\<lambda>a. 0x7F)\<rparr>"

text \<open>The step that \<^verbatim>\<open>update_envelope\<close> subtracts in the three falling stages.\<close>

definition env_dec :: "YMF271Slot \<Rightarrow> int" where
  "env_dec s =
     (if env_state s = ENV_DECAY1 then env_decay1_step s
      else if env_state s = ENV_DECAY2 then env_decay2_step s
      else env_release_step s)"

text \<open>
  A started chip (every group in sync mode 0) after the port writes \<open>2 \<leftarrow> 0xA0\<close>,
  \<open>3 \<leftarrow> 0x12\<close>: register \<open>0xA\<close> of group 0 written through bank 1.
\<close>

definition sync_test_chip :: YMF271Chip where
  "sync_test_chip = ymf271_w (ymf271_w (device_start_ymf271 16934400) 2 0xA0) 3 0x12"

text \<open>
  The envelope invariant: the four steps are non-negative \<^verbatim>\<open>INT32\<close> values, the
  attack step small enough for \<open>volume + env_attack_step\<close> to stay in \<^verbatim>\<open>INT32\<close>,
  and the volume lies in \<open>[0, 255 << 16]\<close>.
\<close>

definition env_inv :: "YMF271Slot \<Rightarrow> bool" where
  "env_inv s =
     (0 \<le> env_attack_step s \<and> env_attack_step s \<le> 2130771967 \<and>
      0 \<le> env_decay1_step s \<and> env_decay1_step s \<le> 2147483647 \<and>
      0 \<le> env_decay2_step s \<and> env_decay2_step s \<le> 2147483647 \<and>
      0 \<le> env_release_step s \<and> env_release_step s \<le> 2147483647 \<and>
      0 \<le> volume s \<and> volume s \<le> 16711680)"

definition env_test_slot :: YMF271Slot where
  "env_test_slot =
     slot_zero\<lparr>ar := 31, decay1rate := 10, decay2rate := 5, relrate := 15, decay1lvl := 8\<rparr>"

text \<open>
  The envelope invariant of a whole chip whose rate tables were built for the clock
  \<open>clk\<close>: every slot satisfies \<open>env_inv\<close> and holds a 4-bit \<open>decay1lvl\<close>.
\<close>

definition chip_env_ok :: "nat \<Rightarrow> YMF271Chip \<Rightarrow> bool" where
  "chip_env_ok clk chip =
     (clk < 2 ^ 32 \<and> lut_ar chip = init_lut_ar clk \<and> lut_dc chip = init_lut_dc clk \<and>
      (\<forall>n. env_inv (slots chip n) \<and> decay1lvl (slots chip n) \<le> 15))"

text \<open>
  The chip states that the host can reach: a start at a 32-bit clock, followed by
  register writes and reads, resets, timer expiries, ROM loads, and the steps that
  \<^verbatim>\<open>ymf271_update\<close> is composed of: PCM chunks, FM and PFM operator evaluations,
  feedback updates, and the clearing and folding of the two mix buffers.
\<close>

inductive reachable :: "nat \<Rightarrow> YMF271Chip \<Rightarrow> bool" for clk :: nat where
  r_start: "clk < 2 ^ 32 \<Longrightarrow> reachable clk (device_start_ymf271 clk)"
| r_write: "reachable clk c \<Longrightarrow> reachable clk (ymf271_w c port data)"
| r_read: "reachable clk c \<Longrightarrow> reachable clk (snd (ymf271_r c port))"
| r_reset: "reachable clk c \<Longrightarrow> reachable clk (device_reset_ymf271 c)"
| r_timer_a: "reachable clk c \<Longrightarrow> reachable clk (ymf271_timer_a_tick c)"
| r_timer_b: "reachable clk c \<Longrightarrow> reachable clk (ymf271_timer_b_tick c)"
| r_alloc_rom: "reachable clk c \<Longrightarrow> reachable clk (ymf271_alloc_rom c memsize)"
| r_write_rom: "reachable clk c \<Longrightarrow> reachable clk (ymf271_write_rom c offset bytes)"
| r_pcm: "reachable clk c \<Longrightarrow> reachable clk (update_pcm c slotnum len)"
| r_op: "reachable clk c \<Longrightarrow> reachable clk (snd (calculate_op c slotnum inp))"
| r_op_pfm: "reachable clk c \<Longrightarrow> reachable clk (snd (calculate_op_pfm c slotnum inp))"
| r_feedback: "reachable clk c \<Longrightarrow> reachable clk (set_feedback c slotnum inp)"
| r_buffers: "reachable clk c \<Longrightarrow> reachable clk (c\<lparr>mix_buffer := m, acc_buffer := a\<rparr>)"

text \<open>A chip after four register writes: attack rate 31 on slot 0, then key-on of slot 0.\<close>

definition keyon_test_pre :: YMF271Chip where
  "keyon_test_pre = ymf271_w (ymf271_w (device_start_ymf271 16934400) 0 0x50) 1 0x1f"

definition keyon_test_chip :: YMF271Chip where
  "keyon_test_chip = ymf271_w (ymf271_w keyon_test_pre 0 0x00) 1 0x01"

section \<open>Timer expiry, status bits and the IRQ callback\<close>

lemma and254_and2: "((x::nat) AND 254) AND 2 = x AND 2"
  by (simp add: and.assoc)

lemma and253_mod2: "((x::nat) AND 253) mod 2 = x mod 2"
  by (simp add: mod2_eq_if even_and_iff)

lemma and2_eq_0_iff: "((x::nat) AND 2 = 0) = (\<not> bit x (Suc 0))"
  using and_exp_eq_0_iff_not_bit [of x 1] by simp

lemma mod2_eq_0_iff: "((x::nat) mod 2 = 0) = (\<not> bit x 0)"
  by (simp add: bit_0 even_iff_mod_2_eq_zero)

lemma timer_a_reset_fields:
  "\<not> bit (status (timer_a_reset chip)) 0"
  "\<not> bit (irqstate (timer_a_reset chip)) 0"
  "bit (status (timer_a_reset chip)) (Suc 0) = bit (status chip) (Suc 0)"
  "bit (irqstate (timer_a_reset chip)) (Suc 0) = bit (irqstate chip) (Suc 0)"
  "irq_handler (timer_a_reset chip) = irq_handler chip"
  "irq_calls (timer_a_reset chip) =
     irq_calls chip @ (if irq_handler chip \<and> \<not> bit (irqstate chip) (Suc 0) then [0] else [])"
  by (simp_all add: timer_a_reset_def Let_def irq_call_def bit_simps and254_and2 and2_eq_0_iff)

lemma timer_b_reset_fields:
  "\<not> bit (status (timer_b_reset chip)) (Suc 0)"
  "\<not> bit (irqstate (timer_b_reset chip)) (Suc 0)"
  "bit (status (timer_b_reset chip)) 0 = bit (status chip) 0"
  "bit (irqstate (timer_b_reset chip)) 0 = bit (irqstate chip) 0"
  "irq_handler (timer_b_reset chip) = irq_handler chip"
  "irq_calls (timer_b_reset chip) =
     irq_calls chip @ (if irq_handler chip \<and> \<not> bit (irqstate chip) 0 then [0] else [])"
  by (simp_all add: timer_b_reset_def Let_def irq_call_def bit_simps and253_mod2 mod2_eq_0_iff)

lemma timer_a_tick_fields:
  "bit (status (ymf271_timer_a_tick chip)) 0"
  "enable chip AND 4 \<noteq> 0 \<Longrightarrow> bit (irqstate (ymf271_timer_a_tick chip)) 0"
  "irq_calls (ymf271_timer_a_tick chip) =
     irq_calls chip @ (if enable chip AND 4 \<noteq> 0 \<and> irq_handler chip then [1] else [])"
  by (simp_all add: ymf271_timer_a_tick_def Let_def irq_call_def bit_simps)

lemma timer_b_tick_fields:
  "bit (status (ymf271_timer_b_tick chip)) (Suc 0)"
  "enable chip AND 8 \<noteq> 0 \<Longrightarrow> bit (irqstate (ymf271_timer_b_tick chip)) (Suc 0)"
  "irq_calls (ymf271_timer_b_tick chip) =
     irq_calls chip @ (if enable chip AND 8 \<noteq> 0 \<and> irq_handler chip then [1] else [])"
  by (simp_all add: ymf271_timer_b_tick_def Let_def irq_call_def bit_simps)

lemma write_timer_0x13:
  "ymf271_write_timer chip 0x13 data =
     (let c1 = (if data AND 0x10 \<noteq> 0 then timer_a_reset chip else chip);
          c2 = (if data AND 0x20 \<noteq> 0 then timer_b_reset c1 else c1)
      in c2\<lparr>enable := data\<rparr>)"
  by (simp add: ymf271_write_timer_def)

text \<open>
  Claim C3. When Timer A (Timer B) expires while bit 2 (bit 3) of the enable register is
  set, status bit 0 (bit 1) and the matching IRQ-state bit are set, and the IRQ callback,
  when there is one, is called once with argument 1; with a null callback no call is made
  and the status bit is set all the same. A write to register \<open>0x13\<close> with bit 4 (bit 5)
  set clears status bit 0 (bit 1) and the matching IRQ-state bit; the callback is called
  with argument 0 for the reset of a timer exactly when a callback is installed and the
  other timer's IRQ-state bit is clear at that moment.
\<close>

theorem timer_irq_status:
  "(enable chip AND 4 \<noteq> 0 \<longrightarrow>
      bit (status (ymf271_timer_a_tick chip)) 0 \<and>
      bit (irqstate (ymf271_timer_a_tick chip)) 0 \<and>
      irq_calls (ymf271_timer_a_tick chip) =
        irq_calls chip @ (if irq_handler chip then [1] else [])) \<and>
   (enable chip AND 8 \<noteq> 0 \<longrightarrow>
      bit (status (ymf271_timer_b_tick chip)) 1 \<and>
      bit (irqstate (ymf271_timer_b_tick chip)) 1 \<and>
      irq_calls (ymf271_timer_b_tick chip) =
        irq_calls chip @ (if irq_handler chip then [1] else [])) \<and>
   (data AND 0x10 \<noteq> 0 \<longrightarrow>
      \<not> bit (status (ymf271_write_timer chip 0x13 data)) 0 \<and>
      \<not> bit (irqstate (ymf271_write_timer chip 0x13 data)) 0) \<and>
   (data AND 0x20 \<noteq> 0 \<longrightarrow>
      \<not> bit (status (ymf271_write_timer chip 0x13 data)) 1 \<and>
      \<not> bit (irqstate (ymf271_write_timer chip 0x13 data)) 1) \<and>
   irq_calls (ymf271_write_timer chip 0x13 data) =
     irq_calls chip
       @ (if data AND 0x10 \<noteq> 0 \<and> irq_handler chip \<and> \<not> bit (irqstate chip) 1
          then [0] else [])
       @ (if data AND 0x20 \<noteq> 0 \<and> irq_handler chip
             \<and> (data AND 0x10 \<noteq> 0 \<or> \<not> bit (irqstate chip) 0)
          then [0] else [])"
  by (simp add: write_timer_0x13 timer_a_tick_fields timer_b_tick_fields
        timer_a_reset_fields timer_b_reset_fields)

theorem timer_irq_status_witness:
  "enable timer_test_chip AND 4 \<noteq> 0 \<and> enable timer_test_chip AND 8 \<noteq> 0 \<and>
   (0x30::nat) AND 0x10 \<noteq> 0 \<and> (0x30::nat) AND 0x20 \<noteq> 0 \<and>
   bit (status (ymf271_timer_a_tick timer_test_chip)) 0 \<and>
   irq_calls (ymf271_timer_a_tick timer_test_chip) = [1] \<and>
   bit (status (ymf271_timer_b_tick timer_test_chip)) 1 \<and>
   irq_calls (ymf271_timer_b_tick timer_test_chip) = [1] \<and>
   \<not> bit (status (ymf271_write_timer (ymf271_timer_a_tick timer_test_chip) 0x13 0x30)) 0 \<and>
   irq_calls (ymf271_write_timer (ymf271_timer_a_tick timer_test_chip) 0x13 0x30) = [1, 0, 0]"
  using timer_irq_status [of timer_test_chip "0x30"]
        timer_irq_status [of "ymf271_timer_a_tick timer_test_chip" "0x30"]
  by (simp add: timer_test_chip_def chip_calloc_def ymf271_timer_a_tick_def
        ymf271_timer_b_tick_def irq_call_def Let_def)

section \<open>Reset\<close>

lemma fold_reset_slot_slots:
  "slots (fold reset_slot xs chip) i =
     (if i \<in> set xs then (slots chip i)\<lparr>active := 0, volume := 0\<rparr> else slots chip i)"
  by (induction xs arbitrary: chip) (auto simp: reset_slot_def)

lemma reset_slots:
  "slots (device_reset_ymf271 chip) i =
     (if i < 48 then (slots chip i)\<lparr>active := 0, volume := 0\<rparr> else slots chip i)"
  by (simp add: device_reset_ymf271_def Let_def irq_call_def fold_reset_slot_slots)

lemma reset_flags:
  "irqstate (device_reset_ymf271 chip) = 0"
  "status (device_reset_ymf271 chip) = 0"
  "end_status (device_reset_ymf271 chip) = 0"
  "enable (device_reset_ymf271 chip) = 0"
  "busy_flag (device_reset_ymf271 chip) = 0"
  by (simp_all add: device_reset_ymf271_def Let_def irq_call_def)

text \<open>
  Claim C7. After \<^verbatim>\<open>device_reset_ymf271\<close> each of the 48 slots has volume 0 and is
  inactive, and the status flags, the IRQ state, the end-flag bitmap, the enable mask and
  the busy flag are all zero; both status ports then read 0.
\<close>

theorem reset_clears_state:
  "(\<forall>i<48. volume (slots (device_reset_ymf271 chip) i) = 0
            \<and> active (slots (device_reset_ymf271 chip) i) = 0) \<and>
   status (device_reset_ymf271 chip) = 0 \<and>
   irqstate (device_reset_ymf271 chip) = 0 \<and>
   end_status (device_reset_ymf271 chip) = 0 \<and>
   enable (device_reset_ymf271 chip) = 0 \<and>
   busy_flag (device_reset_ymf271 chip) = 0 \<and>
   fst (ymf271_r (device_reset_ymf271 chip) 0) = 0 \<and>
   fst (ymf271_r (device_reset_ymf271 chip) 1) = 0"
  by (simp add: reset_slots reset_flags ymf271_r_def)

theorem reset_clears_state_witness:
  "(47::nat) < 48 \<and>
   active (slots reset_test_chip 47) = 1 \<and>
   volume (slots (device_reset_ymf271 reset_test_chip) 47) = 0 \<and>
   active (slots (device_reset_ymf271 reset_test_chip) 47) = 0 \<and>
   status (device_reset_ymf271 reset_test_chip) = 0"
  using reset_clears_state [of reset_test_chip]
  by (simp add: reset_test_chip_def)

section \<open>External-memory read port\<close>

lemma mask23: "u32 x AND 0x7fffff = x mod 2 ^ 23"
proof -
  have m: "(0x7fffff::nat) = mask 23" by (simp add: mask_eq_exp_minus_1)
  have "u32 x AND mask 23 = take_bit 23 (take_bit 32 x)"
    unfolding u32_def take_bit_eq_mask [symmetric] by (simp add: take_bit_eq_mod)
  also have "\<dots> = take_bit 23 x" by simp
  finally show ?thesis unfolding m by (simp add: take_bit_eq_mod)
qed

lemma read_memory_ext_address [simp]:
  "ymf271_read_memory (chip\<lparr>ext_address := a\<rparr>) off = ymf271_read_memory chip off"
  by (simp add: ymf271_read_memory_def ymf271_read_memory_access_def Let_def)

text \<open>
  Claim C9. A read of port 2 returns \<open>0xFF\<close> and leaves the chip unchanged whenever
  \<open>ext_rw\<close> is 0. Otherwise it returns the previous latch value, advances
  \<open>ext_address\<close> by one modulo \<open>2 ^ 23\<close> and refills the latch from memory at the new
  address.
\<close>

theorem read_port2_latch:
  "offset AND 0xf = 2 \<Longrightarrow>
   (ext_rw chip = 0 \<longrightarrow> ymf271_r chip offset = (0xff, chip)) \<and>
   (ext_rw chip \<noteq> 0 \<longrightarrow>
      ymf271_r chip offset =
        (ext_readlatch chip,
         chip\<lparr>ext_address := (ext_address chip + 1) mod 2 ^ 23,
              ext_readlatch := ymf271_read_memory chip ((ext_address chip + 1) mod 2 ^ 23)\<rparr>))"
  by (simp add: ymf271_r_def Let_def mask23)

theorem read_port2_latch_witness:
  "(2::nat) AND 0xf = 2 \<and> ext_rw ext_test_chip \<noteq> 0 \<and>
   ext_rw (ext_test_chip\<lparr>ext_rw := 0\<rparr>) = 0 \<and>
   fst (ymf271_r ext_test_chip 2) = 0x5a \<and>
   ext_address (snd (ymf271_r ext_test_chip 2)) = 0 \<and>
   ext_readlatch (snd (ymf271_r ext_test_chip 2)) = 0x10 \<and>
   fst (ymf271_r (ext_test_chip\<lparr>ext_rw := 0\<rparr>) 2) = 0xff \<and>
   ext_address (snd (ymf271_r (ext_test_chip\<lparr>ext_rw := 0\<rparr>) 2)) = 0x7fffff"
  using read_port2_latch [of 2 ext_test_chip]
        read_port2_latch [of 2 "ext_test_chip\<lparr>ext_rw := 0\<rparr>"]
  by (simp add: ext_test_chip_def chip_calloc_def ymf271_read_memory_def
        ymf271_read_memory_access_def)

section \<open>Key-off\<close>

text \<open>
  Claim C10. A write to FM register \<open>0x0\<close> with bit 0 clear changes, in the whole chip,
  only the addressed slot, and there only \<open>ext_en\<close> and \<open>ext_out\<close>, and \<open>env_state\<close>,
  which becomes Release exactly when the slot is active. Every other field of the slot
  keeps its value.
\<close>

theorem key_off_frame:
  "data AND 1 = 0 \<Longrightarrow>
   write_register chip slotnum 0 data =
     chip\<lparr>slots := (slots chip)(slotnum :=
        (slots chip slotnum)
          \<lparr>ext_en := (if data AND 0x80 \<noteq> 0 then 1 else 0),
           ext_out := drop_bit 3 data AND 0xf,
           env_state := (if active (slots chip slotnum) \<noteq> 0 then ENV_RELEASE
                         else env_state (slots chip slotnum))\<rparr>)\<rparr>"
  by (simp add: write_register_def Let_def)

theorem key_off_frame_witness:
  "(0x88::nat) AND 1 = 0 \<and>
   env_state (slots (write_register keyoff_test_chip 0 0 0x88) 0) = ENV_RELEASE \<and>
   env_state (slots (write_register keyoff_test_chip 12 0 0x88) 12) = ENV_DECAY1 \<and>
   ext_en (slots (write_register keyoff_test_chip 0 0 0x88) 0) = 1 \<and>
   ext_out (slots (write_register keyoff_test_chip 0 0 0x88) 0) = 1 \<and>
   volume (slots (write_register keyoff_test_chip 0 0 0x88) 0) = 6225920 \<and>
   active (slots (write_register keyoff_test_chip 0 0 0x88) 0) = 1"
  using key_off_frame [of "0x88" keyoff_test_chip 0]
        key_off_frame [of "0x88" keyoff_test_chip 12]
  by (simp add: keyoff_test_chip_def chip_calloc_def slot_zero_def)

section \<open>Bounds of the PCM sample fetch\<close>

lemma calculate_status_end_frame:
  "slots (calculate_status_end chip n st) = slots chip"
  "acc_buffer (calculate_status_end chip n st) = acc_buffer chip"
  "mix_buffer (calculate_status_end chip n st) = mix_buffer chip"
  "lut_attenuation (calculate_status_end chip n st) = lut_attenuation chip"
  "mem_base (calculate_status_end chip n st) = mem_base chip"
  "mem_size (calculate_status_end chip n st) = mem_size chip"
  by (simp_all add: calculate_status_end_def Let_def)

lemma pcm_loop_chip_frame:
  "acc_buffer (pcm_loop n chip) = acc_buffer chip"
  "mix_buffer (pcm_loop n chip) = mix_buffer chip"
  "lut_attenuation (pcm_loop n chip) = lut_attenuation chip"
  "mem_base (pcm_loop n chip) = mem_base chip"
  "mem_size (pcm_loop n chip) = mem_size chip"
  by (simp_all add: pcm_loop_def Let_def calculate_status_end_frame)

lemma read_memory_access_cases:
  "ymf271_read_memory_access chip off =
     (if off AND 0x7fffff < mem_size chip then Some (off AND 0x7fffff) else None)"
  by (simp add: ymf271_read_memory_access_def Let_def)

lemma and_mask23_less: "(off::nat) AND 0x7fffff < 2 ^ 23"
proof -
  have "(0x7fffff::nat) = mask 23" by (simp add: mask_eq_exp_minus_1)
  then have "off AND 0x7fffff = take_bit 23 off" by (simp add: take_bit_eq_mask)
  then show ?thesis by (simp add: take_bit_eq_mod)
qed

lemma read_memory_eq:
  "ymf271_read_memory chip off =
     (if off AND 0x7fffff < mem_size chip then mem_base chip (off AND 0x7fffff) else 0)"
  by (simp add: ymf271_read_memory_def read_memory_access_cases)

lemma read_memory_mem_agree:
  assumes "\<forall>a. a < mem_size chip \<and> a < 2 ^ 23 \<longrightarrow> mb a = mem_base chip a"
  shows "ymf271_read_memory (chip\<lparr>mem_base := mb\<rparr>) off = ymf271_read_memory chip off"
  using assms and_mask23_less [of off] by (simp add: read_memory_eq)

lemma read_memory_zero_padded:
  "ymf271_read_memory
     (chip\<lparr>mem_size := 2 ^ 23,
           mem_base := (\<lambda>a. if a < mem_size chip then mem_base chip a else 0)\<rparr>) off =
   ymf271_read_memory chip off"
  using and_mask23_less [of off] by (simp add: read_memory_eq)

lemma pcm_fetch_read_cong:
  assumes "\<And>off. ymf271_read_memory c off = ymf271_read_memory c' off"
  shows "pcm_fetch c slot = pcm_fetch c' slot"
  by (simp add: pcm_fetch_def Let_def assms)

lemma pfm_fetch_read_cong:
  assumes "\<And>off. ymf271_read_memory c off = ymf271_read_memory c' off"
  shows "pfm_fetch c slot so = pfm_fetch c' slot so"
  by (simp add: pfm_fetch_def Let_def assms)

lemma pcm_fetch_mem_agree:
  assumes "\<forall>a. a < mem_size chip \<and> a < 2 ^ 23 \<longrightarrow> mb a = mem_base chip a"
  shows "pcm_fetch (chip\<lparr>mem_base := mb\<rparr>) slot = pcm_fetch chip slot"
  by (rule pcm_fetch_read_cong) (rule read_memory_mem_agree [OF assms])

lemma pfm_fetch_mem_agree:
  assumes "\<forall>a. a < mem_size chip \<and> a < 2 ^ 23 \<longrightarrow> mb a = mem_base chip a"
  shows "pfm_fetch (chip\<lparr>mem_base := mb\<rparr>) slot so = pfm_fetch chip slot so"
  by (rule pfm_fetch_read_cong) (rule read_memory_mem_agree [OF assms])

lemma pcm_fetch_zero_padded:
  "pcm_fetch chip slot =
   pcm_fetch (chip\<lparr>mem_size := 2 ^ 23,
           mem_base := (\<lambda>a. if a < mem_size chip then mem_base chip a else 0)\<rparr>) slot"
  by (rule pcm_fetch_read_cong) (rule read_memory_zero_padded [symmetric])

lemma pcm_fetch_offsets_length:
  "length (pcm_fetch_offsets slot) = (if bits slot = 8 then 1 else 2)"
  by (simp add: pcm_fetch_offsets_def Let_def)

lemma pcm_fetch_out_of_range:
  assumes "\<forall>off \<in> set (pcm_fetch_offsets slot). mem_size chip \<le> off AND 0x7fffff"
  shows "pcm_fetch chip slot = 0"
proof -
  have z: "ymf271_read_memory chip (pcm_fetch_offsets slot ! i) = 0"
    if "i < length (pcm_fetch_offsets slot)" for i
  proof -
    have "pcm_fetch_offsets slot ! i \<in> set (pcm_fetch_offsets slot)"
      using that by (rule nth_mem)
    then have "mem_size chip \<le> pcm_fetch_offsets slot ! i AND 0x7fffff"
      using assms by blast
    then show ?thesis by (simp add: read_memory_eq)
  qed
  have l: "0 < length (pcm_fetch_offsets slot)"
          "bits slot \<noteq> 8 \<Longrightarrow> 1 < length (pcm_fetch_offsets slot)"
    by (simp_all add: pcm_fetch_offsets_length)
  show ?thesis
    using z [OF l(1)] z [OF l(2)] by (simp add: pcm_fetch_def Let_def s16_def)
qed

lemma u32_and_mask23: "u32 x AND 0x7fffff = x mod 2 ^ 23"
proof -
  have m: "(0x7fffff::nat) = mask 23" by (simp add: mask_eq_exp_minus_1)
  have d: "(2::nat) ^ 23 dvd 4294967296" by (rule dvdI [of _ _ 512]) simp
  have "u32 x AND 0x7fffff = take_bit 23 (x mod 4294967296)"
    unfolding m by (simp add: take_bit_eq_mask u32_def)
  also have "\<dots> = x mod 4294967296 mod 2 ^ 23" by (simp add: take_bit_eq_mod)
  also have "\<dots> = x mod 2 ^ 23" by (rule mod_mod_cancel [OF d])
  finally show ?thesis .
qed

lemma u32_mask23_shift:
  "u32 (a + 2 ^ 23 * k + x) AND 0x7fffff = u32 (a + x) AND 0x7fffff"
proof -
  have "a + 2 ^ 23 * k + x = (a + x) + 2 ^ 23 * k" by simp
  then have "(a + 2 ^ 23 * k + x) mod 2 ^ 23 = (a + x) mod 2 ^ 23"
    by (simp only: mod_mult_self2)
  then show ?thesis by (simp only: u32_and_mask23)
qed

lemma read_memory_mask:
  "u32 y AND 0x7fffff = u32 z AND 0x7fffff \<Longrightarrow>
   ymf271_read_memory chip (u32 y) = ymf271_read_memory chip (u32 z)"
  by (simp add: read_memory_eq)

lemma pcm_fetch_startaddr_mod:
  "pcm_fetch chip (slot\<lparr>startaddr := startaddr slot + 2 ^ 23 * k\<rparr>) = pcm_fetch chip slot"
proof -
  have r: "ymf271_read_memory chip (u32 (a + 2 ^ 23 * k + x)) =
           ymf271_read_memory chip (u32 (a + x))" for a x
    by (rule read_memory_mask) (rule u32_mask23_shift)
  have r0: "ymf271_read_memory chip (u32 (a + 8388608 * k + x)) =
           ymf271_read_memory chip (u32 (a + x))" for a x
    using r [of a x] by simp
  have r1: "ymf271_read_memory chip (u32 (Suc (a + 8388608 * k + x))) =
           ymf271_read_memory chip (u32 (Suc (a + x)))" for a x
    using r [of a "Suc x"] by simp
  have r2: "ymf271_read_memory chip (u32 (Suc (Suc (a + 8388608 * k + x)))) =
           ymf271_read_memory chip (u32 (Suc (Suc (a + x))))" for a x
    using r [of a "Suc (Suc x)"] by simp
  show ?thesis
    by (simp add: pcm_fetch_def pcm_fetch_offsets_def Let_def r0 r1 r2)
qed

lemma pcm_loop_mem_upd:
  "pcm_loop n (chip\<lparr>mem_base := mb\<rparr>) = (pcm_loop n chip)\<lparr>mem_base := mb\<rparr>"
  by (simp add: pcm_loop_def Let_def calculate_status_end_def)

lemma calculate_step_mem_upd:
  "calculate_step (chip\<lparr>mem_base := mb\<rparr>) s = calculate_step chip s"
  by (simp add: calculate_step_def Let_def)

lemma update_lfo_mem_upd:
  "update_lfo (chip\<lparr>mem_base := mb\<rparr>) s = update_lfo chip s"
  by (simp add: update_lfo_def Let_def calculate_step_mem_upd)

lemma pcm_mix_acc_mem_slots_upd:
  "pcm_mix_acc (chip\<lparr>mem_base := mb, slots := x\<rparr>) s i v =
     (pcm_mix_acc (chip\<lparr>slots := x\<rparr>) s i v)\<lparr>mem_base := mb\<rparr>"
  by (simp add: pcm_mix_acc_def Let_def)

lemma pcm_mix_direct_mem_slots_upd:
  "pcm_mix_direct (chip\<lparr>mem_base := mb, slots := x\<rparr>) s i v =
     (pcm_mix_direct (chip\<lparr>slots := x\<rparr>) s i v)\<lparr>mem_base := mb\<rparr>"
  by (simp add: pcm_mix_direct_def Let_def calculate_slot_volume_def)

lemma pcm_mix_slots:
  "slots (pcm_mix_acc chip s i x) = slots chip"
  "slots (pcm_mix_direct chip s i x) = slots chip"
  by (simp_all add: pcm_mix_acc_def pcm_mix_direct_def Let_def)

lemma update_pcm_sample_mem_frame:
  "mem_base (update_pcm_sample n i chip) = mem_base chip"
  "mem_size (update_pcm_sample n i chip) = mem_size chip"
  by (simp_all add: update_pcm_sample_def Let_def pcm_mix_acc_def pcm_mix_direct_def
        pcm_loop_chip_frame)

lemma update_pcm_sample_mem_agree:
  assumes a: "\<forall>a. a < mem_size chip \<and> a < 2 ^ 23 \<longrightarrow> mb a = mem_base chip a"
  shows "update_pcm_sample n i (chip\<lparr>mem_base := mb\<rparr>) =
           (update_pcm_sample n i chip)\<lparr>mem_base := mb\<rparr>"
proof -
  let ?c1 = "pcm_loop n chip"
  have a1: "\<forall>a. a < mem_size ?c1 \<and> a < 2 ^ 23 \<longrightarrow> mb a = mem_base ?c1 a"
    using a by (simp add: pcm_loop_chip_frame)
  have f: "pcm_fetch (?c1\<lparr>mem_base := mb\<rparr>) s = pcm_fetch ?c1 s" for s
    by (rule pcm_fetch_mem_agree [OF a1])
  show ?thesis
    unfolding update_pcm_sample_def Let_def pcm_loop_mem_upd
    by (simp add: f update_lfo_mem_upd pcm_mix_acc_mem_slots_upd pcm_mix_direct_mem_slots_upd
          pcm_mix_slots)
qed

lemma fold_update_pcm_sample_mem_agree:
  assumes "\<forall>a. a < mem_size chip \<and> a < 2 ^ 23 \<longrightarrow> mb a = mem_base chip a"
  shows "fold (update_pcm_sample n) xs (chip\<lparr>mem_base := mb\<rparr>) =
           (fold (update_pcm_sample n) xs chip)\<lparr>mem_base := mb\<rparr>"
  using assms
proof (induction xs arbitrary: chip)
  case Nil
  show ?case by simp
next
  case (Cons i xs)
  have b: "\<forall>a. a < mem_size (update_pcm_sample n i chip) \<and> a < 2 ^ 23 \<longrightarrow>
             mb a = mem_base (update_pcm_sample n i chip) a"
    using Cons.prems by (simp add: update_pcm_sample_mem_frame)
  show ?case
    by (simp add: update_pcm_sample_mem_agree [OF Cons.prems] Cons.IH [OF b])
qed

lemma update_pcm_mem_agree:
  assumes "\<forall>a. a < mem_size chip \<and> a < 2 ^ 23 \<longrightarrow> mb a = mem_base chip a"
  shows "update_pcm (chip\<lparr>mem_base := mb\<rparr>) n len = (update_pcm chip n len)\<lparr>mem_base := mb\<rparr>"
  by (simp add: update_pcm_def fold_update_pcm_sample_mem_agree [OF assms])

text \<open>
  Claim C6. A PCM sample fetch reads the ROM only at indices below \<open>mem_size\<close> (and
  below \<open>2 ^ 23\<close>): the fetched sample, the sample fetched by a PFM operator and the
  whole result of \<^verbatim>\<open>update_pcm\<close> are the same for any two ROM images that agree on
  these indices. The fetch returns what it would return from the ROM padded with zero
  bytes up to \<open>2 ^ 23\<close>, so a byte at a masked offset at or beyond \<open>mem_size\<close> reads
  as 0, and the sample is 0 when every offset of the fetch is out of range. The address
  enters only through its low 23 bits. Nothing is assumed about \<open>stepptr\<close>,
  \<open>startaddr\<close>, \<open>endaddr\<close> or \<open>loopaddr\<close>.
\<close>

theorem pcm_fetch_in_bounds:
  "((\<forall>a. a < mem_size chip \<and> a < 2 ^ 23 \<longrightarrow> mb a = mem_base chip a) \<longrightarrow>
      pcm_fetch (chip\<lparr>mem_base := mb\<rparr>) slot = pcm_fetch chip slot \<and>
      pfm_fetch (chip\<lparr>mem_base := mb\<rparr>) slot so = pfm_fetch chip slot so \<and>
      update_pcm (chip\<lparr>mem_base := mb\<rparr>) n len = (update_pcm chip n len)\<lparr>mem_base := mb\<rparr>) \<and>
   pcm_fetch chip slot =
     pcm_fetch (chip\<lparr>mem_size := 2 ^ 23,
                     mem_base := (\<lambda>a. if a < mem_size chip then mem_base chip a else 0)\<rparr>)
       slot \<and>
   ((\<forall>off \<in> set (pcm_fetch_offsets slot). mem_size chip \<le> off AND 0x7fffff) \<longrightarrow>
      pcm_fetch chip slot = 0) \<and>
   pcm_fetch chip (slot\<lparr>startaddr := startaddr slot + 2 ^ 23 * k\<rparr>) = pcm_fetch chip slot"
proof (intro conjI impI)
  assume a: "\<forall>a. a < mem_size chip \<and> a < 2 ^ 23 \<longrightarrow> mb a = mem_base chip a"
  show "pcm_fetch (chip\<lparr>mem_base := mb\<rparr>) slot = pcm_fetch chip slot"
    by (rule pcm_fetch_mem_agree [OF a])
  show "pfm_fetch (chip\<lparr>mem_base := mb\<rparr>) slot so = pfm_fetch chip slot so"
    by (rule pfm_fetch_mem_agree [OF a])
  show "update_pcm (chip\<lparr>mem_base := mb\<rparr>) n len = (update_pcm chip n len)\<lparr>mem_base := mb\<rparr>"
    by (rule update_pcm_mem_agree [OF a])
next
  show "pcm_fetch chip slot =
     pcm_fetch (chip\<lparr>mem_size := 2 ^ 23,
                     mem_base := (\<lambda>a. if a < mem_size chip then mem_base chip a else 0)\<rparr>)
       slot"
    by (rule pcm_fetch_zero_padded)
next
  assume "\<forall>off \<in> set (pcm_fetch_offsets slot). mem_size chip \<le> off AND 0x7fffff"
  then show "pcm_fetch chip slot = 0" by (rule pcm_fetch_out_of_range)
next
  show "pcm_fetch chip (slot\<lparr>startaddr := startaddr slot + 2 ^ 23 * k\<rparr>) = pcm_fetch chip slot"
    by (rule pcm_fetch_startaddr_mod)
qed

lemma pcm_test_size: "mem_size pcm_test_chip = 5"
  by (simp add: pcm_test_chip_def)

lemma pcm_test_offsets: "pcm_fetch_offsets pcm_test_slot = [3]"
  by (simp add: pcm_test_slot_def slot_zero_def pcm_fetch_offsets_def u32_def drop_bit_eq_div)

lemma pcm_test_access: "ymf271_read_memory_access pcm_test_chip 3 = Some 3"
  by (simp add: ymf271_read_memory_access_def pcm_test_size)

lemma pcm_test_read: "ymf271_read_memory pcm_test_chip 3 = 0xB0"
  by (simp add: ymf271_read_memory_def pcm_test_access) (simp add: pcm_test_chip_def)

lemma pcm_test_fetch: "pcm_fetch pcm_test_chip pcm_test_slot = - 20480"
proof -
  have "bits pcm_test_slot = 8" by (simp add: pcm_test_slot_def)
  then show ?thesis
    by (simp add: pcm_fetch_def pcm_test_offsets pcm_test_read s16_def push_bit_eq_mult)
qed

lemma pcm_oob_offsets: "pcm_fetch_offsets pcm_oob_slot = [7]"
  by (simp add: pcm_oob_slot_def slot_zero_def pcm_fetch_offsets_def u32_def drop_bit_eq_div)

lemma pcm_alt_mem_agree:
  "\<forall>a. a < mem_size pcm_test_chip \<and> a < 2 ^ 23 \<longrightarrow> pcm_alt_mem a = mem_base pcm_test_chip a"
  by (simp add: pcm_test_chip_def pcm_alt_mem_def)

lemma pcm_play_mem_agree:
  "\<forall>a. a < mem_size pcm_play_chip \<and> a < 2 ^ 23 \<longrightarrow> pcm_alt_mem a = mem_base pcm_play_chip a"
  by (simp add: pcm_play_chip_def pcm_test_chip_def pcm_alt_mem_def)

theorem pcm_fetch_in_bounds_witness:
  "mem_size pcm_test_chip = 5 \<and>
   pcm_fetch_offsets pcm_oob_slot = [7] \<and>
   mem_base (pcm_test_chip\<lparr>mem_base := pcm_alt_mem\<rparr>) 7 = 0xFF \<and>
   pcm_fetch (pcm_test_chip\<lparr>mem_base := pcm_alt_mem\<rparr>) pcm_oob_slot = 0 \<and>
   pcm_fetch pcm_test_chip pcm_oob_slot = 0 \<and>
   pcm_fetch_offsets pcm_test_slot = [3] \<and>
   pcm_fetch pcm_test_chip pcm_test_slot = - 20480 \<and>
   pcm_fetch (pcm_test_chip\<lparr>mem_base := pcm_alt_mem\<rparr>) pcm_test_slot = - 20480 \<and>
   pcm_fetch_offsets (pcm_test_slot\<lparr>startaddr := startaddr pcm_test_slot + 2 ^ 23 * 1\<rparr>)
     = [0x800003] \<and>
   pcm_fetch pcm_test_chip (pcm_test_slot\<lparr>startaddr := startaddr pcm_test_slot + 2 ^ 23 * 1\<rparr>)
     = - 20480 \<and>
   active (slots pcm_play_chip 0) = 1 \<and>
   update_pcm (pcm_play_chip\<lparr>mem_base := pcm_alt_mem\<rparr>) 0 2 =
     (update_pcm pcm_play_chip 0 2)\<lparr>mem_base := pcm_alt_mem\<rparr> \<and>
   pfm_fetch (pcm_test_chip\<lparr>mem_base := pcm_alt_mem\<rparr>) pcm_oob_slot 7 =
     pfm_fetch pcm_test_chip pcm_oob_slot 7 \<and>
   pcm_fetch pcm_test_chip pcm_oob_slot =
     pcm_fetch (pcm_test_chip\<lparr>mem_size := 2 ^ 23,
         mem_base := (\<lambda>a. if a < mem_size pcm_test_chip then mem_base pcm_test_chip a
                          else 0)\<rparr>) pcm_oob_slot"
proof -
  note t = pcm_fetch_in_bounds [of pcm_test_chip pcm_alt_mem pcm_oob_slot 0 0 0 0]
  note agree = t [THEN conjunct1, THEN mp, OF pcm_alt_mem_agree, THEN conjunct1]
  have oob: "\<forall>off \<in> set (pcm_fetch_offsets pcm_oob_slot).
               mem_size pcm_test_chip \<le> off AND 0x7fffff"
    by (simp add: pcm_oob_offsets pcm_test_size)
  note zero = t [THEN conjunct2, THEN conjunct2, THEN conjunct1, THEN mp, OF oob]
  have 1: "pcm_fetch (pcm_test_chip\<lparr>mem_base := pcm_alt_mem\<rparr>) pcm_oob_slot = 0"
    using agree zero by simp
  note u = pcm_fetch_in_bounds [of pcm_test_chip pcm_alt_mem pcm_test_slot 0 0 0 1]
  have 2: "pcm_fetch (pcm_test_chip\<lparr>mem_base := pcm_alt_mem\<rparr>) pcm_test_slot = - 20480"
    using u [THEN conjunct1, THEN mp, OF pcm_alt_mem_agree, THEN conjunct1] pcm_test_fetch
    by simp
  have 3: "pcm_fetch pcm_test_chip
             (pcm_test_slot\<lparr>startaddr := startaddr pcm_test_slot + 2 ^ 23 * 1\<rparr>) = - 20480"
    using u [THEN conjunct2, THEN conjunct2, THEN conjunct2] pcm_test_fetch by simp
  have 4: "update_pcm (pcm_play_chip\<lparr>mem_base := pcm_alt_mem\<rparr>) 0 2 =
             (update_pcm pcm_play_chip 0 2)\<lparr>mem_base := pcm_alt_mem\<rparr>"
    by (rule pcm_fetch_in_bounds [of pcm_play_chip pcm_alt_mem pcm_oob_slot 0 0 2 0,
          THEN conjunct1, THEN mp, OF pcm_play_mem_agree, THEN conjunct2, THEN conjunct2])
  have 5: "mem_base (pcm_test_chip\<lparr>mem_base := pcm_alt_mem\<rparr>) 7 = 0xFF"
    by (simp add: pcm_alt_mem_def)
  have 6: "pcm_fetch_offsets
             (pcm_test_slot\<lparr>startaddr := startaddr pcm_test_slot + 2 ^ 23 * 1\<rparr>) = [0x800003]"
    by (simp add: pcm_test_slot_def slot_zero_def pcm_fetch_offsets_def u32_def drop_bit_eq_div)
  have 7: "active (slots pcm_play_chip 0) = 1"
    by (simp add: pcm_play_chip_def)
  note 8 = pcm_fetch_in_bounds [of pcm_test_chip pcm_alt_mem pcm_oob_slot 7 0 0 0,
      THEN conjunct1, THEN mp, OF pcm_alt_mem_agree, THEN conjunct2, THEN conjunct1]
  note 9 = t [THEN conjunct2, THEN conjunct1]
  show ?thesis
    by (intro conjI pcm_test_size pcm_oob_offsets 5 1 zero pcm_test_offsets pcm_test_fetch
          2 6 3 7 4 8 9)
qed

section \<open>The accumulator path of PCM playback\<close>

lemma s32_id: "- 2147483648 \<le> x \<Longrightarrow> x < 2147483648 \<Longrightarrow> s32 x = x"
  by (simp add: s32_def)

lemma s16_range: "- 32768 \<le> s16 x \<and> s16 x \<le> 32767"
proof -
  have "0 \<le> (x + 32768) mod 65536" and "(x + 32768) mod 65536 < 65536" by simp_all
  then show ?thesis unfolding s16_def by linarith
qed

lemma sat18_range: "- 131072 \<le> sat18 x \<and> sat18 x \<le> 131071"
  by (simp add: sat18_def ACC_18BIT_MAX_def ACC_18BIT_MIN_def)

lemma acc_output_eq:
  "acc_output sample t = drop_bit 2 (sat18 (sample * (2 * max 1 (int t))))"
proof -
  have k: "(if t = 0 then ACC_TL_SCALE else int t * ACC_TL_SCALE) = 2 * max 1 (int t)"
    by (simp add: ACC_TL_SCALE_def max_def)
  have r: "- 131072 \<le> sat18 (sample * (2 * max 1 (int t)))"
          "sat18 (sample * (2 * max 1 (int t))) \<le> 131071"
    using sat18_range by blast+
  have "- 32768 \<le> drop_bit 2 (sat18 (sample * (2 * max 1 (int t))))"
       "drop_bit 2 (sat18 (sample * (2 * max 1 (int t)))) \<le> 32767"
    using r by (simp_all add: drop_bit_eq_div)
  then have "s32 (drop_bit 2 (sat18 (sample * (2 * max 1 (int t)))))
             = drop_bit 2 (sat18 (sample * (2 * max 1 (int t))))"
    by (intro s32_id) linarith+
  then show ?thesis by (simp add: acc_output_def Let_def k)
qed

lemma acc_output_range: "- 32768 \<le> acc_output sample t \<and> acc_output sample t \<le> 32767"
proof -
  have r: "- 131072 \<le> sat18 (sample * (2 * max 1 (int t)))"
          "sat18 (sample * (2 * max 1 (int t))) \<le> 131071"
    using sat18_range by blast+
  show ?thesis unfolding acc_output_eq using r by (simp add: drop_bit_eq_div) linarith
qed

lemma scaled_range:
  assumes "- 32768 \<le> (out::int)" "out \<le> 32767" "0 \<le> att" "att \<le> 65536"
  shows "- 2147483648 \<le> out * att" "out * att \<le> 2147418112"
proof -
  have "out * att \<le> 32767 * att" using assms by (intro mult_right_mono) auto
  also have "\<dots> \<le> 32767 * 65536" using assms by simp
  finally show "out * att \<le> 2147418112" by simp
  have "- 32768 * att \<le> out * att" using assms by (intro mult_right_mono) auto
  moreover have "- 32768 * 65536 \<le> - 32768 * att" using assms by simp
  ultimately show "- 2147483648 \<le> out * att" by simp
qed

lemma acc_channel_eq:
  assumes "- 32768 \<le> out" "out \<le> 32767" "0 \<le> att" "att \<le> 65536"
      and "ACC_18BIT_MIN \<le> a" "a \<le> ACC_18BIT_MAX"
  shows "acc_channel a out att = sat18 (a + drop_bit 16 (out * att))"
proof -
  have p: "- 2147483648 \<le> out * att" "out * att \<le> 2147418112"
    using scaled_range [OF assms(1-4)] by blast+
  then have 1: "s32 (out * att) = out * att" by (intro s32_id) linarith+
  have d: "- 32768 \<le> drop_bit 16 (out * att)" "drop_bit 16 (out * att) \<le> 32767"
    using p by (simp_all add: drop_bit_eq_div)
  have 2: "s32 (a + drop_bit 16 (out * att)) = a + drop_bit 16 (out * att)"
    using d assms(5,6) by (intro s32_id) (simp_all add: ACC_18BIT_MAX_def ACC_18BIT_MIN_def)
  have 3: "s32 (sat18 y) = sat18 y" for y
    using sat18_range [of y] by (intro s32_id) linarith+
  show ?thesis by (simp add: acc_channel_def 1 2 3)
qed

lemma pcm_loop_slot_frame:
  "accon (slots (pcm_loop n chip) n) = accon (slots chip n)"
  "tl_reg (slots (pcm_loop n chip) n) = tl_reg (slots chip n)"
  "ch0_level (slots (pcm_loop n chip) n) = ch0_level (slots chip n)"
  "ch1_level (slots (pcm_loop n chip) n) = ch1_level (slots chip n)"
  "ch2_level (slots (pcm_loop n chip) n) = ch2_level (slots chip n)"
  "ch3_level (slots (pcm_loop n chip) n) = ch3_level (slots chip n)"
  "active (slots (pcm_loop n chip) n) = active (slots chip n)"
  "volume (slots (pcm_loop n chip) n) = volume (slots chip n)"
  "env_state (slots (pcm_loop n chip) n) = env_state (slots chip n)"
  by (simp_all add: pcm_loop_def Let_def calculate_status_end_frame)

lemma update_envelope_frame:
  "accon (update_envelope s) = accon s"
  "tl_reg (update_envelope s) = tl_reg s"
  "ch0_level (update_envelope s) = ch0_level s"
  "ch1_level (update_envelope s) = ch1_level s"
  "ch2_level (update_envelope s) = ch2_level s"
  "ch3_level (update_envelope s) = ch3_level s"
  by (simp_all add: update_envelope_def check_envelope_end_def Let_def split: prod.splits)

lemma calculate_step_frame:
  "accon (calculate_step chip s) = accon s"
  "tl_reg (calculate_step chip s) = tl_reg s"
  "ch0_level (calculate_step chip s) = ch0_level s"
  "ch1_level (calculate_step chip s) = ch1_level s"
  "ch2_level (calculate_step chip s) = ch2_level s"
  "ch3_level (calculate_step chip s) = ch3_level s"
  "active (calculate_step chip s) = active s"
  "volume (calculate_step chip s) = volume s"
  "env_state (calculate_step chip s) = env_state s"
  by (simp_all add: calculate_step_def Let_def)

lemma update_lfo_frame:
  "accon (update_lfo chip s) = accon s"
  "tl_reg (update_lfo chip s) = tl_reg s"
  "ch0_level (update_lfo chip s) = ch0_level s"
  "ch1_level (update_lfo chip s) = ch1_level s"
  "ch2_level (update_lfo chip s) = ch2_level s"
  "ch3_level (update_lfo chip s) = ch3_level s"
  "active (update_lfo chip s) = active s"
  "volume (update_lfo chip s) = volume s"
  "env_state (update_lfo chip s) = env_state s"
  by (simp_all add: update_lfo_def Let_def calculate_step_frame)

lemma update_pcm_sample_acc_buffer:
  assumes "accon (slots chip n) \<noteq> 0"
  shows "acc_buffer (update_pcm_sample n i chip) =
           acc_buffer (pcm_mix_acc chip (slots chip n) i
                         (pcm_fetch (pcm_loop n chip) (slots (pcm_loop n chip) n)))"
  using assms
  by (simp add: update_pcm_sample_def Let_def pcm_mix_acc_def pcm_loop_chip_frame
        pcm_loop_slot_frame update_envelope_frame update_lfo_frame)

section \<open>The state after device start\<close>

lemma set_mute_mask_fold:
  "fold (mute_group m) xs chip
   = chip\<lparr>groups := (\<lambda>g. if g \<in> set xs
                             then (groups chip g)\<lparr>Muted := drop_bit g m AND 0x01\<rparr>
                             else groups chip g)\<rparr>"
proof (induction xs arbitrary: chip)
  case Nil
  show ?case by simp
next
  case (Cons x xs)
  have "fold (mute_group m) (x # xs) chip = fold (mute_group m) xs (mute_group m x chip)"
    by simp
  also have "\<dots> = (mute_group m x chip)\<lparr>groups := (\<lambda>g. if g \<in> set xs
                             then (groups (mute_group m x chip) g)\<lparr>Muted := drop_bit g m AND 0x01\<rparr>
                             else groups (mute_group m x chip) g)\<rparr>"
    by (rule Cons)
  also have "\<dots> = chip\<lparr>groups := (\<lambda>g. if g \<in> set (x # xs)
                             then (groups chip g)\<lparr>Muted := drop_bit g m AND 0x01\<rparr>
                             else groups chip g)\<rparr>"
    by (auto simp: mute_group_def fun_eq_iff)
  finally show ?case .
qed

lemma set_mute_mask_eq:
  "ymf271_set_mute_mask chip m =
     chip\<lparr>groups := (\<lambda>g. if g < 12 then (groups chip g)\<lparr>Muted := drop_bit g m AND 0x01\<rparr>
                            else groups chip g)\<rparr>"
  by (simp add: ymf271_set_mute_mask_def set_mute_mask_fold)

lemma device_start_fields:
  "lut_waves (device_start_ymf271 clk) = init_lut_waves"
  "lut_attenuation (device_start_ymf271 clk) = init_lut_attenuation"
  "lut_total_level (device_start_ymf271 clk) = init_lut_total_level"
  "lut_env_volume (device_start_ymf271 clk) = init_lut_env_volume"
  "lut_ar (device_start_ymf271 clk) = init_lut_ar clk"
  "lut_dc (device_start_ymf271 clk) = init_lut_dc clk"
  "slots (device_start_ymf271 clk) = (\<lambda>n. slot_zero)"
  "acc_buffer (device_start_ymf271 clk) = (\<lambda>i. 0)"
  "mix_buffer (device_start_ymf271 clk) = (\<lambda>i. 0)"
  "sync (groups (device_start_ymf271 clk) g) = 0"
  by (simp_all add: device_start_ymf271_def Let_def set_mute_mask_eq init_tables_def
        chip_calloc_def)

lemma init_lut_attenuation_0: "init_lut_attenuation 0 = 65536"
  by (simp add: init_lut_attenuation_def channel_attenuation_table_def double_to_int_def
        trunc_real_def s32_def)

lemma pcm_mix_acc_at:
  "ch < 4 \<Longrightarrow>
   acc_buffer (pcm_mix_acc chip slot i sample) (i * 4 + ch) =
     acc_channel (acc_buffer chip (i * 4 + ch)) (acc_output sample (tl_reg slot))
       (lut_attenuation chip (ch_level ch slot))"
proof -
  assume "ch < 4"
  then consider "ch = 0" | "ch = 1" | "ch = 2" | "ch = 3" by linarith
  then show ?thesis
    by cases (simp_all add: pcm_mix_acc_def Let_def ch_level_def)
qed

lemma pcm_mix_acc_other:
  "j < i * 4 \<or> i * 4 + 3 < j \<Longrightarrow>
   acc_buffer (pcm_mix_acc chip slot i sample) j = acc_buffer chip j"
  by (auto simp: pcm_mix_acc_def Let_def)

text \<open>
  Claim C1, as the code has it. For a slot with \<open>accon\<close> set, one sample of
  \<^verbatim>\<open>update_pcm\<close> computes \<open>output = sat18 (sample * k) >> 2\<close> with
  \<open>k = 2 * max 1 tl\<close>: the product is saturated to 18 bits first and shifted
  afterwards, so \<open>output\<close> lies in \<open>[- 32768, 32767]\<close>. For each channel
  \<open>ch < 4\<close> the entry \<open>acc_buffer[i * 4 + ch]\<close> becomes
  \<open>sat18 (acc_buffer[i * 4 + ch] + ((output * lut_attenuation[level ch]) >> 16))\<close>.
  The attenuation entries are taken in \<open>[0, 65536]\<close> and the old buffer entries in the
  18-bit range, as the tables and the buffer always are.
\<close>

theorem acc_path_update:
  assumes on: "accon (slots chip n) \<noteq> 0"
      and att: "\<forall>ch<4. 0 \<le> lut_attenuation chip (ch_level ch (slots chip n)) \<and>
                       lut_attenuation chip (ch_level ch (slots chip n)) \<le> 65536"
      and acc: "\<forall>ch<4. ACC_18BIT_MIN \<le> acc_buffer chip (i * 4 + ch) \<and>
                       acc_buffer chip (i * 4 + ch) \<le> ACC_18BIT_MAX"
  shows "let sample = pcm_fetch (pcm_loop n chip) (slots (pcm_loop n chip) n);
             k = 2 * max 1 (int (tl_reg (slots chip n)));
             output = drop_bit 2 (sat18 (sample * k))
         in - 32768 \<le> output \<and> output \<le> 32767 \<and>
            (\<forall>ch<4. acc_buffer (update_pcm_sample n i chip) (i * 4 + ch) =
                 sat18 (acc_buffer chip (i * 4 + ch)
                        + drop_bit 16 (output
                            * lut_attenuation chip (ch_level ch (slots chip n)))))"
proof -
  define sample where "sample = pcm_fetch (pcm_loop n chip) (slots (pcm_loop n chip) n)"
  define out where "out = acc_output sample (tl_reg (slots chip n))"
  have o: "out = drop_bit 2 (sat18 (sample * (2 * max 1 (int (tl_reg (slots chip n))))))"
    by (simp add: out_def acc_output_eq)
  have r: "- 32768 \<le> out" "out \<le> 32767"
    using acc_output_range [of sample "tl_reg (slots chip n)"] by (simp_all add: out_def)
  have "acc_buffer (update_pcm_sample n i chip) (i * 4 + ch) =
          sat18 (acc_buffer chip (i * 4 + ch)
                 + drop_bit 16 (out * lut_attenuation chip (ch_level ch (slots chip n))))"
    if "ch < 4" for ch
  proof -
    have "acc_buffer (update_pcm_sample n i chip) (i * 4 + ch) =
            acc_channel (acc_buffer chip (i * 4 + ch)) out
              (lut_attenuation chip (ch_level ch (slots chip n)))"
      using that by (simp add: update_pcm_sample_acc_buffer [OF on] pcm_mix_acc_at
                       sample_def out_def)
    also have "\<dots> = sat18 (acc_buffer chip (i * 4 + ch)
                 + drop_bit 16 (out * lut_attenuation chip (ch_level ch (slots chip n))))"
      using att acc that r by (intro acc_channel_eq) auto
    finally show ?thesis .
  qed
  then show ?thesis using r unfolding Let_def o [symmetric] sample_def [symmetric] by blast
qed

lemma pcm_loop_bits: "bits (slots (pcm_loop n chip) n) = bits (slots chip n)"
  by (simp add: pcm_loop_def Let_def calculate_status_end_frame)

lemma read_memory_const_rom:
  assumes "mem_size chip = 8388608" "mem_base chip = (\<lambda>a. v)"
  shows "ymf271_read_memory chip off = v"
  using and_mask23_less [of off] assms
  by (simp add: ymf271_read_memory_def read_memory_access_cases)

lemma pcm_fetch_const_rom:
  assumes "mem_size chip = 8388608" "mem_base chip = (\<lambda>a. 0x7F)" "bits slot = 8"
  shows "pcm_fetch chip slot = 32512"
  by (simp add: pcm_fetch_def assms(3) read_memory_const_rom [OF assms(1,2)] s16_def
        push_bit_eq_mult)

lemma acc_test_chip_fields:
  "slots acc_test_chip 0 = acc_test_slot"
  "lut_attenuation acc_test_chip = init_lut_attenuation"
  "acc_buffer acc_test_chip = (\<lambda>i. 0)"
  "mem_size acc_test_chip = 8388608"
  "mem_base acc_test_chip = (\<lambda>a. 0x7F)"
  by (simp_all add: acc_test_chip_def device_start_fields)

lemma acc_test_slot_fields:
  "accon acc_test_slot = 1" "tl_reg acc_test_slot = 8" "bits acc_test_slot = 8"
  "ch0_level acc_test_slot = 0" "ch1_level acc_test_slot = 0"
  "ch2_level acc_test_slot = 0" "ch3_level acc_test_slot = 0"
  "active acc_test_slot = 1" "env_state acc_test_slot = ENV_RELEASE"
  "volume acc_test_slot = 32213" "env_release_step acc_test_slot = 66599"
  by (simp_all add: acc_test_slot_def slot_zero_def)

lemma acc_test_fetch:
  "pcm_fetch (pcm_loop 0 acc_test_chip) (slots (pcm_loop 0 acc_test_chip) 0) = 32512"
  by (rule pcm_fetch_const_rom)
     (simp_all add: pcm_loop_chip_frame pcm_loop_bits acc_test_chip_fields acc_test_slot_fields)

lemma acc_test_ch_level: "ch_level ch acc_test_slot = 0"
  by (simp add: ch_level_def acc_test_slot_fields)

lemma acc_output_test: "acc_output 32512 8 = 32767"
  by (simp add: acc_output_eq sat18_def ACC_18BIT_MAX_def ACC_18BIT_MIN_def drop_bit_eq_div)

lemma acc_test_sample0:
  "acc_buffer (update_pcm_sample 0 0 acc_test_chip) 0 = 32767"
proof -
  have on: "accon (slots acc_test_chip 0) \<noteq> 0"
    by (simp add: acc_test_chip_fields acc_test_slot_fields)
  have "acc_buffer (update_pcm_sample 0 0 acc_test_chip) (0 * 4 + 0) =
          acc_channel 0 32767 65536"
    by (simp only: update_pcm_sample_acc_buffer [OF on] acc_test_fetch)
       (simp add: pcm_mix_acc_at [of 0 _ _ 0, simplified] acc_test_chip_fields acc_test_slot_fields
          acc_test_ch_level acc_output_test init_lut_attenuation_0)
  also have "\<dots> = 32767"
    by (simp add: acc_channel_def s32_def sat18_def ACC_18BIT_MAX_def ACC_18BIT_MIN_def
          drop_bit_eq_div)
  finally show ?thesis by simp
qed

text \<open>
  Claim C1 as the specification words it fails on the code: for the sample \<open>0x7F00\<close>
  and \<open>tl = 8\<close> the specification's \<open>sat18 ((sample * k) >> 2)\<close> is 130048, while
  the code saturates \<open>sample * k = 520192\<close> to 131071 first and then shifts, which
  gives 32767; that is what reaches \<open>acc_buffer[0]\<close>.
\<close>

theorem acc_path_claim_counterexample:
  "pcm_fetch (pcm_loop 0 acc_test_chip) (slots (pcm_loop 0 acc_test_chip) 0) = 32512 \<and>
   tl_reg (slots acc_test_chip 0) = 8 \<and>
   accon (slots acc_test_chip 0) = 1 \<and>
   acc_output 32512 8 = 32767 \<and>
   sat18 (drop_bit 2 (32512 * (2 * max 1 8))) = 130048 \<and>
   acc_buffer (update_pcm_sample 0 0 acc_test_chip) 0 = 32767 \<and>
   acc_buffer (update_pcm_sample 0 0 acc_test_chip) 0 \<noteq> 130048"
  by (simp add: acc_test_fetch acc_test_chip_fields acc_test_slot_fields acc_output_test
        acc_test_sample0 sat18_def ACC_18BIT_MAX_def ACC_18BIT_MIN_def drop_bit_eq_div)

theorem acc_path_update_witness:
  "accon (slots acc_test_chip 0) \<noteq> 0 \<and>
   lut_attenuation acc_test_chip (ch_level 3 (slots acc_test_chip 0)) = 65536 \<and>
   acc_buffer acc_test_chip (0 * 4 + 3) = 0 \<and>
   ACC_18BIT_MIN \<le> 0 \<and> 0 \<le> ACC_18BIT_MAX \<and>
   (3::nat) < 4 \<and>
   acc_buffer (update_pcm_sample 0 0 acc_test_chip) (0 * 4 + 3) = 32767"
proof -
  have on: "accon (slots acc_test_chip 0) \<noteq> 0"
    by (simp add: acc_test_chip_fields acc_test_slot_fields)
  have att: "\<forall>ch<4. 0 \<le> lut_attenuation acc_test_chip (ch_level ch (slots acc_test_chip 0)) \<and>
            lut_attenuation acc_test_chip (ch_level ch (slots acc_test_chip 0)) \<le> 65536"
    by (simp add: acc_test_chip_fields acc_test_ch_level init_lut_attenuation_0)
  have acc: "\<forall>ch<4. ACC_18BIT_MIN \<le> acc_buffer acc_test_chip (0 * 4 + ch) \<and>
            acc_buffer acc_test_chip (0 * 4 + ch) \<le> ACC_18BIT_MAX"
    by (simp add: acc_test_chip_fields ACC_18BIT_MAX_def ACC_18BIT_MIN_def)
  have "acc_buffer (update_pcm_sample 0 0 acc_test_chip) (0 * 4 + 3) = 32767"
    using acc_path_update [OF on att acc]
    by (simp add: Let_def acc_test_fetch acc_test_chip_fields acc_test_slot_fields
          acc_test_ch_level init_lut_attenuation_0 sat18_def ACC_18BIT_MAX_def
          ACC_18BIT_MIN_def drop_bit_eq_div)
  then show ?thesis
    using on by (simp add: acc_test_chip_fields acc_test_ch_level init_lut_attenuation_0
                   ACC_18BIT_MAX_def ACC_18BIT_MIN_def)
qed

section \<open>End of the envelope\<close>

lemma update_envelope_decay:
  assumes "env_state s = ENV_DECAY1 \<or> env_state s = ENV_DECAY2 \<or> env_state s = ENV_RELEASE"
  shows "volume (update_envelope s) = max 0 (s32 (volume s - env_dec s))"
    and "s32 (volume s - env_dec s) \<le> 0 \<Longrightarrow> active (update_envelope s) = 0"
    and "0 < s32 (volume s - env_dec s) \<Longrightarrow> active (update_envelope s) = active s"
  using assms
  by (auto simp: update_envelope_def check_envelope_end_def env_dec_def Let_def
        ENV_ATTACK_def ENV_DECAY1_def ENV_DECAY2_def ENV_RELEASE_def split: prod.splits)

lemma update_pcm_inactive: "active (slots chip n) = 0 \<Longrightarrow> update_pcm chip n len = chip"
  by (simp add: update_pcm_def)

text \<open>
  Claim C4, as the code has it. In the stages Decay1, Decay2 and Release an envelope
  update never leaves the volume below 0, and when the decremented volume is \<open>\<le> 0\<close>
  the slot is marked inactive with its volume set to 0. \<^verbatim>\<open>update_pcm\<close> tests the
  active flag once, on entry: called for an inactive slot it changes nothing, so from the
  next call on the slot adds nothing to \<open>mix_buffer\<close> or \<open>acc_buffer\<close>.
\<close>

theorem envelope_end_deactivates:
  "(env_state s = ENV_DECAY1 \<or> env_state s = ENV_DECAY2 \<or> env_state s = ENV_RELEASE \<longrightarrow>
      0 \<le> volume (update_envelope s) \<and>
      (s32 (volume s - env_dec s) \<le> 0 \<longrightarrow>
         active (update_envelope s) = 0 \<and> volume (update_envelope s) = 0)) \<and>
   (active (slots chip n) = 0 \<longrightarrow> update_pcm chip n len = chip)"
  by (auto simp: update_envelope_decay update_pcm_inactive)

lemma update_envelope_env_cong:
  assumes "volume s = volume s'" "env_state s = env_state s'" "active s = active s'"
      and "env_attack_step s = env_attack_step s'" "env_decay1_step s = env_decay1_step s'"
      and "env_decay2_step s = env_decay2_step s'" "env_release_step s = env_release_step s'"
      and "decay1lvl s = decay1lvl s'"
  shows "volume (update_envelope s) = volume (update_envelope s')"
    and "active (update_envelope s) = active (update_envelope s')"
    and "env_state (update_envelope s) = env_state (update_envelope s')"
  using assms
  by (simp_all add: update_envelope_def check_envelope_end_def Let_def split: prod.splits)

lemma pcm_loop_env_frame:
  "env_attack_step (slots (pcm_loop n chip) n) = env_attack_step (slots chip n)"
  "env_decay1_step (slots (pcm_loop n chip) n) = env_decay1_step (slots chip n)"
  "env_decay2_step (slots (pcm_loop n chip) n) = env_decay2_step (slots chip n)"
  "env_release_step (slots (pcm_loop n chip) n) = env_release_step (slots chip n)"
  "decay1lvl (slots (pcm_loop n chip) n) = decay1lvl (slots chip n)"
  by (simp_all add: pcm_loop_def Let_def calculate_status_end_frame)

lemma update_envelope_pcm_loop:
  "volume (update_envelope (slots (pcm_loop n chip) n)) = volume (update_envelope (slots chip n))"
  "active (update_envelope (slots (pcm_loop n chip) n)) = active (update_envelope (slots chip n))"
  "env_state (update_envelope (slots (pcm_loop n chip) n)) = env_state (update_envelope (slots chip n))"
  by (rule update_envelope_env_cong; simp add: pcm_loop_slot_frame pcm_loop_env_frame)+

lemma update_pcm_sample_slot:
  "slots (update_pcm_sample n i chip) n =
     (let s2 = update_lfo (pcm_loop n chip) (update_envelope (slots (pcm_loop n chip) n))
      in if loop_direction s2 > 0
         then s2\<lparr>stepptr := u64 (int (stepptr s2) + int (step s2))\<rparr>
         else s2\<lparr>stepptr := u64 (int (stepptr s2) - int (step s2))\<rparr>)"
  by (simp add: update_pcm_sample_def Let_def pcm_mix_slots)

lemma update_pcm_sample_env:
  "volume (slots (update_pcm_sample n i chip) n) = volume (update_envelope (slots chip n))"
  "active (slots (update_pcm_sample n i chip) n) = active (update_envelope (slots chip n))"
  "env_state (slots (update_pcm_sample n i chip) n) = env_state (update_envelope (slots chip n))"
  by (simp_all add: update_pcm_sample_slot Let_def update_lfo_frame update_envelope_pcm_loop)

lemma update_envelope_bits: "bits (update_envelope s) = bits s"
  by (simp add: update_envelope_def check_envelope_end_def Let_def split: prod.splits)

lemma update_lfo_bits: "bits (update_lfo chip s) = bits s"
  by (simp add: update_lfo_def calculate_step_def Let_def)

lemma update_pcm_sample_slot_frame:
  "accon (slots (update_pcm_sample n i chip) n) = accon (slots chip n)"
  "tl_reg (slots (update_pcm_sample n i chip) n) = tl_reg (slots chip n)"
  "ch0_level (slots (update_pcm_sample n i chip) n) = ch0_level (slots chip n)"
  "ch1_level (slots (update_pcm_sample n i chip) n) = ch1_level (slots chip n)"
  "ch2_level (slots (update_pcm_sample n i chip) n) = ch2_level (slots chip n)"
  "ch3_level (slots (update_pcm_sample n i chip) n) = ch3_level (slots chip n)"
  "bits (slots (update_pcm_sample n i chip) n) = bits (slots chip n)"
  by (simp_all add: update_pcm_sample_slot Let_def update_lfo_frame update_envelope_frame
        pcm_loop_slot_frame update_lfo_bits update_envelope_bits pcm_loop_bits)

lemma pcm_mix_chip_frame:
  "lut_attenuation (pcm_mix_acc chip slot i sample) = lut_attenuation chip"
  "mem_base (pcm_mix_acc chip slot i sample) = mem_base chip"
  "mem_size (pcm_mix_acc chip slot i sample) = mem_size chip"
  "lut_attenuation (pcm_mix_direct chip slot i sample) = lut_attenuation chip"
  "mem_base (pcm_mix_direct chip slot i sample) = mem_base chip"
  "mem_size (pcm_mix_direct chip slot i sample) = mem_size chip"
  "acc_buffer (pcm_mix_direct chip slot i sample) = acc_buffer chip"
  by (simp_all add: pcm_mix_acc_def pcm_mix_direct_def Let_def)

lemma update_pcm_sample_chip_frame:
  "lut_attenuation (update_pcm_sample n i chip) = lut_attenuation chip"
  "mem_base (update_pcm_sample n i chip) = mem_base chip"
  "mem_size (update_pcm_sample n i chip) = mem_size chip"
  by (simp_all add: update_pcm_sample_def Let_def pcm_mix_chip_frame pcm_loop_chip_frame)

lemma acc_test_sample0_other:
  "acc_buffer (update_pcm_sample 0 0 acc_test_chip) 4 = 0"
proof -
  have on: "accon (slots acc_test_chip 0) \<noteq> 0"
    by (simp add: acc_test_chip_fields acc_test_slot_fields)
  show ?thesis
    by (simp add: update_pcm_sample_acc_buffer [OF on] pcm_mix_acc_other acc_test_chip_fields)
qed

lemma acc_test_envelope_end:
  "active (slots (update_pcm_sample 0 0 acc_test_chip) 0) = 0"
  "volume (slots (update_pcm_sample 0 0 acc_test_chip) 0) = 0"
proof -
  have st: "env_state (slots acc_test_chip 0) = ENV_DECAY1 \<or>
            env_state (slots acc_test_chip 0) = ENV_DECAY2 \<or>
            env_state (slots acc_test_chip 0) = ENV_RELEASE"
    by (simp add: acc_test_chip_fields acc_test_slot_fields)
  have d: "s32 (volume (slots acc_test_chip 0) - env_dec (slots acc_test_chip 0)) = - 34386"
    by (simp add: acc_test_chip_fields acc_test_slot_fields env_dec_def s32_def
          ENV_RELEASE_def ENV_DECAY1_def ENV_DECAY2_def)
  show "active (slots (update_pcm_sample 0 0 acc_test_chip) 0) = 0"
    using update_envelope_decay(2) [OF st] d by (simp add: update_pcm_sample_env)
  show "volume (slots (update_pcm_sample 0 0 acc_test_chip) 0) = 0"
    using update_envelope_decay(1) [OF st] d by (simp add: update_pcm_sample_env)
qed

lemma acc_test_sample1:
  "acc_buffer (update_pcm_sample 0 (Suc 0) (update_pcm_sample 0 0 acc_test_chip)) 4 = 32767"
proof -
  let ?c = "update_pcm_sample 0 0 acc_test_chip"
  have on: "accon (slots ?c 0) \<noteq> 0"
    by (simp add: update_pcm_sample_slot_frame acc_test_chip_fields acc_test_slot_fields)
  have f: "pcm_fetch (pcm_loop 0 ?c) (slots (pcm_loop 0 ?c) 0) = 32512"
    by (rule pcm_fetch_const_rom)
       (simp_all add: pcm_loop_chip_frame pcm_loop_bits update_pcm_sample_chip_frame
          update_pcm_sample_slot_frame acc_test_chip_fields acc_test_slot_fields)
  have l: "ch_level 0 (slots ?c 0) = 0"
    by (simp add: ch_level_def update_pcm_sample_slot_frame acc_test_chip_fields
          acc_test_slot_fields)
  have "acc_buffer (update_pcm_sample 0 (Suc 0) ?c) (Suc 0 * 4 + 0) = acc_channel 0 32767 65536"
    by (simp only: update_pcm_sample_acc_buffer [OF on] f)
       (simp add: pcm_mix_acc_at [of 0 _ _ "Suc 0", simplified] l update_pcm_sample_slot_frame
          update_pcm_sample_chip_frame acc_test_chip_fields acc_test_slot_fields
          acc_output_test init_lut_attenuation_0 acc_test_sample0_other)
  also have "\<dots> = 32767"
    by (simp add: acc_channel_def s32_def sat18_def ACC_18BIT_MAX_def ACC_18BIT_MIN_def
          drop_bit_eq_div)
  finally show ?thesis by simp
qed

lemma update_pcm_two:
  "active (slots chip n) \<noteq> 0 \<Longrightarrow>
   update_pcm chip n 2 = update_pcm_sample n (Suc 0) (update_pcm_sample n 0 chip)"
proof -
  have "[0..<2] = [0, Suc 0]" by (simp add: numeral_2_eq_2 upt_rec)
  then show "active (slots chip n) \<noteq> 0 \<Longrightarrow> ?thesis" by (simp add: update_pcm_def)
qed

text \<open>
  The last part of claim C4 fails on the code. Slot 0 of \<open>acc_test_chip\<close> is in Release
  with volume 32213 and release step 66599. The first sample of a two-sample call of
  \<^verbatim>\<open>update_pcm\<close> ends the envelope (the slot is inactive, its volume 0), yet the
  sample loop goes on without looking at the active flag, and the accumulator branch does
  not use the envelope: both samples put 32767 into \<open>acc_buffer\<close>, which
  \<^verbatim>\<open>ymf271_update\<close> adds into the mix.
\<close>

theorem envelope_end_claim_counterexample:
  "env_state (slots acc_test_chip 0) = ENV_RELEASE \<and>
   active (slots acc_test_chip 0) = 1 \<and>
   acc_buffer acc_test_chip 0 = 0 \<and> acc_buffer acc_test_chip 4 = 0 \<and>
   active (slots (update_pcm_sample 0 0 acc_test_chip) 0) = 0 \<and>
   volume (slots (update_pcm_sample 0 0 acc_test_chip) 0) = 0 \<and>
   acc_buffer (update_pcm_sample 0 0 acc_test_chip) 0 = 32767 \<and>
   acc_buffer (update_pcm acc_test_chip 0 2) 4 = 32767"
proof -
  have "active (slots acc_test_chip 0) \<noteq> 0"
    by (simp add: acc_test_chip_fields acc_test_slot_fields)
  then show ?thesis
    by (simp add: update_pcm_two acc_test_sample1 acc_test_sample0 acc_test_envelope_end
          acc_test_chip_fields acc_test_slot_fields)
qed

theorem envelope_end_deactivates_witness:
  "(env_state acc_test_slot = ENV_DECAY1 \<or> env_state acc_test_slot = ENV_DECAY2
      \<or> env_state acc_test_slot = ENV_RELEASE) \<and>
   s32 (volume acc_test_slot - env_dec acc_test_slot) \<le> 0 \<and>
   active acc_test_slot = 1 \<and>
   active (update_envelope acc_test_slot) = 0 \<and>
   volume (update_envelope acc_test_slot) = 0 \<and>
   active (slots acc_test_chip 5) = 0 \<and>
   update_pcm acc_test_chip 5 3 = acc_test_chip"
proof -
  have st: "env_state acc_test_slot = ENV_DECAY1 \<or> env_state acc_test_slot = ENV_DECAY2
      \<or> env_state acc_test_slot = ENV_RELEASE"
    by (simp add: acc_test_slot_fields)
  have d: "s32 (volume acc_test_slot - env_dec acc_test_slot) \<le> 0"
    by (simp add: acc_test_slot_fields env_dec_def s32_def
          ENV_RELEASE_def ENV_DECAY1_def ENV_DECAY2_def)
  have i: "active (slots acc_test_chip 5) = 0"
    by (simp add: acc_test_chip_def slot_zero_def)
  show ?thesis
    using envelope_end_deactivates [of acc_test_slot acc_test_chip 5 3] st d i
    by (simp add: acc_test_slot_fields)
qed

section \<open>Waveform table 6\<close>

lemma init_lut_waves_6: "init_lut_waves 6 i = - 32768"
  by (simp add: init_lut_waves_def MAXOUT_def s16_def Let_def)

text \<open>
  Claim C5 (the code departs from it). \<^verbatim>\<open>init_tables\<close> stores
  \<^verbatim>\<open>(INT16)(1 * MAXOUT)\<close> with \<^verbatim>\<open>MAXOUT = +32768\<close> in every entry of waveform
  table 6. The value \<open>+ 32768\<close> does not fit a signed 16-bit entry: the conversion
  wraps, and each entry holds \<open>- 32768\<close>, here for entry 0 of a chip started at the
  standard clock.
\<close>

theorem wave6_stored_value:
  "lut_waves (device_start_ymf271 16934400) 6 0 = - 32768"
  by (simp add: device_start_fields init_lut_waves_6)

section \<open>Sync-register broadcast\<close>

lemma write_register_nonzero:
  "reg \<noteq> 0 \<Longrightarrow>
   groups (write_register chip m reg data) = groups chip \<and>
   (\<forall>n. n \<noteq> m \<longrightarrow> slots (write_register chip m reg data) n = slots chip n)"
  by (simp add: write_register_def Let_def)

lemma write_register_fields:
  "fns_hi (slots (write_register chip m 0xa data) m) = data"
  "algorithm (slots (write_register chip m 0xc data) m) = data AND 0xf"
  "ch0_level (slots (write_register chip m 0xd data) m) = drop_bit 4 data"
  "ch1_level (slots (write_register chip m 0xd data) m) = data AND 0xf"
  "ch2_level (slots (write_register chip m 0xe data) m) = drop_bit 4 data"
  "ch3_level (slots (write_register chip m 0xe data) m) = data AND 0xf"
  "fns (slots (write_register chip m 0x9 data) m) =
     (push_bit 8 (fns_hi (slots chip m)) AND 0x0f00) OR data"
  "block (slots (write_register chip m 0x9 data) m) = drop_bit 4 (fns_hi (slots chip m)) AND 0xf"
  by (simp_all add: write_register_def Let_def)

lemma init_frame_ext:
  "ext_en (init_envelope chip s) = ext_en s" "ext_out (init_envelope chip s) = ext_out s"
  "ext_en (init_lfo chip s) = ext_en s" "ext_out (init_lfo chip s) = ext_out s"
  "ext_en (calculate_step chip s) = ext_en s" "ext_out (calculate_step chip s) = ext_out s"
  by (simp_all add: init_envelope_def init_lfo_def calculate_step_def Let_def)

lemma keyon_other_slot_frame:
  "groups (keyon_other_slot k chip) = groups chip"
  "ext_en (slots (keyon_other_slot k chip) n) = ext_en (slots chip n)"
  "ext_out (slots (keyon_other_slot k chip) n) = ext_out (slots chip n)"
  by (simp_all add: keyon_other_slot_def Let_def init_frame_ext)

lemma fold_keyon_other_frame:
  "groups (fold (\<lambda>i. keyon_other_slot (g + i * 12)) xs chip) = groups chip"
  "ext_en (slots (fold (\<lambda>i. keyon_other_slot (g + i * 12)) xs chip) n) = ext_en (slots chip n)"
  "ext_out (slots (fold (\<lambda>i. keyon_other_slot (g + i * 12)) xs chip) n) = ext_out (slots chip n)"
  by (induction xs arbitrary: chip) (simp_all add: keyon_other_slot_frame)

lemma calculate_status_end_groups:
  "groups (calculate_status_end chip n st) = groups chip"
  by (simp add: calculate_status_end_def Let_def)

lemma key_on_frame:
  "groups (key_on chip m) = groups chip"
  "ext_en (slots (key_on chip m) n) = ext_en (slots chip n)"
  "ext_out (slots (key_on chip m) n) = ext_out (slots chip n)"
  by (simp_all add: key_on_def Let_def keyon_other_slot_frame fold_keyon_other_frame
        calculate_status_end_frame calculate_status_end_groups init_frame_ext)

lemma write_register_0:
  "groups (write_register chip m 0 data) = groups chip"
  "ext_en (slots (write_register chip m 0 data) n) =
     (if n = m then (if data AND 0x80 \<noteq> 0 then 1 else 0) else ext_en (slots chip n))"
  "ext_out (slots (write_register chip m 0 data) n) =
     (if n = m then drop_bit 3 data AND 0xf else ext_out (slots chip n))"
  by (simp_all add: write_register_def Let_def key_on_frame)

lemma write_register_slot_cong:
  "reg \<noteq> 0 \<Longrightarrow> slots chip m = slots chip' m \<Longrightarrow>
   slots (write_register chip m reg data) m = slots (write_register chip' m reg data) m"
  by (simp add: write_register_def Let_def)

lemma write_fm_sync0:
  assumes "fm_tab ! (address AND 0xf) = int g" "sync (groups chip g) = 0"
      and "is_sync_reg (drop_bit 4 address AND 0xf)"
  shows "ymf271_write_fm chip 0 address data =
           write_register
             (write_register
               (write_register
                 (write_register chip g (drop_bit 4 address AND 0xf) data)
                 (12 + g) (drop_bit 4 address AND 0xf) data)
               (24 + g) (drop_bit 4 address AND 0xf) data)
             (36 + g) (drop_bit 4 address AND 0xf) data"
  using assms by (simp add: ymf271_write_fm_def Let_def is_sync_mode_def)

lemma write_fm_sync0_slot:
  assumes v: "fm_tab ! (address AND 0xf) = int g" and s: "sync (groups chip g) = 0"
      and r: "is_sync_reg (drop_bit 4 address AND 0xf)" and nz: "drop_bit 4 address AND 0xf \<noteq> 0"
      and b: "b < 4"
  shows "slots (ymf271_write_fm chip 0 address data) (12 * b + g) =
           slots (write_register chip (12 * b + g) (drop_bit 4 address AND 0xf) data) (12 * b + g)"
proof -
  let ?r = "drop_bit 4 address AND 0xf"
  let ?c1 = "write_register chip g ?r data"
  let ?c2 = "write_register ?c1 (12 + g) ?r data"
  let ?c3 = "write_register ?c2 (24 + g) ?r data"
  let ?c4 = "write_register ?c3 (36 + g) ?r data"
  note o = write_register_nonzero [OF nz, THEN conjunct2, rule_format]
  have e: "ymf271_write_fm chip 0 address data = ?c4" by (rule write_fm_sync0 [OF v s r])
  from b consider "b = 0" | "b = 1" | "b = 2" | "b = 3" by linarith
  then show ?thesis
  proof cases
    case 1
    then show ?thesis by (simp add: e o)
  next
    case 2
    have "slots ?c4 (12 + g) = slots ?c2 (12 + g)" by (simp add: o)
    also have "\<dots> = slots (write_register chip (12 + g) ?r data) (12 + g)"
      by (rule write_register_slot_cong [OF nz]) (simp add: o)
    finally show ?thesis using 2 by (simp add: e)
  next
    case 3
    have "slots ?c4 (24 + g) = slots ?c3 (24 + g)" by (simp add: o)
    also have "\<dots> = slots (write_register chip (24 + g) ?r data) (24 + g)"
      by (rule write_register_slot_cong [OF nz]) (simp add: o)
    finally show ?thesis using 3 by (simp add: e)
  next
    case 4
    have "slots ?c4 (36 + g) = slots (write_register chip (36 + g) ?r data) (36 + g)"
      by (rule write_register_slot_cong [OF nz]) (simp add: o)
    then show ?thesis using 4 by (simp add: e)
  qed
qed

lemma write_fm_sync0_reg0:
  assumes v: "fm_tab ! (address AND 0xf) = int g" and s: "sync (groups chip g) = 0"
      and r0: "drop_bit 4 address AND 0xf = 0" and b: "b < 4"
  shows "ext_en (slots (ymf271_write_fm chip 0 address data) (12 * b + g)) =
           (if data AND 0x80 \<noteq> 0 then 1 else 0)"
    and "ext_out (slots (ymf271_write_fm chip 0 address data) (12 * b + g)) =
           drop_bit 3 data AND 0xf"
proof -
  have r: "is_sync_reg (drop_bit 4 address AND 0xf)" by (simp add: r0 is_sync_reg_def)
  from b consider "b = 0" | "b = 1" | "b = 2" | "b = 3" by linarith
  then show "ext_en (slots (ymf271_write_fm chip 0 address data) (12 * b + g)) =
           (if data AND 0x80 \<noteq> 0 then 1 else 0)"
    by cases (simp_all add: write_fm_sync0 [OF v s r] r0 write_register_0)
  from b consider "b = 0" | "b = 1" | "b = 2" | "b = 3" by linarith
  then show "ext_out (slots (ymf271_write_fm chip 0 address data) (12 * b + g)) =
           drop_bit 3 data AND 0xf"
    by cases (simp_all add: write_fm_sync0 [OF v s r] r0 write_register_0)
qed

lemma write_fm_nonsync:
  assumes v: "fm_tab ! (address AND 0xf) = int g"
      and r: "\<not> is_sync_reg (drop_bit 4 address AND 0xf)"
  shows "ymf271_write_fm chip bank address data =
           write_register chip (12 * bank + g) (drop_bit 4 address AND 0xf) data"
  using assms by (simp add: ymf271_write_fm_def Let_def)

lemma keyon_other_slot_other:
  "n \<noteq> k \<Longrightarrow> slots (keyon_other_slot k chip) n = slots chip n"
  by (simp add: keyon_other_slot_def Let_def)

lemma fold_keyon_other_other:
  "\<forall>i\<in>set xs. g + i * 12 \<noteq> n \<Longrightarrow>
   slots (fold (\<lambda>i. keyon_other_slot (g + i * 12)) xs chip) n = slots chip n"
  by (induction xs arbitrary: chip) (simp_all add: keyon_other_slot_other)

lemma key_on_unfold:
  "key_on chip m =
     (let s = (slots chip m)\<lparr>step := 0, stepptr := 0, active := 1, loop_direction := 1\<rparr>;
          t = calculate_step chip (init_lfo chip (init_envelope chip s));
          c2 = calculate_status_end (chip\<lparr>slots := (slots chip)(m := t)\<rparr>) m 0;
          c3 = c2\<lparr>slots := (slots c2)(m :=
                 t\<lparr>feedback_modulation0 := 0, feedback_modulation1 := 0\<rparr>)\<rparr>;
          sy = sync (groups chip (m mod 12))
      in if sy = 0 \<and> m div 12 = 0 then
           fold (\<lambda>i. keyon_other_slot (m mod 12 + i * 12)) [1..<4] c3
         else if sy = 1 then
           (if m div 12 = 0 then keyon_other_slot (m mod 12 + 2 * 12) c3
            else if m div 12 = 1 then keyon_other_slot (m mod 12 + 3 * 12) c3
            else c3)
         else if sy = 2 \<and> m div 12 = 0 then
           fold (\<lambda>i. keyon_other_slot (m mod 12 + i * 12)) [1..<3] c3
         else c3)"
  by (simp add: key_on_def Let_def calculate_status_end_frame calculate_status_end_groups
           del: fold_simps upt_Suc)

lemma key_on_self:
  "slots (key_on chip m) m =
     (calculate_step chip (init_lfo chip (init_envelope chip
        ((slots chip m)\<lparr>step := 0, stepptr := 0, active := 1, loop_direction := 1\<rparr>))))
       \<lparr>feedback_modulation0 := 0, feedback_modulation1 := 0\<rparr>"
proof -
  have a: "\<forall>i\<in>set [1..<4]. m mod 12 + i * 12 \<noteq> m" if "m div 12 = 0"
    using that by (auto simp: div_eq_0_iff)
  have b: "\<forall>i\<in>set [1..<3]. m mod 12 + i * 12 \<noteq> m" if "m div 12 = 0"
    using that by (auto simp: div_eq_0_iff)
  have c: "m mod 12 + 2 * 12 \<noteq> m" if "m div 12 = 0"
    using that by (auto simp: div_eq_0_iff)
  have d: "m mod 12 + 3 * 12 \<noteq> m" if "m div 12 = 1"
  proof -
    have "m = 12 * (m div 12) + m mod 12" by simp
    then have "m = 12 + m mod 12" using that by simp
    then show ?thesis by linarith
  qed
  show ?thesis
    using a b c d
    by (simp add: key_on_unfold Let_def fold_keyon_other_other keyon_other_slot_other
          calculate_status_end_frame del: fold_simps upt_Suc)
qed

lemma key_on_other_nolead:
  assumes "sync (groups chip (m mod 12)) = 0" "m div 12 \<noteq> 0" "n \<noteq> m"
  shows "slots (key_on chip m) n = slots chip n"
  using assms by (simp add: key_on_unfold Let_def calculate_status_end_frame)

lemma write_register_0_keyon:
  "data AND 1 \<noteq> 0 \<Longrightarrow>
   write_register chip m 0 data =
     key_on (chip\<lparr>slots := (slots chip)(m :=
       (slots chip m)\<lparr>ext_en := (if data AND 0x80 \<noteq> 0 then 1 else 0),
                        ext_out := drop_bit 3 data AND 0xf\<rparr>)\<rparr>) m"
  by (simp add: write_register_def Let_def)

lemma write_register_0_groups [simp]:
  "groups (write_register chip m 0 data) = groups chip"
  by (rule write_register_0(1))

lemma write_register_keyon_other:
  assumes "data AND 1 \<noteq> 0" "sync (groups chip (m mod 12)) = 0" "m div 12 \<noteq> 0" "n \<noteq> m"
  shows "slots (write_register chip m 0 data) n = slots chip n"
  using assms by (simp add: write_register_0_keyon key_on_other_nolead)

lemma init_lfo_env_frame:
  "volume (init_lfo chip s) = volume s"
  "env_state (init_lfo chip s) = env_state s"
  "env_attack_step (init_lfo chip s) = env_attack_step s"
  by (simp_all add: init_lfo_def)

lemma calculate_step_env_frame:
  "volume (calculate_step chip s) = volume s"
  "env_state (calculate_step chip s) = env_state s"
  "env_attack_step (calculate_step chip s) = env_attack_step s"
  by (simp_all add: calculate_step_def Let_def)

lemma fm_tab_group_less:
  assumes "fm_tab ! (address AND 0xf) = int g"
  shows "g < 12"
proof -
  have "(0xf::nat) = mask 4" by (simp add: mask_eq_exp_minus_1)
  then have "address AND 0xf = take_bit 4 address" by (simp add: take_bit_eq_mask)
  then have "address AND 0xf < 16" by (simp add: take_bit_eq_mod)
  moreover have "\<forall>i<16. fm_tab ! i = int g \<longrightarrow> g < 12"
    by (simp add: fm_tab_def All_less_Suc numeral_eq_Suc) 
  ultimately show ?thesis using assms by blast
qed

lemma init_envelope_start:
  "volume (init_envelope chip s) = 6225920"
  "env_state (init_envelope chip s) = ENV_ATTACK"
  "active (init_envelope chip s) = active s"
  "stepptr (init_envelope chip s) = stepptr s"
  "loop_direction (init_envelope chip s) = loop_direction s"
  by (simp_all add: init_envelope_def Let_def ENV_VOLUME_SHIFT_def)

lemma init_lfo_key_frame:
  "active (init_lfo chip s) = active s"
  "stepptr (init_lfo chip s) = stepptr s"
  "loop_direction (init_lfo chip s) = loop_direction s"
  by (simp_all add: init_lfo_def)

lemma calculate_step_key_frame:
  "active (calculate_step chip s) = active s"
  "stepptr (calculate_step chip s) = stepptr s"
  "loop_direction (calculate_step chip s) = loop_direction s"
  by (simp_all add: calculate_step_def Let_def)

lemma key_on_self_fields:
  "active (slots (key_on chip m) m) = 1"
  "env_state (slots (key_on chip m) m) = ENV_ATTACK"
  "volume (slots (key_on chip m) m) = 6225920"
  "stepptr (slots (key_on chip m) m) = 0"
  "loop_direction (slots (key_on chip m) m) = 1"
  by (simp_all add: key_on_self init_envelope_start init_lfo_key_frame calculate_step_key_frame
        init_lfo_env_frame calculate_step_env_frame)

lemma write_register_0_keyon_fields:
  assumes "data AND 1 \<noteq> 0"
  shows "active (slots (write_register chip m 0 data) m) = 1"
    and "env_state (slots (write_register chip m 0 data) m) = ENV_ATTACK"
    and "volume (slots (write_register chip m 0 data) m) = 6225920"
    and "stepptr (slots (write_register chip m 0 data) m) = 0"
    and "loop_direction (slots (write_register chip m 0 data) m) = 1"
  by (simp_all only: write_register_0_keyon [OF assms] key_on_self_fields)

lemma write_register_0_keyoff:
  assumes "data AND 1 = 0"
  shows "slots (write_register chip m 0 data) =
           (slots chip)(m :=
             (if active (slots chip m) \<noteq> 0
              then (slots chip m)\<lparr>ext_en := (if data AND 0x80 \<noteq> 0 then 1 else 0),
                      ext_out := drop_bit 3 data AND 0xf, env_state := ENV_RELEASE\<rparr>
              else (slots chip m)\<lparr>ext_en := (if data AND 0x80 \<noteq> 0 then 1 else 0),
                      ext_out := drop_bit 3 data AND 0xf\<rparr>))"
  using assms by (simp add: write_register_def Let_def)

lemma write_register_fields_nonsync:
  "lfoFreq (slots (write_register chip m 0x1 data) m) = data"
  "lfowave (slots (write_register chip m 0x2 data) m) = data AND 3"
  "pms (slots (write_register chip m 0x2 data) m) = drop_bit 3 data AND 0x7"
  "ams (slots (write_register chip m 0x2 data) m) = drop_bit 6 data AND 0x3"
  "multiple (slots (write_register chip m 0x3 data) m) = data AND 0xf"
  "detune (slots (write_register chip m 0x3 data) m) = drop_bit 4 data AND 0x7"
  "tl_reg (slots (write_register chip m 0x4 data) m) = data AND 0x7f"
  "ar (slots (write_register chip m 0x5 data) m) = data AND 0x1f"
  "keyscale (slots (write_register chip m 0x5 data) m) = drop_bit 5 data AND 0x3"
  "decay1rate (slots (write_register chip m 0x6 data) m) = data AND 0x1f"
  "decay2rate (slots (write_register chip m 0x7 data) m) = data AND 0x1f"
  "relrate (slots (write_register chip m 0x8 data) m) = data AND 0xf"
  "decay1lvl (slots (write_register chip m 0x8 data) m) = drop_bit 4 data AND 0xf"
  "waveform (slots (write_register chip m 0xb data) m) = data AND 0x7"
  "feedback (slots (write_register chip m 0xb data) m) = drop_bit 4 data AND 0x7"
  "accon (slots (write_register chip m 0xb data) m) = (if data AND 0x80 \<noteq> 0 then 1 else 0)"
  "write_register chip m 0xf data = chip"
  by (simp_all add: write_register_def Let_def)

lemma write_fm_sync0_keyoff:
  assumes v: "fm_tab ! (address AND 0xf) = int g" and s: "sync (groups chip g) = 0"
      and r0: "drop_bit 4 address AND 0xf = 0" and d: "data AND 1 = 0" and b: "b < 4"
  shows "slots (ymf271_write_fm chip 0 address data) (12 * b + g) =
           (if active (slots chip (12 * b + g)) \<noteq> 0
            then (slots chip (12 * b + g))\<lparr>ext_en := (if data AND 0x80 \<noteq> 0 then 1 else 0),
                    ext_out := drop_bit 3 data AND 0xf, env_state := ENV_RELEASE\<rparr>
            else (slots chip (12 * b + g))\<lparr>ext_en := (if data AND 0x80 \<noteq> 0 then 1 else 0),
                    ext_out := drop_bit 3 data AND 0xf\<rparr>)"
proof -
  have r: "is_sync_reg (drop_bit 4 address AND 0xf)" by (simp add: r0 is_sync_reg_def)
  note e = write_fm_sync0 [OF v s r, of data, unfolded r0]
  from b consider "b = 0" | "b = 1" | "b = 2" | "b = 3" by linarith
  then show ?thesis
    by cases (simp_all add: e write_register_0_keyoff [OF d])
qed

lemma write_fm_sync0_keyon:
  assumes v: "fm_tab ! (address AND 0xf) = int g" and s: "sync (groups chip g) = 0"
      and r0: "drop_bit 4 address AND 0xf = 0" and d: "data AND 1 \<noteq> 0" and b: "b < 4"
  shows "active (slots (ymf271_write_fm chip 0 address data) (12 * b + g)) = 1
         \<and> env_state (slots (ymf271_write_fm chip 0 address data) (12 * b + g)) = ENV_ATTACK
         \<and> volume (slots (ymf271_write_fm chip 0 address data) (12 * b + g)) = 6225920
         \<and> stepptr (slots (ymf271_write_fm chip 0 address data) (12 * b + g)) = 0
         \<and> loop_direction (slots (ymf271_write_fm chip 0 address data) (12 * b + g)) = 1"
proof -
  have r: "is_sync_reg (drop_bit 4 address AND 0xf)" by (simp add: r0 is_sync_reg_def)
  have g: "g < 12" by (rule fm_tab_group_less [OF v])
  let ?c1 = "write_register chip g 0 data"
  let ?c2 = "write_register ?c1 (12 + g) 0 data"
  let ?c3 = "write_register ?c2 (24 + g) 0 data"
  let ?c4 = "write_register ?c3 (36 + g) 0 data"
  have e: "ymf271_write_fm chip 0 address data = ?c4"
    using write_fm_sync0 [OF v s r, of data] by (simp add: r0)
  have m: "(12 + g) mod 12 = g" "(24 + g) mod 12 = g" "(36 + g) mod 12 = g"
          "(12 + g) div 12 \<noteq> 0" "(24 + g) div 12 \<noteq> 0" "(36 + g) div 12 \<noteq> 0"
    using g by presburger+
  have s2: "sync (groups ?c1 ((12 + g) mod 12)) = 0"
    and s3: "sync (groups ?c2 ((24 + g) mod 12)) = 0"
    and s4: "sync (groups ?c3 ((36 + g) mod 12)) = 0"
    using s by (simp_all only: m write_register_0_groups)
  have o4: "slots ?c4 n = slots ?c3 n" if "n \<noteq> 36 + g" for n
    by (rule write_register_keyon_other [OF d s4 m(6) that])
  have o3: "slots ?c3 n = slots ?c2 n" if "n \<noteq> 24 + g" for n
    by (rule write_register_keyon_other [OF d s3 m(5) that])
  have o2: "slots ?c2 n = slots ?c1 n" if "n \<noteq> 12 + g" for n
    by (rule write_register_keyon_other [OF d s2 m(4) that])
  note f = write_register_0_keyon_fields [OF d]
  from b consider "b = 0" | "b = 1" | "b = 2" | "b = 3" by linarith
  then show ?thesis
  proof cases
    case 1
    have "slots ?c4 g = slots ?c1 g" by (simp add: o4 o3 o2)
    then show ?thesis using 1 f [of chip g] by (simp add: e)
  next
    case 2
    have "slots ?c4 (12 + g) = slots ?c2 (12 + g)" by (simp add: o4 o3)
    then show ?thesis using 2 f [of ?c1 "12 + g"] by (simp add: e)
  next
    case 3
    have "slots ?c4 (24 + g) = slots ?c3 (24 + g)" by (simp add: o4)
    then show ?thesis using 3 f [of ?c2 "24 + g"] by (simp add: e)
  next
    case 4
    then show ?thesis using f [of ?c3 "36 + g"] by (simp add: e)
  qed
qed

text \<open>
  Claim C2, as the code has it. Let the address select a valid group \<open>g\<close>. When the
  group's sync mode is 0, a write through bank 0 of a sync register is the sequence of
  the four register writes to the member slots \<open>g\<close>, \<open>12 + g\<close>, \<open>24 + g\<close> and
  \<open>36 + g\<close>. Register \<open>0x0\<close> gives \<open>ext_en\<close> and \<open>ext_out\<close> the same value on all
  four slots; with bit 0 set all four slots are keyed on (active, Attack stage, volume
  \<open>95 << 16\<close>, sample pointer 0, forward direction), with bit 0 clear each of the four
  slots goes to the Release stage if it is active and is otherwise unchanged. Registers
  \<open>0xA\<close>, \<open>0xC\<close>, \<open>0xD\<close> and \<open>0xE\<close> give \<open>fns_hi\<close>, \<open>algorithm\<close>, the levels of
  channels 0 and 1, and the levels of channels 2 and 3 the same value on all four slots.
  Register \<open>0x9\<close> combines the data byte with the \<open>fns_hi\<close> latch of each slot, so
  \<open>fns\<close> and \<open>block\<close> of a member slot are determined by that slot's own latch. A
  register that is not a sync register is written by one register write to the
  addressed slot, whatever the bank and the sync mode: that slot receives the fields of
  the register and every other slot is unchanged.
\<close>

theorem sync_broadcast:
  assumes v: "fm_tab ! (address AND 0xf) = int g"
  shows
  "(sync (groups chip g) = 0 \<longrightarrow>
     (is_sync_reg (drop_bit 4 address AND 0xf) \<longrightarrow>
        ymf271_write_fm chip 0 address data =
          write_register
            (write_register
              (write_register
                (write_register chip g (drop_bit 4 address AND 0xf) data)
                (12 + g) (drop_bit 4 address AND 0xf) data)
              (24 + g) (drop_bit 4 address AND 0xf) data)
            (36 + g) (drop_bit 4 address AND 0xf) data) \<and>
     (drop_bit 4 address AND 0xf = 0x0 \<longrightarrow>
        (\<forall>b<4. ext_en (slots (ymf271_write_fm chip 0 address data) (12 * b + g)) =
                   (if data AND 0x80 \<noteq> 0 then 1 else 0) \<and>
                ext_out (slots (ymf271_write_fm chip 0 address data) (12 * b + g)) =
                   drop_bit 3 data AND 0xf) \<and>
        (data AND 1 \<noteq> 0 \<longrightarrow>
           (\<forall>b<4. active (slots (ymf271_write_fm chip 0 address data) (12 * b + g)) = 1 \<and>
                   env_state (slots (ymf271_write_fm chip 0 address data) (12 * b + g)) =
                     ENV_ATTACK \<and>
                   volume (slots (ymf271_write_fm chip 0 address data) (12 * b + g)) =
                     6225920 \<and>
                   stepptr (slots (ymf271_write_fm chip 0 address data) (12 * b + g)) = 0 \<and>
                   loop_direction (slots (ymf271_write_fm chip 0 address data) (12 * b + g)) =
                     1)) \<and>
        (data AND 1 = 0 \<longrightarrow>
           (\<forall>b<4. slots (ymf271_write_fm chip 0 address data) (12 * b + g) =
                     (if active (slots chip (12 * b + g)) \<noteq> 0
                      then (slots chip (12 * b + g))
                             \<lparr>ext_en := (if data AND 0x80 \<noteq> 0 then 1 else 0),
                              ext_out := drop_bit 3 data AND 0xf, env_state := ENV_RELEASE\<rparr>
                      else (slots chip (12 * b + g))
                             \<lparr>ext_en := (if data AND 0x80 \<noteq> 0 then 1 else 0),
                              ext_out := drop_bit 3 data AND 0xf\<rparr>)))) \<and>
     (drop_bit 4 address AND 0xf = 0xa \<longrightarrow>
        (\<forall>b<4. fns_hi (slots (ymf271_write_fm chip 0 address data) (12 * b + g)) = data)) \<and>
     (drop_bit 4 address AND 0xf = 0xc \<longrightarrow>
        (\<forall>b<4. algorithm (slots (ymf271_write_fm chip 0 address data) (12 * b + g)) =
                   data AND 0xf)) \<and>
     (drop_bit 4 address AND 0xf = 0xd \<longrightarrow>
        (\<forall>b<4. ch0_level (slots (ymf271_write_fm chip 0 address data) (12 * b + g)) =
                   drop_bit 4 data \<and>
                ch1_level (slots (ymf271_write_fm chip 0 address data) (12 * b + g)) =
                   data AND 0xf)) \<and>
     (drop_bit 4 address AND 0xf = 0xe \<longrightarrow>
        (\<forall>b<4. ch2_level (slots (ymf271_write_fm chip 0 address data) (12 * b + g)) =
                   drop_bit 4 data \<and>
                ch3_level (slots (ymf271_write_fm chip 0 address data) (12 * b + g)) =
                   data AND 0xf)) \<and>
     (drop_bit 4 address AND 0xf = 0x9 \<longrightarrow>
        (\<forall>b<4. fns (slots (ymf271_write_fm chip 0 address data) (12 * b + g)) =
                   (push_bit 8 (fns_hi (slots chip (12 * b + g))) AND 0x0f00) OR data \<and>
                block (slots (ymf271_write_fm chip 0 address data) (12 * b + g)) =
                   drop_bit 4 (fns_hi (slots chip (12 * b + g))) AND 0xf))) \<and>
   (\<not> is_sync_reg (drop_bit 4 address AND 0xf) \<longrightarrow>
      ymf271_write_fm chip bank address data =
        write_register chip (12 * bank + g) (drop_bit 4 address AND 0xf) data \<and>
      (\<forall>n. n \<noteq> 12 * bank + g \<longrightarrow>
           slots (ymf271_write_fm chip bank address data) n = slots chip n) \<and>
      (drop_bit 4 address AND 0xf = 0x1 \<longrightarrow>
         lfoFreq (slots (ymf271_write_fm chip bank address data) (12 * bank + g)) = data) \<and>
      (drop_bit 4 address AND 0xf = 0x2 \<longrightarrow>
         lfowave (slots (ymf271_write_fm chip bank address data) (12 * bank + g)) =
           data AND 3 \<and>
         pms (slots (ymf271_write_fm chip bank address data) (12 * bank + g)) =
           drop_bit 3 data AND 0x7 \<and>
         ams (slots (ymf271_write_fm chip bank address data) (12 * bank + g)) =
           drop_bit 6 data AND 0x3) \<and>
      (drop_bit 4 address AND 0xf = 0x3 \<longrightarrow>
         multiple (slots (ymf271_write_fm chip bank address data) (12 * bank + g)) =
           data AND 0xf \<and>
         detune (slots (ymf271_write_fm chip bank address data) (12 * bank + g)) =
           drop_bit 4 data AND 0x7) \<and>
      (drop_bit 4 address AND 0xf = 0x4 \<longrightarrow>
         tl_reg (slots (ymf271_write_fm chip bank address data) (12 * bank + g)) =
           data AND 0x7f) \<and>
      (drop_bit 4 address AND 0xf = 0x5 \<longrightarrow>
         ar (slots (ymf271_write_fm chip bank address data) (12 * bank + g)) =
           data AND 0x1f \<and>
         keyscale (slots (ymf271_write_fm chip bank address data) (12 * bank + g)) =
           drop_bit 5 data AND 0x3) \<and>
      (drop_bit 4 address AND 0xf = 0x6 \<longrightarrow>
         decay1rate (slots (ymf271_write_fm chip bank address data) (12 * bank + g)) =
           data AND 0x1f) \<and>
      (drop_bit 4 address AND 0xf = 0x7 \<longrightarrow>
         decay2rate (slots (ymf271_write_fm chip bank address data) (12 * bank + g)) =
           data AND 0x1f) \<and>
      (drop_bit 4 address AND 0xf = 0x8 \<longrightarrow>
         relrate (slots (ymf271_write_fm chip bank address data) (12 * bank + g)) =
           data AND 0xf \<and>
         decay1lvl (slots (ymf271_write_fm chip bank address data) (12 * bank + g)) =
           drop_bit 4 data AND 0xf) \<and>
      (drop_bit 4 address AND 0xf = 0xb \<longrightarrow>
         waveform (slots (ymf271_write_fm chip bank address data) (12 * bank + g)) =
           data AND 0x7 \<and>
         feedback (slots (ymf271_write_fm chip bank address data) (12 * bank + g)) =
           drop_bit 4 data AND 0x7 \<and>
         accon (slots (ymf271_write_fm chip bank address data) (12 * bank + g)) =
           (if data AND 0x80 \<noteq> 0 then 1 else 0)) \<and>
      (drop_bit 4 address AND 0xf = 0xf \<longrightarrow>
         ymf271_write_fm chip bank address data = chip))"
  (is "(?s \<longrightarrow> ?W \<and> ?X \<and> ?Y) \<and> (?n \<longrightarrow> ?E \<and> ?Fr \<and> ?N)")
proof -
  have W: "?W" if "?s"
    by (intro impI) (rule write_fm_sync0 [OF v that])
  have X: "?X" if "?s"
    using write_fm_sync0_reg0 [OF v that] write_fm_sync0_keyon [OF v that]
      write_fm_sync0_keyoff [OF v that]
    by blast
  have B: "fns_hi (slots (ymf271_write_fm chip 0 address data) (12 * b + g)) = data"
    if "sync (groups chip g) = 0" "drop_bit 4 address AND 0xf = 0xa" "b < 4" for b
    using write_fm_sync0_slot [OF v that(1) _ _ that(3), of data] that(2)
    by (simp add: is_sync_reg_def write_register_fields)
  have C: "algorithm (slots (ymf271_write_fm chip 0 address data) (12 * b + g)) = data AND 0xf"
    if "sync (groups chip g) = 0" "drop_bit 4 address AND 0xf = 0xc" "b < 4" for b
    using write_fm_sync0_slot [OF v that(1) _ _ that(3), of data] that(2)
    by (simp add: is_sync_reg_def write_register_fields)
  have D: "ch0_level (slots (ymf271_write_fm chip 0 address data) (12 * b + g)) = drop_bit 4 data \<and>
           ch1_level (slots (ymf271_write_fm chip 0 address data) (12 * b + g)) = data AND 0xf"
    if "sync (groups chip g) = 0" "drop_bit 4 address AND 0xf = 0xd" "b < 4" for b
    using write_fm_sync0_slot [OF v that(1) _ _ that(3), of data] that(2)
    by (simp add: is_sync_reg_def write_register_fields)
  have E: "ch2_level (slots (ymf271_write_fm chip 0 address data) (12 * b + g)) = drop_bit 4 data \<and>
           ch3_level (slots (ymf271_write_fm chip 0 address data) (12 * b + g)) = data AND 0xf"
    if "sync (groups chip g) = 0" "drop_bit 4 address AND 0xf = 0xe" "b < 4" for b
    using write_fm_sync0_slot [OF v that(1) _ _ that(3), of data] that(2)
    by (simp add: is_sync_reg_def write_register_fields)
  have F: "fns (slots (ymf271_write_fm chip 0 address data) (12 * b + g)) =
             (push_bit 8 (fns_hi (slots chip (12 * b + g))) AND 0x0f00) OR data \<and>
           block (slots (ymf271_write_fm chip 0 address data) (12 * b + g)) =
             drop_bit 4 (fns_hi (slots chip (12 * b + g))) AND 0xf"
    if "sync (groups chip g) = 0" "drop_bit 4 address AND 0xf = 0x9" "b < 4" for b
    using write_fm_sync0_slot [OF v that(1) _ _ that(3), of data] that(2)
    by (simp add: is_sync_reg_def write_register_fields)
  have Y: "?Y" if "?s"
    using B [OF that] C [OF that] D [OF that] E [OF that] F [OF that] by blast
  have eq: "?E" if "?n"
    by (rule write_fm_nonsync [OF v that])
  have fr: "?Fr" if r: "?n"
  proof (intro impI allI)
    fix n assume n: "n \<noteq> 12 * bank + g"
    from r have nz: "drop_bit 4 address AND 0xf \<noteq> 0" by (auto simp: is_sync_reg_def)
    show "slots (ymf271_write_fm chip bank address data) n = slots chip n"
      using write_register_nonzero [OF nz] n by (simp add: write_fm_nonsync [OF v r])
  qed
  have N: "?N" if r: "?n"
    unfolding eq [OF r]
    by (intro conjI impI) (simp_all only: write_register_fields_nonsync)
  show ?thesis
  proof (rule conjI)
    show "?s \<longrightarrow> ?W \<and> ?X \<and> ?Y"
    proof
      assume s: "?s"
      show "?W \<and> ?X \<and> ?Y"
        by (rule conjI [OF W [OF s] conjI [OF X [OF s] Y [OF s]]])
    qed
    show "?n \<longrightarrow> ?E \<and> ?Fr \<and> ?N"
    proof
      assume r: "?n"
      show "?E \<and> ?Fr \<and> ?N"
        by (rule conjI [OF eq [OF r] conjI [OF fr [OF r] N [OF r]]])
    qed
  qed
qed

lemma sync_test_chip_fields:
  "sync (groups sync_test_chip 0) = 0"
  "fns_hi (slots sync_test_chip 12) = 0x12"
  "fns_hi (slots sync_test_chip 0) = 0"
  by (simp_all add: sync_test_chip_def ymf271_w_def Let_def ymf271_write_fm_def fm_tab_def
        is_sync_mode_def device_start_fields write_register_def slot_zero_def)

lemma fm_tab_0: "fm_tab ! (a AND 0xf) = int 0" if "a AND 0xf = 0" for a :: nat
  using that by (simp add: fm_tab_def)

text \<open>
  Claim C2 as stated fails for register \<open>0x9\<close>. In \<open>sync_test_chip\<close> group 0 is in sync mode
  0 and the \<open>fns_hi\<close> latch of the bank-1 slot holds \<open>0x12\<close>, that of the bank-0 slot
  0. The broadcast write of register \<open>0x9\<close> with data \<open>0x34\<close> through bank 0 leaves
  \<open>fns = 0x034\<close>, \<open>block = 0\<close> in slot 0 and \<open>fns = 0x234\<close>, \<open>block = 1\<close> in
  slot 12.
\<close>

theorem sync_broadcast_claim_counterexample:
  "sync (groups sync_test_chip 0) = 0 \<and>
   fm_tab ! ((0x90::nat) AND 0xf) = 0 \<and>
   drop_bit 4 (0x90::nat) AND 0xf = 0x9 \<and>
   fns (slots (ymf271_write_fm sync_test_chip 0 0x90 0x34) 0) = 0x34 \<and>
   fns (slots (ymf271_write_fm sync_test_chip 0 0x90 0x34) 12) = 0x234 \<and>
   block (slots (ymf271_write_fm sync_test_chip 0 0x90 0x34) 0) = 0 \<and>
   block (slots (ymf271_write_fm sync_test_chip 0 0x90 0x34) 12) = 1"
proof -
  have v: "fm_tab ! ((0x90::nat) AND 0xf) = int 0" by (simp add: fm_tab_def)
  have r: "is_sync_reg (drop_bit 4 (0x90::nat) AND 0xf)" by (simp add: is_sync_reg_def)
  have nz: "drop_bit 4 (0x90::nat) AND 0xf \<noteq> 0" by simp
  note s = sync_test_chip_fields(1)
  have 0: "slots (ymf271_write_fm sync_test_chip 0 0x90 0x34) (12 * 0 + 0) =
           slots (write_register sync_test_chip (12 * 0 + 0) (drop_bit 4 (0x90::nat) AND 0xf) 0x34)
             (12 * 0 + 0)"
    by (rule write_fm_sync0_slot [OF v s r nz]) simp
  have 1: "slots (ymf271_write_fm sync_test_chip 0 0x90 0x34) (12 * 1 + 0) =
           slots (write_register sync_test_chip (12 * 1 + 0) (drop_bit 4 (0x90::nat) AND 0xf) 0x34)
             (12 * 1 + 0)"
    by (rule write_fm_sync0_slot [OF v s r nz]) simp
  have k: "drop_bit 4 (0x90::nat) AND 0xf = 0x9" by simp
  show ?thesis
    using 0 1 by (simp add: k write_register_fields sync_test_chip_fields fm_tab_def)
qed

lemma ymf271_write_fm_reg0_groups:
  "fm_tab ! (address AND 0xf) = int g \<Longrightarrow> sync (groups chip g) = 0 \<Longrightarrow>
   drop_bit 4 address AND 0xf = 0 \<Longrightarrow>
   groups (ymf271_write_fm chip 0 address data) = groups chip"
  by (simp add: ymf271_write_fm_def Let_def is_sync_mode_def is_sync_reg_def)

theorem sync_broadcast_witness:
  "sync (groups sync_test_chip 0) = 0 \<and>
   ymf271_write_fm sync_test_chip 0 0xC0 5 =
     write_register (write_register (write_register (write_register sync_test_chip 0 0xc 5)
       (12 + 0) 0xc 5) (24 + 0) 0xc 5) (36 + 0) 0xc 5 \<and>
   algorithm (slots (ymf271_write_fm sync_test_chip 0 0xC0 5) 36) = 5 \<and>
   algorithm (slots (ymf271_write_fm sync_test_chip 0 0xC0 5) 0) = 5 \<and>
   fns_hi (slots (ymf271_write_fm sync_test_chip 0 0xA0 0x21) 36) = 0x21 \<and>
   fns_hi (slots (ymf271_write_fm sync_test_chip 0 0xA0 0x21) 12) = 0x21 \<and>
   ch0_level (slots (ymf271_write_fm sync_test_chip 0 0xD0 0x5A) 24) = 5 \<and>
   ch1_level (slots (ymf271_write_fm sync_test_chip 0 0xD0 0x5A) 24) = 10 \<and>
   ch2_level (slots (ymf271_write_fm sync_test_chip 0 0xE0 0x3C) 36) = 3 \<and>
   ch3_level (slots (ymf271_write_fm sync_test_chip 0 0xE0 0x3C) 36) = 12 \<and>
   fns (slots (ymf271_write_fm sync_test_chip 0 0x90 0x34) 12) = 0x234 \<and>
   block (slots (ymf271_write_fm sync_test_chip 0 0x90 0x34) 12) = 1 \<and>
   fns (slots (ymf271_write_fm sync_test_chip 0 0x90 0x34) 0) = 0x34 \<and>
   block (slots (ymf271_write_fm sync_test_chip 0 0x90 0x34) 0) = 0 \<and>
   ext_en (slots (ymf271_write_fm sync_test_chip 0 0x00 0x89) 36) = 1 \<and>
   ext_out (slots (ymf271_write_fm sync_test_chip 0 0x00 0x89) 36) = 1 \<and>
   active (slots (ymf271_write_fm sync_test_chip 0 0x00 1) 0) = 1 \<and>
   active (slots (ymf271_write_fm sync_test_chip 0 0x00 1) 36) = 1 \<and>
   env_state (slots (ymf271_write_fm sync_test_chip 0 0x00 1) 24) = ENV_ATTACK \<and>
   volume (slots (ymf271_write_fm sync_test_chip 0 0x00 1) 12) = 6225920 \<and>
   stepptr (slots (ymf271_write_fm sync_test_chip 0 0x00 1) 36) = 0 \<and>
   loop_direction (slots (ymf271_write_fm sync_test_chip 0 0x00 1) 36) = 1 \<and>
   sync (groups (ymf271_write_fm sync_test_chip 0 0x00 1) 0) = 0 \<and>
   env_state (slots (ymf271_write_fm (ymf271_write_fm sync_test_chip 0 0x00 1) 0 0x00 0) 36) = ENV_RELEASE \<and>
   env_state (slots (ymf271_write_fm sync_test_chip 0 0x00 0) 36) = ENV_ATTACK \<and>
   ymf271_write_fm sync_test_chip 0 0x40 0x7f = write_register sync_test_chip (12 * 0 + 0) 0x4 0x7f \<and>
   tl_reg (slots (ymf271_write_fm sync_test_chip 0 0x40 0x7f) 0) = 0x7f \<and>
   slots (ymf271_write_fm sync_test_chip 0 0x40 0x7f) 12 = slots sync_test_chip 12 \<and>
   tl_reg (slots (ymf271_write_fm sync_test_chip 1 0x40 0x7f) 12) = 0x7f \<and>
   slots (ymf271_write_fm sync_test_chip 1 0x40 0x7f) 0 = slots sync_test_chip 0 \<and>
   lfoFreq (slots (ymf271_write_fm sync_test_chip 2 0x10 0x55) 24) = 0x55 \<and>
   lfowave (slots (ymf271_write_fm sync_test_chip 2 0x20 0xDB) 24) = 3 \<and>
   pms (slots (ymf271_write_fm sync_test_chip 2 0x20 0xDB) 24) = 3 \<and>
   ams (slots (ymf271_write_fm sync_test_chip 2 0x20 0xDB) 24) = 3 \<and>
   multiple (slots (ymf271_write_fm sync_test_chip 2 0x30 0x5A) 24) = 10 \<and>
   detune (slots (ymf271_write_fm sync_test_chip 2 0x30 0x5A) 24) = 5 \<and>
   ar (slots (ymf271_write_fm sync_test_chip 2 0x50 0x7F) 24) = 31 \<and>
   keyscale (slots (ymf271_write_fm sync_test_chip 2 0x50 0x7F) 24) = 3 \<and>
   decay1rate (slots (ymf271_write_fm sync_test_chip 2 0x60 0x1F) 24) = 31 \<and>
   decay2rate (slots (ymf271_write_fm sync_test_chip 2 0x70 0x0A) 24) = 10 \<and>
   relrate (slots (ymf271_write_fm sync_test_chip 2 0x80 0xA5) 24) = 5 \<and>
   decay1lvl (slots (ymf271_write_fm sync_test_chip 2 0x80 0xA5) 24) = 10 \<and>
   waveform (slots (ymf271_write_fm sync_test_chip 2 0xB0 0xB7) 24) = 7 \<and>
   feedback (slots (ymf271_write_fm sync_test_chip 2 0xB0 0xB7) 24) = 3 \<and>
   accon (slots (ymf271_write_fm sync_test_chip 2 0xB0 0xB7) 24) = 1 \<and>
   ymf271_write_fm sync_test_chip 2 0xF0 0x01 = sync_test_chip"
proof -
  note s = sync_test_chip_fields(1)
  have v: "fm_tab ! ((a::nat) AND 0xf) = int 0" if "a AND 0xf = 0" for a
    using that by (simp add: fm_tab_def)
  have d1: "(1::nat) AND 1 \<noteq> 0" by simp
  have d0: "(0::nat) AND 1 = 0" by simp
  have v0: "fm_tab ! ((0x00::nat) AND 0xf) = int 0" by (simp add: fm_tab_def)
  have k0: "drop_bit 4 (0x00::nat) AND 0xf = 0x0" by simp
  have y0: "is_sync_reg (drop_bit 4 (0x00::nat) AND 0xf)" by (simp add: is_sync_reg_def)
  have v9: "fm_tab ! ((0x90::nat) AND 0xf) = int 0" by (simp add: fm_tab_def)
  have k9: "drop_bit 4 (0x90::nat) AND 0xf = 0x9" by simp
  have y9: "is_sync_reg (drop_bit 4 (0x90::nat) AND 0xf)" by (simp add: is_sync_reg_def)
  have va: "fm_tab ! ((0xA0::nat) AND 0xf) = int 0" by (simp add: fm_tab_def)
  have ka: "drop_bit 4 (0xA0::nat) AND 0xf = 0xa" by simp
  have ya: "is_sync_reg (drop_bit 4 (0xA0::nat) AND 0xf)" by (simp add: is_sync_reg_def)
  have vc: "fm_tab ! ((0xC0::nat) AND 0xf) = int 0" by (simp add: fm_tab_def)
  have kc: "drop_bit 4 (0xC0::nat) AND 0xf = 0xc" by simp
  have yc: "is_sync_reg (drop_bit 4 (0xC0::nat) AND 0xf)" by (simp add: is_sync_reg_def)
  have vd: "fm_tab ! ((0xD0::nat) AND 0xf) = int 0" by (simp add: fm_tab_def)
  have kd: "drop_bit 4 (0xD0::nat) AND 0xf = 0xd" by simp
  have yd: "is_sync_reg (drop_bit 4 (0xD0::nat) AND 0xf)" by (simp add: is_sync_reg_def)
  have ve: "fm_tab ! ((0xE0::nat) AND 0xf) = int 0" by (simp add: fm_tab_def)
  have ke: "drop_bit 4 (0xE0::nat) AND 0xf = 0xe" by simp
  have ye: "is_sync_reg (drop_bit 4 (0xE0::nat) AND 0xf)" by (simp add: is_sync_reg_def)
  have v1: "fm_tab ! ((0x10::nat) AND 0xf) = int 0" by (simp add: fm_tab_def)
  have k1: "drop_bit 4 (0x10::nat) AND 0xf = 0x1" by simp
  have n1: "\<not> is_sync_reg (drop_bit 4 (0x10::nat) AND 0xf)" by (simp add: is_sync_reg_def)
  have v2: "fm_tab ! ((0x20::nat) AND 0xf) = int 0" by (simp add: fm_tab_def)
  have k2: "drop_bit 4 (0x20::nat) AND 0xf = 0x2" by simp
  have n2: "\<not> is_sync_reg (drop_bit 4 (0x20::nat) AND 0xf)" by (simp add: is_sync_reg_def)
  have v3: "fm_tab ! ((0x30::nat) AND 0xf) = int 0" by (simp add: fm_tab_def)
  have k3: "drop_bit 4 (0x30::nat) AND 0xf = 0x3" by simp
  have n3: "\<not> is_sync_reg (drop_bit 4 (0x30::nat) AND 0xf)" by (simp add: is_sync_reg_def)
  have v4: "fm_tab ! ((0x40::nat) AND 0xf) = int 0" by (simp add: fm_tab_def)
  have k4: "drop_bit 4 (0x40::nat) AND 0xf = 0x4" by simp
  have n4: "\<not> is_sync_reg (drop_bit 4 (0x40::nat) AND 0xf)" by (simp add: is_sync_reg_def)
  have v5: "fm_tab ! ((0x50::nat) AND 0xf) = int 0" by (simp add: fm_tab_def)
  have k5: "drop_bit 4 (0x50::nat) AND 0xf = 0x5" by simp
  have n5: "\<not> is_sync_reg (drop_bit 4 (0x50::nat) AND 0xf)" by (simp add: is_sync_reg_def)
  have v6: "fm_tab ! ((0x60::nat) AND 0xf) = int 0" by (simp add: fm_tab_def)
  have k6: "drop_bit 4 (0x60::nat) AND 0xf = 0x6" by simp
  have n6: "\<not> is_sync_reg (drop_bit 4 (0x60::nat) AND 0xf)" by (simp add: is_sync_reg_def)
  have v7: "fm_tab ! ((0x70::nat) AND 0xf) = int 0" by (simp add: fm_tab_def)
  have k7: "drop_bit 4 (0x70::nat) AND 0xf = 0x7" by simp
  have n7: "\<not> is_sync_reg (drop_bit 4 (0x70::nat) AND 0xf)" by (simp add: is_sync_reg_def)
  have v8: "fm_tab ! ((0x80::nat) AND 0xf) = int 0" by (simp add: fm_tab_def)
  have k8: "drop_bit 4 (0x80::nat) AND 0xf = 0x8" by simp
  have n8: "\<not> is_sync_reg (drop_bit 4 (0x80::nat) AND 0xf)" by (simp add: is_sync_reg_def)
  have vb: "fm_tab ! ((0xB0::nat) AND 0xf) = int 0" by (simp add: fm_tab_def)
  have kb: "drop_bit 4 (0xB0::nat) AND 0xf = 0xb" by simp
  have nb: "\<not> is_sync_reg (drop_bit 4 (0xB0::nat) AND 0xf)" by (simp add: is_sync_reg_def)
  have vf: "fm_tab ! ((0xF0::nat) AND 0xf) = int 0" by (simp add: fm_tab_def)
  have kf: "drop_bit 4 (0xF0::nat) AND 0xf = 0xf" by simp
  have nf: "\<not> is_sync_reg (drop_bit 4 (0xF0::nat) AND 0xf)" by (simp add: is_sync_reg_def)
  note route = sync_broadcast [OF vc, of sync_test_chip 5 0, THEN conjunct1, THEN mp, OF s,
      THEN conjunct1, THEN mp, OF yc, unfolded kc]
  note al = sync_broadcast [OF vc, of sync_test_chip 5 0, THEN conjunct1, THEN mp, OF s,
      THEN conjunct2, THEN conjunct2, THEN conjunct2, THEN conjunct1, THEN mp, OF kc, rule_format]
  have a: "algorithm (slots (ymf271_write_fm sync_test_chip 0 0xC0 5) 36) = 5"
          "algorithm (slots (ymf271_write_fm sync_test_chip 0 0xC0 5) 0) = 5"
    using al [of 3] al [of 0] by simp_all
  note fh = sync_broadcast [OF va, of sync_test_chip "0x21" 0, THEN conjunct1, THEN mp, OF s,
      THEN conjunct2, THEN conjunct2, THEN conjunct1, THEN mp, OF ka, rule_format]
  have h: "fns_hi (slots (ymf271_write_fm sync_test_chip 0 0xA0 0x21) 36) = 0x21"
          "fns_hi (slots (ymf271_write_fm sync_test_chip 0 0xA0 0x21) 12) = 0x21"
    using fh [of 3] fh [of 1] by simp_all
  note l01 = sync_broadcast [OF vd, of sync_test_chip "0x5A" 0, THEN conjunct1, THEN mp, OF s,
      THEN conjunct2, THEN conjunct2, THEN conjunct2, THEN conjunct2, THEN conjunct1, THEN mp, OF kd, rule_format]
  have l: "ch0_level (slots (ymf271_write_fm sync_test_chip 0 0xD0 0x5A) 24) = 5"
          "ch1_level (slots (ymf271_write_fm sync_test_chip 0 0xD0 0x5A) 24) = 10"
    using l01 [of 2] by simp_all
  note l23 = sync_broadcast [OF ve, of sync_test_chip "0x3C" 0, THEN conjunct1, THEN mp, OF s,
      THEN conjunct2, THEN conjunct2, THEN conjunct2, THEN conjunct2, THEN conjunct2, THEN conjunct1, THEN mp, OF ke, rule_format]
  have l': "ch2_level (slots (ymf271_write_fm sync_test_chip 0 0xE0 0x3C) 36) = 3"
           "ch3_level (slots (ymf271_write_fm sync_test_chip 0 0xE0 0x3C) 36) = 12"
    using l23 [of 3] by simp_all
  note fb = sync_broadcast [OF v9, of sync_test_chip "0x34" 0, THEN conjunct1, THEN mp, OF s,
      THEN conjunct2, THEN conjunct2, THEN conjunct2, THEN conjunct2, THEN conjunct2, THEN conjunct2, THEN mp, OF k9, rule_format]
  have q: "fns (slots (ymf271_write_fm sync_test_chip 0 0x90 0x34) 12) = 0x234"
          "block (slots (ymf271_write_fm sync_test_chip 0 0x90 0x34) 12) = 1"
          "fns (slots (ymf271_write_fm sync_test_chip 0 0x90 0x34) 0) = 0x34"
          "block (slots (ymf271_write_fm sync_test_chip 0 0x90 0x34) 0) = 0"
    using fb [of 1] fb [of 0] by (simp_all add: sync_test_chip_fields)
  note ex = sync_broadcast [OF v0, of sync_test_chip "0x89" 0, THEN conjunct1, THEN mp, OF s,
      THEN conjunct2, THEN conjunct1, THEN mp, OF k0, THEN conjunct1, rule_format]
  have e: "ext_en (slots (ymf271_write_fm sync_test_chip 0 0x00 0x89) 36) = 1"
          "ext_out (slots (ymf271_write_fm sync_test_chip 0 0x00 0x89) 36) = 1"
    using ex [of 3] by simp_all
  let ?on = "ymf271_write_fm sync_test_chip 0 0x00 1"
  have s': "sync (groups ?on 0) = 0"
    using ymf271_write_fm_reg0_groups [OF v0 s k0, of 1] s by simp
  note on = sync_broadcast [OF v0, of sync_test_chip 1 0, THEN conjunct1, THEN mp, OF s,
      THEN conjunct2, THEN conjunct1, THEN mp, OF k0,
      THEN conjunct2, THEN conjunct1, THEN mp, OF d1, rule_format]
  have o: "active (slots ?on 0) = 1" "active (slots ?on 36) = 1"
          "env_state (slots ?on 24) = ENV_ATTACK" "volume (slots ?on 12) = 6225920"
          "stepptr (slots ?on 36) = 0" "loop_direction (slots ?on 36) = 1"
    using on [of 0] on [of 3] on [of 2] on [of 1] by simp_all
  note off = sync_broadcast [OF v0, of ?on 0 0, THEN conjunct1, THEN mp, OF s',
      THEN conjunct2, THEN conjunct1, THEN mp, OF k0,
      THEN conjunct2, THEN conjunct2, THEN mp, OF d0, rule_format, of 3]
  have f: "env_state (slots (ymf271_write_fm ?on 0 0x00 0) 36) = ENV_RELEASE"
    using off o(2) by simp
  note off' = sync_broadcast [OF v0, of sync_test_chip 0 0, THEN conjunct1, THEN mp, OF s,
      THEN conjunct2, THEN conjunct1, THEN mp, OF k0,
      THEN conjunct2, THEN conjunct2, THEN mp, OF d0, rule_format, of 3]
  have i: "slots sync_test_chip 36 = slot_zero"
    by (simp add: sync_test_chip_def ymf271_w_def Let_def ymf271_write_fm_def fm_tab_def
          is_sync_mode_def device_start_fields write_register_def)
  have f': "env_state (slots (ymf271_write_fm sync_test_chip 0 0x00 0) 36) = ENV_ATTACK"
    using off' by (simp add: i slot_zero_def ENV_ATTACK_def)
  note w4 = sync_broadcast [OF v4, of sync_test_chip "0x7f" 0, THEN conjunct2, THEN mp, OF n4]
  note w4b = sync_broadcast [OF v4, of sync_test_chip "0x7f" 1, THEN conjunct2, THEN mp, OF n4]
  have m: "(0x7f::nat) AND 0x7f = 0x7f" by simp
  have b: "ymf271_write_fm sync_test_chip 0 0x40 0x7f = write_register sync_test_chip (12 * 0 + 0) 0x4 0x7f"
          "tl_reg (slots (ymf271_write_fm sync_test_chip 0 0x40 0x7f) 0) = 0x7f"
          "slots (ymf271_write_fm sync_test_chip 0 0x40 0x7f) 12 = slots sync_test_chip 12"
          "tl_reg (slots (ymf271_write_fm sync_test_chip 1 0x40 0x7f) 12) = 0x7f"
          "slots (ymf271_write_fm sync_test_chip 1 0x40 0x7f) 0 = slots sync_test_chip 0"
    using w4 [THEN conjunct1] w4 [THEN conjunct2, THEN conjunct2, THEN conjunct2, THEN conjunct2, THEN conjunct2, THEN conjunct1, THEN mp, OF k4]
      w4 [THEN conjunct2, THEN conjunct1, rule_format, of 12]
      w4b [THEN conjunct2, THEN conjunct2, THEN conjunct2, THEN conjunct2, THEN conjunct2, THEN conjunct1, THEN mp, OF k4]
      w4b [THEN conjunct2, THEN conjunct1, rule_format, of 0]
    by (simp_all add: m k4)
  note x1 = sync_broadcast [OF v1, of sync_test_chip "0x55" 2, THEN conjunct2, THEN mp, OF n1,
      THEN conjunct2, THEN conjunct2, THEN conjunct1, THEN mp, OF k1]
  have z1: "lfoFreq (slots (ymf271_write_fm sync_test_chip 2 0x10 0x55) 24) = 0x55"
    using x1 by simp_all
  note x2 = sync_broadcast [OF v2, of sync_test_chip "0xDB" 2, THEN conjunct2, THEN mp, OF n2,
      THEN conjunct2, THEN conjunct2, THEN conjunct2, THEN conjunct1, THEN mp, OF k2]
  have z2: "lfowave (slots (ymf271_write_fm sync_test_chip 2 0x20 0xDB) 24) = 3"
          "pms (slots (ymf271_write_fm sync_test_chip 2 0x20 0xDB) 24) = 3"
          "ams (slots (ymf271_write_fm sync_test_chip 2 0x20 0xDB) 24) = 3"
    using x2 by simp_all
  note x3 = sync_broadcast [OF v3, of sync_test_chip "0x5A" 2, THEN conjunct2, THEN mp, OF n3,
      THEN conjunct2, THEN conjunct2, THEN conjunct2, THEN conjunct2, THEN conjunct1, THEN mp, OF k3]
  have z3: "multiple (slots (ymf271_write_fm sync_test_chip 2 0x30 0x5A) 24) = 10"
          "detune (slots (ymf271_write_fm sync_test_chip 2 0x30 0x5A) 24) = 5"
    using x3 by simp_all
  note x5 = sync_broadcast [OF v5, of sync_test_chip "0x7F" 2, THEN conjunct2, THEN mp, OF n5,
      THEN conjunct2, THEN conjunct2, THEN conjunct2, THEN conjunct2, THEN conjunct2, THEN conjunct2, THEN conjunct1, THEN mp, OF k5]
  have z5: "ar (slots (ymf271_write_fm sync_test_chip 2 0x50 0x7F) 24) = 31"
          "keyscale (slots (ymf271_write_fm sync_test_chip 2 0x50 0x7F) 24) = 3"
    using x5 by simp_all
  note x6 = sync_broadcast [OF v6, of sync_test_chip "0x1F" 2, THEN conjunct2, THEN mp, OF n6,
      THEN conjunct2, THEN conjunct2, THEN conjunct2, THEN conjunct2, THEN conjunct2, THEN conjunct2, THEN conjunct2, THEN conjunct1, THEN mp, OF k6]
  have z6: "decay1rate (slots (ymf271_write_fm sync_test_chip 2 0x60 0x1F) 24) = 31"
    using x6 by simp_all
  note x7 = sync_broadcast [OF v7, of sync_test_chip "0x0A" 2, THEN conjunct2, THEN mp, OF n7,
      THEN conjunct2, THEN conjunct2, THEN conjunct2, THEN conjunct2, THEN conjunct2, THEN conjunct2, THEN conjunct2, THEN conjunct2, THEN conjunct1, THEN mp, OF k7]
  have z7: "decay2rate (slots (ymf271_write_fm sync_test_chip 2 0x70 0x0A) 24) = 10"
    using x7 by simp_all
  note x8 = sync_broadcast [OF v8, of sync_test_chip "0xA5" 2, THEN conjunct2, THEN mp, OF n8,
      THEN conjunct2, THEN conjunct2, THEN conjunct2, THEN conjunct2, THEN conjunct2, THEN conjunct2, THEN conjunct2, THEN conjunct2, THEN conjunct2, THEN conjunct1, THEN mp, OF k8]
  have z8: "relrate (slots (ymf271_write_fm sync_test_chip 2 0x80 0xA5) 24) = 5"
          "decay1lvl (slots (ymf271_write_fm sync_test_chip 2 0x80 0xA5) 24) = 10"
    using x8 by simp_all
  note xb = sync_broadcast [OF vb, of sync_test_chip "0xB7" 2, THEN conjunct2, THEN mp, OF nb,
      THEN conjunct2, THEN conjunct2, THEN conjunct2, THEN conjunct2, THEN conjunct2, THEN conjunct2, THEN conjunct2, THEN conjunct2, THEN conjunct2, THEN conjunct2, THEN conjunct1, THEN mp, OF kb]
  have zb: "waveform (slots (ymf271_write_fm sync_test_chip 2 0xB0 0xB7) 24) = 7"
          "feedback (slots (ymf271_write_fm sync_test_chip 2 0xB0 0xB7) 24) = 3"
          "accon (slots (ymf271_write_fm sync_test_chip 2 0xB0 0xB7) 24) = 1"
    using xb by simp_all
  note zf = sync_broadcast [OF vf, of sync_test_chip "0x01" 2, THEN conjunct2, THEN mp, OF nf,
      THEN conjunct2, THEN conjunct2, THEN conjunct2, THEN conjunct2, THEN conjunct2, THEN conjunct2, THEN conjunct2, THEN conjunct2, THEN conjunct2, THEN conjunct2, THEN conjunct2, THEN mp, OF kf]
  show ?thesis
    by (intro conjI s route a h l l' q e o s' f f' b z1 z2 z3 z5 z6 z7 z8 zb zf)
qed

section \<open>Envelope monotonicity\<close>

lemma update_envelope_steps:
  "env_attack_step (update_envelope s) = env_attack_step s"
  "env_decay1_step (update_envelope s) = env_decay1_step s"
  "env_decay2_step (update_envelope s) = env_decay2_step s"
  "env_release_step (update_envelope s) = env_release_step s"
  by (simp_all add: update_envelope_def check_envelope_end_def Let_def split: prod.splits)

lemma update_envelope_attack:
  assumes "env_state s = ENV_ATTACK"
  shows "volume (update_envelope s) = min 16711680 (s32 (volume s + env_attack_step s))"
  using assms
  by (simp add: update_envelope_def Let_def ENV_VOLUME_SHIFT_def push_bit_eq_mult min_def)

lemma update_envelope_other:
  assumes "env_state s \<noteq> ENV_ATTACK" "env_state s \<noteq> ENV_DECAY1"
          "env_state s \<noteq> ENV_DECAY2" "env_state s \<noteq> ENV_RELEASE"
  shows "update_envelope s = s"
  using assms by (simp add: update_envelope_def)

lemma update_envelope_monotone_inv:
  assumes inv: "env_inv s"
  shows "env_inv (update_envelope s)"
    and "env_state s = ENV_ATTACK \<Longrightarrow> volume s \<le> volume (update_envelope s)"
    and "env_state s = ENV_DECAY1 \<or> env_state s = ENV_DECAY2 \<or> env_state s = ENV_RELEASE
         \<Longrightarrow> volume (update_envelope s) \<le> volume s"
proof -
  have a: "volume s \<le> volume (update_envelope s) \<and> volume (update_envelope s) \<le> 16711680"
    if st: "env_state s = ENV_ATTACK"
  proof -
    have "s32 (volume s + env_attack_step s) = volume s + env_attack_step s"
      using inv by (intro s32_id) (simp_all add: env_inv_def)
    then show ?thesis using inv by (simp add: update_envelope_attack [OF st] env_inv_def)
  qed
  have d: "0 \<le> volume (update_envelope s) \<and> volume (update_envelope s) \<le> volume s"
    if st: "env_state s = ENV_DECAY1 \<or> env_state s = ENV_DECAY2 \<or> env_state s = ENV_RELEASE"
  proof -
    have "0 \<le> env_dec s" "env_dec s \<le> 2147483647"
      using inv by (simp_all add: env_dec_def env_inv_def)
    then have "s32 (volume s - env_dec s) = volume s - env_dec s"
      using inv by (intro s32_id) (simp_all add: env_inv_def)
    then show ?thesis
      using inv \<open>0 \<le> env_dec s\<close> by (simp add: update_envelope_decay(1) [OF st] env_inv_def)
  qed
  show "env_state s = ENV_ATTACK \<Longrightarrow> volume s \<le> volume (update_envelope s)"
    using a by blast
  show "env_state s = ENV_DECAY1 \<or> env_state s = ENV_DECAY2 \<or> env_state s = ENV_RELEASE
         \<Longrightarrow> volume (update_envelope s) \<le> volume s"
    using d by blast
  consider "env_state s = ENV_ATTACK"
    | "env_state s = ENV_DECAY1 \<or> env_state s = ENV_DECAY2 \<or> env_state s = ENV_RELEASE"
    | "env_state s \<noteq> ENV_ATTACK" "env_state s \<noteq> ENV_DECAY1"
      "env_state s \<noteq> ENV_DECAY2" "env_state s \<noteq> ENV_RELEASE"
    by blast
  then have v: "0 \<le> volume (update_envelope s) \<and> volume (update_envelope s) \<le> 16711680"
  proof cases
    case 1
    then show ?thesis using a inv by (auto simp: env_inv_def)
  next
    case 2
    then show ?thesis using d inv by (auto simp: env_inv_def)
  next
    case 3
    then show ?thesis using inv by (simp add: update_envelope_other env_inv_def)
  qed
  show "env_inv (update_envelope s)"
    using inv v unfolding env_inv_def update_envelope_steps by blast
qed

lemma get_keyscaled_rate_range:
  "0 \<le> get_keyscaled_rate rate kc ks \<and> get_keyscaled_rate rate kc ks \<le> 63"
  by (simp add: get_keyscaled_rate_def Let_def)

lemma ARTime_ge: "4 \<le> i \<Longrightarrow> i < 64 \<Longrightarrow> 7 / 100 \<le> ARTime ! i"
proof -
  assume i: "4 \<le> i" "i < 64"
  have l: "length ARTime = 64" by (simp add: ARTime_def)
  have "list_all (\<lambda>x. 7 / 100 \<le> x) (drop 4 ARTime)" by (simp add: ARTime_def)
  then have "7 / 100 \<le> drop 4 ARTime ! (i - 4)"
    using i l by (simp add: list_all_length del: nth_drop)
  then show ?thesis using i l by simp
qed

lemma DCTime_ge: "4 \<le> i \<Longrightarrow> i < 64 \<Longrightarrow> 569 / 100 \<le> DCTime ! i"
proof -
  assume i: "4 \<le> i" "i < 64"
  have l: "length DCTime = 64" by (simp add: DCTime_def)
  have "list_all (\<lambda>x. 569 / 100 \<le> x) (drop 4 DCTime)" by (simp add: DCTime_def)
  then have "569 / 100 \<le> drop 4 DCTime ! (i - 4)"
    using i l by (simp add: list_all_length del: nth_drop)
  then show ?thesis using i l by simp
qed

lemma clock_correction_cases:
  assumes "clk < 2 ^ 32"
  shows "clock_correction clk = 0 \<or> 16934400 / 4294967296 \<le> clock_correction clk"
proof (cases "clk = 0")
  case True
  then show ?thesis by (simp add: clock_correction_def)
next
  case False
  then have "0 < real clk" "real clk \<le> 4294967296" using assms by simp_all
  then have "16934400 / 4294967296 \<le> 16934400 / real clk"
    by (intro divide_left_mono) simp_all
  then show ?thesis by (simp add: clock_correction_def STD_CLOCK_def)
qed

lemma table_time_cases:
  fixes t0 t c :: real
  assumes "t0 \<le> t" "0 < t0" "c = 0 \<or> 16934400 / 4294967296 \<le> c"
  shows "(t * c * 44100) / 1000 = 0 \<or> t0 * (16934400 / 4294967296) * 44100 / 1000 \<le> (t * c * 44100) / 1000"
proof (cases "c = 0")
  case True
  then show ?thesis by simp
next
  case False
  then have c: "16934400 / 4294967296 \<le> c" using assms by blast
  have h: "t0 * (16934400 / 4294967296) \<le> t * c"
    using assms(1,2) c by (intro mult_mono) simp_all
  have "t0 * (16934400 / 4294967296) * 44100 / 1000 \<le> t * c * 44100 / 1000"
    by (intro divide_right_mono mult_right_mono h) simp_all
  then show ?thesis by (rule disjI2)
qed

lemma lut_ar_cases:
  assumes "clk < 2 ^ 32" "4 \<le> i" "i < 64"
  shows "init_lut_ar clk i = 0 \<or> 1217 / 100000 \<le> init_lut_ar clk i"
proof -
  have "(ARTime ! i * clock_correction clk * 44100) / 1000 = 0 \<or>
        (7 / 100) * (16934400 / 4294967296) * 44100 / 1000
          \<le> (ARTime ! i * clock_correction clk * 44100) / 1000"
    by (rule table_time_cases [OF ARTime_ge [OF assms(2,3)] _ clock_correction_cases [OF assms(1)]])
       simp
  moreover have "(1217 / 100000 :: real) \<le> (7 / 100) * (16934400 / 4294967296) * 44100 / 1000"
    by simp
  ultimately show ?thesis unfolding init_lut_ar_def by linarith
qed

lemma lut_dc_cases:
  assumes "clk < 2 ^ 32" "4 \<le> i" "i < 64"
  shows "init_lut_dc clk i = 0 \<or> 1217 / 100000 \<le> init_lut_dc clk i"
proof -
  have "(DCTime ! i * clock_correction clk * 44100) / 1000 = 0 \<or>
        (569 / 100) * (16934400 / 4294967296) * 44100 / 1000
          \<le> (DCTime ! i * clock_correction clk * 44100) / 1000"
    by (rule table_time_cases [OF DCTime_ge [OF assms(2,3)] _ clock_correction_cases [OF assms(1)]])
       simp
  moreover have "(1217 / 100000 :: real) \<le> (569 / 100) * (16934400 / 4294967296) * 44100 / 1000"
    by simp
  ultimately show ?thesis unfolding init_lut_dc_def by linarith
qed

lemma env_step_range:
  fixes num tab :: real
  assumes "0 \<le> num" "num \<le> 255" "rate < 4 \<or> tab = 0 \<or> 1217 / 100000 \<le> tab"
  shows "0 \<le> env_step rate num tab \<and> env_step rate num tab \<le> 2130771967"
proof (cases "rate < 4 \<or> tab = 0")
  case True
  then show ?thesis
    by (auto simp: env_step_def double_to_int_def trunc_real_def s32_def)
next
  case False
  then have t: "1217 / 100000 \<le> tab" and r: "\<not> rate < 4" using assms(3) by auto
  have tp: "0 < tab" using t by simp
  have "num / tab \<le> 255 / (1217 / 100000)"
    using assms(1,2) t tp by (intro frac_le) simp_all
  then have u: "(num / tab) * 65536 \<le> 1373200000" by simp
  have l: "0 \<le> (num / tab) * 65536" using assms(1) tp by simp
  have fl: "0 \<le> \<lfloor>(num / tab) * 65536\<rfloor>" using l by simp
  have fu: "\<lfloor>(num / tab) * 65536\<rfloor> \<le> 1373200000"
    using u by (simp add: floor_le_iff)
  have "s32 \<lfloor>(num / tab) * 65536\<rfloor> = \<lfloor>(num / tab) * 65536\<rfloor>"
    using fl fu by (intro s32_id) linarith+
  then show ?thesis
    using r l fl fu by (simp add: env_step_def double_to_int_def trunc_real_def)
qed

lemma env_step_ar:
  assumes "clk < 2 ^ 32" "0 \<le> r" "r \<le> 63"
  shows "0 \<le> env_step r 255 (init_lut_ar clk (nat r)) \<and>
         env_step r 255 (init_lut_ar clk (nat r)) \<le> 2130771967"
proof (rule env_step_range)
  show "r < 4 \<or> init_lut_ar clk (nat r) = 0 \<or> 1217 / 100000 \<le> init_lut_ar clk (nat r)"
  proof (cases "r < 4")
    case False
    then have "4 \<le> nat r" "nat r < 64" using assms by simp_all
    then show ?thesis using lut_ar_cases [OF assms(1)] by blast
  qed simp
qed simp_all

lemma env_step_dc:
  assumes "clk < 2 ^ 32" "0 \<le> r" "r \<le> 63" "0 \<le> num" "num \<le> 255"
  shows "0 \<le> env_step r num (init_lut_dc clk (nat r)) \<and>
         env_step r num (init_lut_dc clk (nat r)) \<le> 2130771967"
proof (rule env_step_range)
  show "r < 4 \<or> init_lut_dc clk (nat r) = 0 \<or> 1217 / 100000 \<le> init_lut_dc clk (nat r)"
  proof (cases "r < 4")
    case False
    then have "4 \<le> nat r" "nat r < 64" using assms by simp_all
    then show ?thesis using lut_dc_cases [OF assms(1)] by blast
  qed simp
qed (use assms in simp_all)

lemma init_envelope_inv:
  assumes ar: "lut_ar chip = init_lut_ar clk" and dc: "lut_dc chip = init_lut_dc clk"
      and clk: "clk < 2 ^ 32" and lvl: "decay1lvl s \<le> 15"
  shows "env_inv (init_envelope chip s)"
proof -
  note r = get_keyscaled_rate_range
  have n: "0 \<le> real_of_int (255 - (255 - int (push_bit 4 (decay1lvl s))))"
          "real_of_int (255 - (255 - int (push_bit 4 (decay1lvl s)))) \<le> 255"
    using lvl by (simp_all add: push_bit_eq_mult)
  have a: "0 \<le> env_step (get_keyscaled_rate x kc ks) 255
                  (init_lut_ar clk (nat (get_keyscaled_rate x kc ks))) \<and>
           env_step (get_keyscaled_rate x kc ks) 255
                  (init_lut_ar clk (nat (get_keyscaled_rate x kc ks))) \<le> 2130771967"
    for x kc ks
    using env_step_ar [OF clk] r by blast
  have d: "0 \<le> env_step (get_keyscaled_rate x kc ks) num
                  (init_lut_dc clk (nat (get_keyscaled_rate x kc ks))) \<and>
           env_step (get_keyscaled_rate x kc ks) num
                  (init_lut_dc clk (nat (get_keyscaled_rate x kc ks))) \<le> 2130771967"
    if "0 \<le> num" "num \<le> 255" for x kc ks num
    using env_step_dc [OF clk _ _ that] r by blast
  have d255: "0 \<le> env_step (get_keyscaled_rate x kc ks) 255
                  (init_lut_dc clk (nat (get_keyscaled_rate x kc ks))) \<and>
           env_step (get_keyscaled_rate x kc ks) 255
                  (init_lut_dc clk (nat (get_keyscaled_rate x kc ks))) \<le> 2130771967"
    for x kc ks
    using d [of 255] by simp
  have le: "v \<le> 2130771967 \<Longrightarrow> v \<le> 2147483647" for v :: int by simp
  show ?thesis
    unfolding env_inv_def init_envelope_def Let_def
    using a d [OF n] d255
    by (simp add: ar dc ENV_VOLUME_SHIFT_def push_bit_eq_mult le)
qed

text \<open>
  Key-on (\<^verbatim>\<open>init_envelope\<close>, with the rate tables that \<^verbatim>\<open>init_tables\<close> builds
  for any 32-bit clock) computes four non-negative steps and starts the volume at
  \<open>(255 - 160) << 16\<close>, which establishes the envelope invariant; an envelope update
  keeps the invariant and moves the volume in the direction of its stage.
\<close>

lemma envelope_inv_step:
  "(lut_ar chip = init_lut_ar clk \<and> lut_dc chip = init_lut_dc clk \<and> clk < 2 ^ 32 \<and>
    decay1lvl s0 \<le> 15 \<longrightarrow> env_inv (init_envelope chip s0)) \<and>
   (env_inv s \<longrightarrow>
      env_inv (update_envelope s) \<and> 0 \<le> volume (update_envelope s) \<and>
      (env_state s = ENV_ATTACK \<longrightarrow> volume s \<le> volume (update_envelope s)) \<and>
      (env_state s = ENV_DECAY1 \<or> env_state s = ENV_DECAY2 \<or> env_state s = ENV_RELEASE \<longrightarrow>
         volume (update_envelope s) \<le> volume s))"
proof -
  have "0 \<le> volume (update_envelope s)" if "env_inv s"
    using update_envelope_monotone_inv(1) [OF that] by (simp add: env_inv_def)
  then show ?thesis
    using init_envelope_inv update_envelope_monotone_inv by blast
qed

lemma acc_test_slot_inv: "env_inv acc_test_slot"
  by (simp add: env_inv_def acc_test_slot_def slot_zero_def)

lemma envelope_inv_step_example:
  "lut_ar (device_start_ymf271 16934400) = init_lut_ar 16934400 \<and>
   lut_dc (device_start_ymf271 16934400) = init_lut_dc 16934400 \<and>
   (16934400::nat) < 2 ^ 32 \<and> decay1lvl env_test_slot \<le> 15 \<and>
   env_inv (init_envelope (device_start_ymf271 16934400) env_test_slot) \<and>
   env_state (init_envelope (device_start_ymf271 16934400) env_test_slot) = ENV_ATTACK \<and>
   volume (init_envelope (device_start_ymf271 16934400) env_test_slot) = 6225920 \<and>
   6225920 \<le> volume (update_envelope
                        (init_envelope (device_start_ymf271 16934400) env_test_slot)) \<and>
   env_inv acc_test_slot \<and> env_state acc_test_slot = ENV_RELEASE \<and>
   volume acc_test_slot = 32213 \<and>
   volume (update_envelope acc_test_slot) \<le> 32213"
proof -
  let ?c = "device_start_ymf271 16934400"
  have h: "lut_ar ?c = init_lut_ar 16934400 \<and> lut_dc ?c = init_lut_dc 16934400 \<and>
           (16934400::nat) < 2 ^ 32 \<and> decay1lvl env_test_slot \<le> 15"
    by (simp add: device_start_fields env_test_slot_def slot_zero_def)
  have i: "env_inv (init_envelope ?c env_test_slot)"
    using envelope_inv_step [of ?c 16934400 env_test_slot acc_test_slot] h by blast
  have st: "env_state (init_envelope ?c env_test_slot) = ENV_ATTACK"
           "volume (init_envelope ?c env_test_slot) = 6225920"
    by (simp_all add: init_envelope_def Let_def ENV_VOLUME_SHIFT_def push_bit_eq_mult)
  have up: "volume (init_envelope ?c env_test_slot)
              \<le> volume (update_envelope (init_envelope ?c env_test_slot))"
    using envelope_inv_step [of ?c 16934400 env_test_slot "init_envelope ?c env_test_slot"]
          i st(1) by blast
  have dn: "volume (update_envelope acc_test_slot) \<le> volume acc_test_slot"
    using envelope_inv_step [of ?c 16934400 env_test_slot acc_test_slot]
          acc_test_slot_inv acc_test_slot_fields(9) by blast
  show ?thesis
    using h i st up dn acc_test_slot_inv acc_test_slot_fields(9,10) by simp
qed

section \<open>The FM operator does not read the active flag\<close>

lemma update_envelope_active_indep:
  "volume (update_envelope (s\<lparr>active := a\<rparr>)) = volume (update_envelope s)"
  "env_state (update_envelope (s\<lparr>active := a\<rparr>)) = env_state (update_envelope s)"
  "update_envelope (s\<lparr>active := a\<rparr>)\<lparr>active := b\<rparr> = (update_envelope s)\<lparr>active := b\<rparr>"
  by (simp_all add: update_envelope_def check_envelope_end_def Let_def split: prod.splits)

lemma update_lfo_active:
  "update_lfo chip (s\<lparr>active := a\<rparr>) = (update_lfo chip s)\<lparr>active := a\<rparr>"
  by (simp add: update_lfo_def Let_def calculate_step_def)

lemma update_lfo_chip_slots:
  "update_lfo (chip\<lparr>slots := f\<rparr>) s = update_lfo chip s"
  by (simp add: update_lfo_def Let_def calculate_step_def)

lemma calculate_slot_volume_active:
  "calculate_slot_volume (chip\<lparr>slots := f\<rparr>) (s\<lparr>active := a\<rparr>) = calculate_slot_volume chip s"
  by (simp add: calculate_slot_volume_def Let_def)

lemma update_envelope_active_ex:
  "\<exists>b. update_envelope (s\<lparr>active := a\<rparr>) = (update_envelope s)\<lparr>active := b\<rparr>"
proof -
  let ?u = "update_envelope (s\<lparr>active := a\<rparr>)"
  have "?u = ?u\<lparr>active := active ?u\<rparr>" by simp
  also have "\<dots> = (update_envelope s)\<lparr>active := active ?u\<rparr>"
    by (rule update_envelope_active_indep(3))
  finally show ?thesis by blast
qed

text \<open>
  The sample that \<^verbatim>\<open>calculate_op\<close> returns is the same whatever the active flag of
  the slot is: the operator path has no test of the flag.
\<close>

lemma calculate_op_ignores_active:
  "fst (calculate_op (chip\<lparr>slots := (slots chip)(n := (slots chip n)\<lparr>active := a\<rparr>)\<rparr>) n inp)
     = fst (calculate_op chip n inp)"
proof -
  obtain b where b: "update_envelope ((slots chip n)\<lparr>active := a\<rparr>)
                       = (update_envelope (slots chip n))\<lparr>active := b\<rparr>"
    using update_envelope_active_ex by blast
  show ?thesis
    by (simp add: calculate_op_def Let_def b update_lfo_active update_lfo_chip_slots
          calculate_slot_volume_active split: prod.splits)
qed

section \<open>The envelope invariant holds in every reachable state\<close>

lemma env_inv_slot_zero: "env_inv slot_zero \<and> decay1lvl slot_zero \<le> 15"
  by (simp add: env_inv_def slot_zero_def)

lemma env_inv_cong:
  assumes "volume s' = volume s" "env_attack_step s' = env_attack_step s"
          "env_decay1_step s' = env_decay1_step s" "env_decay2_step s' = env_decay2_step s"
          "env_release_step s' = env_release_step s"
  shows "env_inv s' = env_inv s"
  by (simp add: env_inv_def assms)

lemma env_inv_init_lfo: "env_inv (init_lfo chip s) = env_inv s"
  by (rule env_inv_cong) (simp_all add: init_lfo_def)

lemma env_inv_calculate_step: "env_inv (calculate_step chip s) = env_inv s"
  by (rule env_inv_cong) (simp_all add: calculate_step_def Let_def)

lemma decay1lvl_frame:
  "decay1lvl (init_envelope chip s) = decay1lvl s"
  "decay1lvl (init_lfo chip s) = decay1lvl s"
  "decay1lvl (calculate_step chip s) = decay1lvl s"
  by (simp_all add: init_envelope_def init_lfo_def calculate_step_def Let_def)

lemma init_envelope_chip_cong:
  "lut_ar c' = lut_ar c \<Longrightarrow> lut_dc c' = lut_dc c \<Longrightarrow> init_envelope c' s = init_envelope c s"
  by (simp add: init_envelope_def)

lemma and_15_le: "(x::nat) AND 15 \<le> 15"
proof -
  have "(15::nat) = mask 4" by (simp add: mask_eq_exp_minus_1)
  then have "x AND 15 = take_bit 4 x" by (simp add: take_bit_eq_mask)
  also have "\<dots> < 16" by (simp add: take_bit_eq_mod)
  finally show ?thesis by simp
qed

lemma keyon_slot_ok:
  assumes "lut_ar chip = init_lut_ar clk" "lut_dc chip = init_lut_dc clk" "clk < 2 ^ 32"
      and "decay1lvl s \<le> 15"
  shows "env_inv (calculate_step chip (init_lfo chip (init_envelope chip s))) \<and>
         decay1lvl (calculate_step chip (init_lfo chip (init_envelope chip s))) \<le> 15"
  using init_envelope_inv [OF assms]
  by (simp add: env_inv_calculate_step env_inv_init_lfo decay1lvl_frame assms(4))

lemma env_inv_fb:
  "env_inv (s\<lparr>feedback_modulation0 := a, feedback_modulation1 := b\<rparr>) = env_inv s"
  by (rule env_inv_cong) simp_all

lemma chip_env_okI:
  assumes "clk < 2 ^ 32" "lut_ar chip = init_lut_ar clk" "lut_dc chip = init_lut_dc clk"
      and "\<And>n. env_inv (slots chip n) \<and> decay1lvl (slots chip n) \<le> 15"
  shows "chip_env_ok clk chip"
  using assms by (simp add: chip_env_ok_def)

lemma chip_env_ok_slot_upd:
  assumes "chip_env_ok clk chip" "env_inv s" "decay1lvl s \<le> 15"
  shows "chip_env_ok clk (chip\<lparr>slots := (slots chip)(k := s)\<rparr>)"
  using assms by (simp add: chip_env_ok_def)

lemma chip_env_ok_keyon_slot:
  assumes ok: "chip_env_ok clk chip" and s: "decay1lvl s \<le> 15"
  shows "env_inv (calculate_step chip (init_lfo chip (init_envelope chip s))) \<and>
         decay1lvl (calculate_step chip (init_lfo chip (init_envelope chip s))) \<le> 15"
  using ok by (intro keyon_slot_ok [of chip clk] s) (simp_all add: chip_env_ok_def)

lemma keyon_other_slot_ok:
  assumes ok: "chip_env_ok clk chip"
  shows "chip_env_ok clk (keyon_other_slot k chip)"
proof -
  let ?s = "(slots chip k)\<lparr>step := 0, stepptr := 0, loop_direction := 1\<rparr>"
  let ?t = "calculate_step chip (init_lfo chip (init_envelope chip ?s))"
  have d: "decay1lvl ?s \<le> 15" using ok by (simp add: chip_env_ok_def)
  have t: "env_inv ?t \<and> decay1lvl ?t \<le> 15" by (rule chip_env_ok_keyon_slot [OF ok d])
  have e: "keyon_other_slot k chip =
             chip\<lparr>slots := (slots chip)(k := ?t\<lparr>feedback_modulation0 := 0,
                                                   feedback_modulation1 := 0\<rparr>)\<rparr>"
    by (simp add: keyon_other_slot_def Let_def)
  show ?thesis unfolding e
    using t by (intro chip_env_ok_slot_upd [OF ok]) (simp_all add: env_inv_fb)
qed

lemma fold_keyon_other_ok:
  "chip_env_ok clk chip \<Longrightarrow>
   chip_env_ok clk (fold (\<lambda>i. keyon_other_slot (g + i * 12)) xs chip)"
  by (induction xs arbitrary: chip) (simp_all add: keyon_other_slot_ok)

lemma calculate_status_end_ok:
  "chip_env_ok clk chip \<Longrightarrow> chip_env_ok clk (calculate_status_end chip n st)"
  by (simp add: chip_env_ok_def calculate_status_end_def Let_def)

lemma key_on_ok:
  assumes ok: "chip_env_ok clk chip"
  shows "chip_env_ok clk (key_on chip m)"
proof -
  let ?s = "(slots chip m)\<lparr>step := 0, stepptr := 0, active := 1, loop_direction := 1\<rparr>"
  let ?t = "calculate_step chip (init_lfo chip (init_envelope chip ?s))"
  let ?c1 = "chip\<lparr>slots := (slots chip)(m := ?t)\<rparr>"
  let ?c2 = "calculate_status_end ?c1 m 0"
  let ?c3 = "?c2\<lparr>slots := (slots ?c2)(m :=
                 (slots ?c2 m)\<lparr>feedback_modulation0 := 0, feedback_modulation1 := 0\<rparr>)\<rparr>"
  have d: "decay1lvl ?s \<le> 15" using ok by (simp add: chip_env_ok_def)
  have t: "env_inv ?t \<and> decay1lvl ?t \<le> 15" by (rule chip_env_ok_keyon_slot [OF ok d])
  have c1: "chip_env_ok clk ?c1" using t by (intro chip_env_ok_slot_upd [OF ok]) simp_all
  have c2: "chip_env_ok clk ?c2" by (rule calculate_status_end_ok [OF c1])
  have c3: "chip_env_ok clk ?c3"
    using c2 by (intro chip_env_ok_slot_upd [OF c2]) (simp_all add: chip_env_ok_def env_inv_fb)
  note fo = fold_keyon_other_ok [OF c3]
  note ko = keyon_other_slot_ok [OF c3]
  have "key_on chip m =
          (let sy = sync (groups ?c3 (m mod 12)) in
           if sy = 0 \<and> m div 12 = 0 then
             fold (\<lambda>i. keyon_other_slot (m mod 12 + i * 12)) [1..<4] ?c3
           else if sy = 1 then
             (if m div 12 = 0 then keyon_other_slot (m mod 12 + 2 * 12) ?c3
              else if m div 12 = 1 then keyon_other_slot (m mod 12 + 3 * 12) ?c3
              else ?c3)
           else if sy = 2 \<and> m div 12 = 0 then
             fold (\<lambda>i. keyon_other_slot (m mod 12 + i * 12)) [1..<3] ?c3
           else ?c3)"
    by (simp add: key_on_def Let_def)
  then show ?thesis
    using fo ko c3 by (simp add: Let_def del: fold_simps upt_Suc split: if_splits)
qed

lemma env_inv_field_upd:
  "env_inv (s\<lparr>ext_en := a, ext_out := b\<rparr>) = env_inv s"
  "env_inv (s\<lparr>env_state := e\<rparr>) = env_inv s"
  by (simp_all add: env_inv_def)

lemma write_register_ok:
  assumes ok: "chip_env_ok clk chip"
  shows "chip_env_ok clk (write_register chip m reg data)"
proof (cases "reg = 0")
  case True
  let ?s1 = "(slots chip m)\<lparr>ext_en := (if data AND 0x80 \<noteq> 0 then 1 else 0),
                             ext_out := drop_bit 3 data AND 0xf\<rparr>"
  have s1: "env_inv ?s1" "decay1lvl ?s1 \<le> 15"
    using ok by (simp_all add: chip_env_ok_def env_inv_def)
  have p: "chip_env_ok clk (chip\<lparr>slots := (slots chip)(m := ?s1)\<rparr>)"
    by (rule chip_env_ok_slot_upd [OF ok s1])
  have r: "chip_env_ok clk (chip\<lparr>slots := (slots chip)(m := ?s1\<lparr>env_state := ENV_RELEASE\<rparr>)\<rparr>)"
    using s1 by (intro chip_env_ok_slot_upd [OF ok]) (simp_all add: env_inv_def)
  show ?thesis
    using True p r key_on_ok [OF p, of m] by (simp add: write_register_def Let_def)
next
  case False
  have "env_inv (slots (write_register chip m reg data) n) \<and>
        decay1lvl (slots (write_register chip m reg data) n) \<le> 15" for n
    using ok False and_15_le [of "drop_bit 4 data"]
    by (simp add: write_register_def Let_def chip_env_ok_def env_inv_def)
  moreover have "lut_ar (write_register chip m reg data) = lut_ar chip"
                "lut_dc (write_register chip m reg data) = lut_dc chip"
    using False by (simp_all add: write_register_def Let_def)
  ultimately show ?thesis using ok by (simp add: chip_env_ok_def)
qed

lemma write_fm_ok:
  "chip_env_ok clk chip \<Longrightarrow> chip_env_ok clk (ymf271_write_fm chip bank address data)"
  by (simp add: ymf271_write_fm_def Let_def write_register_ok)

lemma write_pcm_ok:
  assumes ok: "chip_env_ok clk chip"
  shows "chip_env_ok clk (ymf271_write_pcm chip address data)"
  using ok by (simp add: ymf271_write_pcm_def Let_def chip_env_ok_def env_inv_def)

lemma timer_reset_ok:
  "chip_env_ok clk chip \<Longrightarrow> chip_env_ok clk (timer_a_reset chip)"
  "chip_env_ok clk chip \<Longrightarrow> chip_env_ok clk (timer_b_reset chip)"
  by (simp_all add: timer_a_reset_def timer_b_reset_def Let_def irq_call_def chip_env_ok_def)

lemma write_timer_ok:
  assumes ok: "chip_env_ok clk chip"
  shows "chip_env_ok clk (ymf271_write_timer chip address data)"
proof -
  have e: "chip_env_ok clk (c\<lparr>enable := d\<rparr>) = chip_env_ok clk c" for c d
    by (simp add: chip_env_ok_def)
  show ?thesis
    using ok timer_reset_ok [of clk chip] timer_reset_ok(2) [of clk "timer_a_reset chip"]
    by (simp add: ymf271_write_timer_def Let_def e) (simp add: chip_env_ok_def)
qed

lemma ymf271_w_ok:
  assumes ok: "chip_env_ok clk chip"
  shows "chip_env_ok clk (ymf271_w chip port data)"
proof -
  have r: "chip_env_ok clk (chip\<lparr>regs_main := f\<rparr>)" for f
    using ok by (simp add: chip_env_ok_def)
  show ?thesis
    by (simp add: ymf271_w_def Let_def write_fm_ok write_pcm_ok write_timer_ok r)
qed

lemma ymf271_r_ok:
  "chip_env_ok clk chip \<Longrightarrow> chip_env_ok clk (snd (ymf271_r chip port))"
  by (simp add: ymf271_r_def Let_def chip_env_ok_def)

lemma device_reset_ok:
  assumes ok: "chip_env_ok clk chip"
  shows "chip_env_ok clk (device_reset_ymf271 chip)"
proof -
  have l: "lut_ar (fold reset_slot xs c) = lut_ar c \<and> lut_dc (fold reset_slot xs c) = lut_dc c"
    for xs c
    by (induction xs arbitrary: c) (simp_all add: reset_slot_def)
  have "lut_ar (device_reset_ymf271 chip) = lut_ar chip"
       "lut_dc (device_reset_ymf271 chip) = lut_dc chip"
    by (simp_all add: device_reset_ymf271_def Let_def irq_call_def l)
  then show ?thesis
    using ok by (simp add: chip_env_ok_def reset_slots env_inv_def)
qed

lemma timer_tick_ok:
  "chip_env_ok clk chip \<Longrightarrow> chip_env_ok clk (ymf271_timer_a_tick chip)"
  "chip_env_ok clk chip \<Longrightarrow> chip_env_ok clk (ymf271_timer_b_tick chip)"
  by (simp_all add: ymf271_timer_a_tick_def ymf271_timer_b_tick_def Let_def irq_call_def
        chip_env_ok_def)

lemma rom_ok:
  "chip_env_ok clk chip \<Longrightarrow> chip_env_ok clk (ymf271_alloc_rom chip memsize)"
  "chip_env_ok clk chip \<Longrightarrow> chip_env_ok clk (ymf271_write_rom chip offset bytes)"
  by (simp_all add: ymf271_alloc_rom_def ymf271_write_rom_def Let_def chip_env_ok_def)

lemma device_start_ok: "clk < 2 ^ 32 \<Longrightarrow> chip_env_ok clk (device_start_ymf271 clk)"
  using env_inv_slot_zero by (simp add: chip_env_ok_def device_start_fields)

lemma env_inv_update_lfo: "env_inv (update_lfo chip s) = env_inv s"
  by (rule env_inv_cong) (simp_all add: update_lfo_def calculate_step_def Let_def)

lemma decay1lvl_update:
  "decay1lvl (update_envelope s) = decay1lvl s"
  "decay1lvl (update_lfo chip s) = decay1lvl s"
  by (simp_all add: update_envelope_def check_envelope_end_def update_lfo_def
        calculate_step_def Let_def split: prod.splits)

lemma env_inv_stepptr: "env_inv (s\<lparr>stepptr := x\<rparr>) = env_inv s"
  by (simp add: env_inv_def)

lemma pcm_loop_ok:
  "chip_env_ok clk chip \<Longrightarrow> chip_env_ok clk (pcm_loop n chip)"
  by (simp add: pcm_loop_def Let_def calculate_status_end_ok chip_env_ok_slot_upd)
     (simp add: chip_env_ok_def env_inv_def calculate_status_end_def Let_def)

lemma update_pcm_sample_ok:
  assumes ok: "chip_env_ok clk chip"
  shows "chip_env_ok clk (update_pcm_sample n i chip)"
proof -
  let ?c1 = "pcm_loop n chip"
  let ?s2 = "update_lfo ?c1 (update_envelope (slots ?c1 n))"
  have c1: "chip_env_ok clk ?c1" by (rule pcm_loop_ok [OF ok])
  then have s: "env_inv (slots ?c1 n)" "decay1lvl (slots ?c1 n) \<le> 15"
    by (simp_all add: chip_env_ok_def)
  have s2: "env_inv ?s2" "decay1lvl ?s2 \<le> 15"
    using update_envelope_monotone_inv(1) [OF s(1)] s(2)
    by (simp_all add: env_inv_update_lfo decay1lvl_update)
  have l: "lut_ar (update_pcm_sample n i chip) = lut_ar ?c1"
          "lut_dc (update_pcm_sample n i chip) = lut_dc ?c1"
    by (simp_all add: update_pcm_sample_def Let_def pcm_mix_acc_def pcm_mix_direct_def)
  have o: "slots (update_pcm_sample n i chip) k = slots ?c1 k" if "k \<noteq> n" for k
    using that by (simp add: update_pcm_sample_def Let_def pcm_mix_slots)
  have m: "env_inv (slots (update_pcm_sample n i chip) n) \<and>
           decay1lvl (slots (update_pcm_sample n i chip) n) \<le> 15"
    using s2 by (simp add: update_pcm_sample_slot Let_def env_inv_stepptr)
  show ?thesis
  proof (rule chip_env_okI)
    show "clk < 2 ^ 32" using ok by (simp add: chip_env_ok_def)
    show "lut_ar (update_pcm_sample n i chip) = init_lut_ar clk"
         "lut_dc (update_pcm_sample n i chip) = init_lut_dc clk"
      using c1 by (simp_all add: l chip_env_ok_def)
    show "env_inv (slots (update_pcm_sample n i chip) k) \<and>
          decay1lvl (slots (update_pcm_sample n i chip) k) \<le> 15" for k
      using m o [of k] c1 by (cases "k = n") (simp_all add: chip_env_ok_def)
  qed
qed

lemma update_pcm_ok:
  assumes ok: "chip_env_ok clk chip"
  shows "chip_env_ok clk (update_pcm chip n len)"
proof -
  have "chip_env_ok clk c \<Longrightarrow> chip_env_ok clk (fold (update_pcm_sample n) xs c)" for xs c
    by (induction xs arbitrary: c) (simp_all add: update_pcm_sample_ok)
  then show ?thesis using ok by (simp add: update_pcm_def)
qed

lemma op_slot_ok:
  assumes "env_inv s" "decay1lvl s \<le> 15"
  shows "env_inv (update_lfo chip (update_envelope s)) \<and>
         decay1lvl (update_lfo chip (update_envelope s)) \<le> 15"
  using update_envelope_monotone_inv(1) [OF assms(1)] assms(2)
  by (simp add: env_inv_update_lfo decay1lvl_update)

lemma env_inv_fb0_stepptr:
  "env_inv (s\<lparr>feedback_modulation0 := a\<rparr>) = env_inv s"
  "env_inv (s\<lparr>feedback_modulation1 := a\<rparr>) = env_inv s"
  by (simp_all add: env_inv_def)

lemma calculate_op_ok:
  assumes ok: "chip_env_ok clk chip"
  shows "chip_env_ok clk (snd (calculate_op chip n inp))"
proof -
  have s: "env_inv (slots chip n)" "decay1lvl (slots chip n) \<le> 15"
    using ok by (simp_all add: chip_env_ok_def)
  note t = op_slot_ok [OF s, of chip]
  show ?thesis
    using t by (auto simp: calculate_op_def Let_def env_inv_stepptr env_inv_fb0_stepptr
                  split: prod.splits if_splits intro!: chip_env_ok_slot_upd [OF ok])
qed

lemma calculate_op_pfm_ok:
  assumes ok: "chip_env_ok clk chip"
  shows "chip_env_ok clk (snd (calculate_op_pfm chip n inp))"
proof -
  have s: "env_inv (slots chip n)" "decay1lvl (slots chip n) \<le> 15"
    using ok by (simp_all add: chip_env_ok_def)
  note t = op_slot_ok [OF s, of chip]
  show ?thesis
    using t by (auto simp: calculate_op_pfm_def Let_def env_inv_stepptr env_inv_fb0_stepptr
                  split: prod.splits if_splits intro!: chip_env_ok_slot_upd [OF ok])
qed

lemma set_feedback_ok:
  assumes ok: "chip_env_ok clk chip"
  shows "chip_env_ok clk (set_feedback chip n inp)"
  using ok unfolding set_feedback_def Let_def
  by (intro chip_env_ok_slot_upd) (simp_all add: chip_env_ok_def env_inv_fb0_stepptr)

lemma reachable_env_ok: "reachable clk chip \<Longrightarrow> chip_env_ok clk chip"
proof (induction rule: reachable.induct)
  case r_start
  then show ?case by (rule device_start_ok)
next
  case (r_buffers c m a)
  then show ?case by (simp add: chip_env_ok_def)
qed (simp_all add: ymf271_w_ok ymf271_r_ok device_reset_ok timer_tick_ok rom_ok update_pcm_ok
       calculate_op_ok calculate_op_pfm_ok set_feedback_ok)

lemma env_step_62: "env_step 62 255 (init_lut_ar 16934400 62) = 881278"
  by (simp add: env_step_def init_lut_ar_def ARTime_def clock_correction_def STD_CLOCK_def
        double_to_int_def trunc_real_def s32_def)

lemma keyon_test_pre_fields:
  "slots keyon_test_pre 0 = slot_zero\<lparr>ar := 31\<rparr>"
  "lut_ar keyon_test_pre = init_lut_ar 16934400"
  "sync (groups keyon_test_pre g) = 0"
  by (simp_all add: keyon_test_pre_def ymf271_w_def Let_def ymf271_write_fm_def fm_tab_def
        is_sync_reg_def device_start_fields write_register_def slot_zero_def)

lemma keyon_test_chip_eq:
  "keyon_test_chip =
     ymf271_write_fm (keyon_test_pre\<lparr>regs_main := (regs_main keyon_test_pre)(0 := 0, 1 := 1)\<rparr>)
       0 0 1"
  by (simp add: keyon_test_chip_def ymf271_w_def Let_def)

lemma keyon_test_slot0:
  "slots keyon_test_chip 0 =
     (let c = keyon_test_pre\<lparr>regs_main := (regs_main keyon_test_pre)(0 := 0, 1 := 1)\<rparr>
      in slots (write_register c 0 0 1) 0)"
proof -
  let ?c = "keyon_test_pre\<lparr>regs_main := (regs_main keyon_test_pre)(0 := 0, 1 := 1)\<rparr>"
  have v: "fm_tab ! ((0::nat) AND 0xf) = int 0" by (simp add: fm_tab_def)
  have s: "sync (groups ?c 0) = 0" by (simp add: keyon_test_pre_fields)
  have r: "is_sync_reg (drop_bit 4 (0::nat) AND 0xf)" by (simp add: is_sync_reg_def)
  have d: "(1::nat) AND 1 \<noteq> 0" by simp
  have e: "ymf271_write_fm ?c 0 0 1 =
             write_register (write_register (write_register (write_register ?c 0 0 1)
               12 0 1) 24 0 1) 36 0 1"
    using write_fm_sync0 [OF v s r, of 1] by simp
  let ?c1 = "write_register ?c 0 0 1"
  let ?c2 = "write_register ?c1 12 0 1"
  let ?c3 = "write_register ?c2 24 0 1"
  have g1: "sync (groups ?c1 (12 mod 12)) = 0" by (simp add: keyon_test_pre_fields)
  have g2: "sync (groups ?c2 (24 mod 12)) = 0" by (simp add: keyon_test_pre_fields)
  have g3: "sync (groups ?c3 (36 mod 12)) = 0" by (simp add: keyon_test_pre_fields)
  have "slots (write_register ?c3 36 0 1) 0 = slots ?c3 0"
    by (rule write_register_keyon_other [OF d g3]) simp_all
  also have "\<dots> = slots ?c2 0"
    by (rule write_register_keyon_other [OF d g2]) simp_all
  also have "\<dots> = slots ?c1 0"
    by (rule write_register_keyon_other [OF d g1]) simp_all
  finally show ?thesis
    unfolding keyon_test_chip_eq e Let_def .
qed

lemma init_envelope_ar31:
  assumes "waveform s = 0" "block s = 0" "fns s = 0" "keyscale s = 0" "ar s = 31"
      and "lut_ar chip = init_lut_ar 16934400"
  shows "volume (init_envelope chip s) = 6225920"
    and "env_state (init_envelope chip s) = ENV_ATTACK"
    and "env_attack_step (init_envelope chip s) = 881278"
proof -
  have k: "get_keyscaled_rate 62 (get_internal_keycode 0 0) 0 = 62"
    by (simp add: get_keyscaled_rate_def get_internal_keycode_def RKS_Table_def Let_def)
  show "volume (init_envelope chip s) = 6225920"
    by (simp add: init_envelope_def Let_def ENV_VOLUME_SHIFT_def)
  show "env_state (init_envelope chip s) = ENV_ATTACK"
    by (simp add: init_envelope_def Let_def)
  show "env_attack_step (init_envelope chip s) = 881278"
    using assms k env_step_62 by (simp add: init_envelope_def Let_def)
qed

lemma keyon_test_slot0_env:
  "volume (slots keyon_test_chip 0) = 6225920"
  "env_state (slots keyon_test_chip 0) = ENV_ATTACK"
  "env_attack_step (slots keyon_test_chip 0) = 881278"
proof -
  let ?c = "keyon_test_pre\<lparr>regs_main := (regs_main keyon_test_pre)(0 := 0, 1 := 1)\<rparr>"
  let ?c' = "?c\<lparr>slots := (slots ?c)(0 :=
       (slots ?c 0)\<lparr>ext_en := (if (1::nat) AND 0x80 \<noteq> 0 then 1 else 0),
                        ext_out := drop_bit 3 (1::nat) AND 0xf\<rparr>)\<rparr>"
  let ?s = "(slots ?c' 0)\<lparr>step := 0, stepptr := 0, active := 1, loop_direction := 1\<rparr>"
  have d: "(1::nat) AND 1 \<noteq> 0" by simp
  have e: "slots keyon_test_chip 0 =
     (calculate_step ?c' (init_lfo ?c' (init_envelope ?c' ?s)))
       \<lparr>feedback_modulation0 := 0, feedback_modulation1 := 0\<rparr>"
    unfolding keyon_test_slot0 Let_def write_register_0_keyon [OF d] by (rule key_on_self)
  have f: "waveform ?s = 0" "block ?s = 0" "fns ?s = 0" "keyscale ?s = 0" "ar ?s = 31"
    "lut_ar ?c' = init_lut_ar 16934400"
    by (simp_all add: keyon_test_pre_fields slot_zero_def)
  note i = init_envelope_ar31 [OF f]
  show "volume (slots keyon_test_chip 0) = 6225920"
    unfolding e using i(1) by (simp add: init_lfo_env_frame calculate_step_env_frame)
  show "env_state (slots keyon_test_chip 0) = ENV_ATTACK"
    unfolding e using i(2) by (simp add: init_lfo_env_frame calculate_step_env_frame)
  show "env_attack_step (slots keyon_test_chip 0) = 881278"
    unfolding e using i(3) by (simp add: init_lfo_env_frame calculate_step_env_frame)
qed

lemma keyon_test_slot0_update:
  "volume (update_envelope (slots keyon_test_chip 0)) = 7107198"
  by (simp add: update_envelope_def Let_def keyon_test_slot0_env s32_def ENV_VOLUME_SHIFT_def)

lemma keyon_test_reachable: "reachable 16934400 keyon_test_chip"
  unfolding keyon_test_chip_def keyon_test_pre_def
  by (intro reachable.r_write reachable.r_start) simp

text \<open>
  Claim C8. In every reachable chip state, for every slot: the volume lies in
  \<open>[0, 255 << 16]\<close>, and one envelope update leaves it non-negative, does not decrease it
  in the Attack stage and does not increase it in the Decay1, Decay2 and Release stages.
  The steps involved are those that key-on computed, since no other operation writes
  them.
\<close>

theorem envelope_monotone:
  "reachable clk chip \<Longrightarrow>
     0 \<le> volume (slots chip n) \<and> volume (slots chip n) \<le> 16711680 \<and>
     0 \<le> volume (update_envelope (slots chip n)) \<and>
     (env_state (slots chip n) = ENV_ATTACK \<longrightarrow>
        volume (slots chip n) \<le> volume (update_envelope (slots chip n))) \<and>
     (env_state (slots chip n) = ENV_DECAY1 \<or> env_state (slots chip n) = ENV_DECAY2
        \<or> env_state (slots chip n) = ENV_RELEASE \<longrightarrow>
        volume (update_envelope (slots chip n)) \<le> volume (slots chip n))"
proof -
  assume "reachable clk chip"
  then have i: "env_inv (slots chip n)"
    using reachable_env_ok by (simp add: chip_env_ok_def)
  have "env_inv (update_envelope (slots chip n))"
    by (rule update_envelope_monotone_inv(1) [OF i])
  then show ?thesis
    using i update_envelope_monotone_inv(2,3) [OF i] by (simp add: env_inv_def)
qed

theorem envelope_monotone_witness:
  "reachable 16934400 keyon_test_chip \<and>
   env_state (slots keyon_test_chip 0) = ENV_ATTACK \<and>
   volume (slots keyon_test_chip 0) = 6225920 \<and>
   volume (update_envelope (slots keyon_test_chip 0)) = 7107198 \<and>
   volume (slots keyon_test_chip 0) \<le> volume (update_envelope (slots keyon_test_chip 0)) \<and>
   volume (slots keyon_test_chip 0) \<le> 16711680"
  using envelope_monotone [OF keyon_test_reachable, of 0] keyon_test_reachable
    keyon_test_slot0_env keyon_test_slot0_update
  by simp

end
